theory Spec2Isabelle
  imports Complex_Main "HOL-Library.AList" "HOL-Library.Log_Nat"
begin

section \<open>Catalog documents\<close>

text \<open>
  The scripts work on whatever \<^verbatim>\<open>json.load\<close> returns: nested Python dicts, lists,
  strings, numbers, booleans and \<^verbatim>\<open>None\<close>. A dict keeps its insertion order and its keys
  are strings, so it is an association list; \<^verbatim>\<open>json.load\<close> never yields a dict with a
  repeated key. A Python \<^verbatim>\<open>str\<close> is represented by its UTF-8 encoding. A number
  with a fraction or an exponent is loaded as a float, a finite double, and is
  represented by the rational number it is.
\<close>

datatype json =
    JNull
  | JBool bool
  | JInt int
  | JFloat rat
  | JStr string
  | JArr "json list"
  | JObj "(string \<times> json) list"

text \<open>The exceptions the dict and attribute operations of the scripts can raise.\<close>

datatype py_error = KeyError | AttributeError | TypeError | ZeroDivisionError | OverflowError

type_synonym 'a result = "py_error + 'a"

subsection \<open>Python operations on loaded values\<close>

text \<open>\<^verbatim>\<open>d.get(k, default)\<close>: only a dict has the method.\<close>

definition py_get :: "json \<Rightarrow> string \<Rightarrow> json \<Rightarrow> json result" where
  "py_get d k dflt =
     (case d of
        JObj kvs \<Rightarrow> Inr (case map_of kvs k of Some v \<Rightarrow> v | None \<Rightarrow> dflt)
      | _ \<Rightarrow> Inl AttributeError)"

text \<open>\<^verbatim>\<open>d.items()\<close> and \<^verbatim>\<open>d.keys()\<close>.\<close>

definition py_items :: "json \<Rightarrow> (string \<times> json) list result" where
  "py_items d = (case d of JObj kvs \<Rightarrow> Inr kvs | _ \<Rightarrow> Inl AttributeError)"

text \<open>
  \<^verbatim>\<open>d[k]\<close> with a string \<open>k\<close>: a missing key raises KeyError; a list or a string
  wants an integer index and a number, a boolean or \<^verbatim>\<open>None\<close> is not subscriptable,
  all of which are TypeErrors.
\<close>

definition py_getitem :: "json \<Rightarrow> string \<Rightarrow> json result" where
  "py_getitem d k =
     (case d of
        JObj kvs \<Rightarrow> (case map_of kvs k of Some v \<Rightarrow> Inr v | None \<Rightarrow> Inl KeyError)
      | _ \<Rightarrow> Inl TypeError)"

text \<open>
  \<^verbatim>\<open>d[k] = v\<close>: an existing key keeps its position, a new key goes to the end.
\<close>

definition py_setitem :: "json \<Rightarrow> string \<Rightarrow> json \<Rightarrow> json result" where
  "py_setitem d k v =
     (case d of JObj kvs \<Rightarrow> Inr (JObj (AList.update k v kvs)) | _ \<Rightarrow> Inl TypeError)"

text \<open>
  The scripts mutate nested objects in place, as in \<^verbatim>\<open>d[k][k'] = v\<close>: the object
  \<^verbatim>\<open>d[k]\<close> is looked up and changed, and \<open>d\<close> then holds the changed object at the
  same position.
\<close>

definition py_modify :: "json \<Rightarrow> string \<Rightarrow> (json \<Rightarrow> json result) \<Rightarrow> json result" where
  "py_modify d k f =
     (case py_getitem d k of
        Inl e \<Rightarrow> Inl e
      | Inr v \<Rightarrow> (case f v of Inl e \<Rightarrow> Inl e | Inr v' \<Rightarrow> py_setitem d k v'))"

fun is_substring :: "string \<Rightarrow> string \<Rightarrow> bool" where
  "is_substring p [] = (p = [])"
| "is_substring p (c # cs) = (take (length p) (c # cs) = p \<or> is_substring p cs)"

text \<open>
  \<^verbatim>\<open>k in d\<close> with a string \<open>k\<close>: key membership for a dict, element membership
  for a list, substring test for a string, TypeError for anything else.
\<close>

definition py_contains :: "string \<Rightarrow> json \<Rightarrow> bool result" where
  "py_contains k d =
     (case d of
        JObj kvs \<Rightarrow> Inr (k \<in> fst ` set kvs)
      | JArr xs \<Rightarrow> Inr (JStr k \<in> set xs)
      | JStr s \<Rightarrow> Inr (is_substring k s)
      | _ \<Rightarrow> Inl TypeError)"

text \<open>
  \<^verbatim>\<open>len(d)\<close>. The length of a string counts code points: the bytes of its encoding
  that are not continuation bytes (\<open>0x80\<close> to \<open>0xBF\<close>).
\<close>

definition py_len :: "json \<Rightarrow> nat result" where
  "py_len d =
     (case d of
        JObj kvs \<Rightarrow> Inr (length kvs)
      | JArr xs \<Rightarrow> Inr (length xs)
      | JStr s \<Rightarrow> Inr (length (filter (\<lambda>c. (of_char c :: nat) div 64 \<noteq> 2) s))
      | _ \<Rightarrow> Inl TypeError)"

text \<open>
  \<^verbatim>\<open>v == False\<close>: true for \<^verbatim>\<open>False\<close> and, as \<^verbatim>\<open>bool\<close> is a subtype of
  \<^verbatim>\<open>int\<close>, for the numbers \<open>0\<close> and \<open>0.0\<close>.
\<close>

definition py_eq_False :: "json \<Rightarrow> bool" where
  "py_eq_False v = (v = JBool False \<or> v = JInt 0 \<or> v = JFloat 0)"

text \<open>The object \<^verbatim>\<open>{"stringUnit": {"state": "translated", "value": v}}\<close>.\<close>

definition string_unit :: "json \<Rightarrow> json" where
  "string_unit v =
     JObj [(''stringUnit'', JObj [(''state'', JStr ''translated''), (''value'', v)])]"

subsection \<open>Floats\<close>

text \<open>
  A Python float is an IEEE 754 double. A finite double is represented by the rational
  number it is, and the two infinities stand apart. The result of an operation is the
  exact result rounded to the nearest double, ties going to the even significand: 53
  significant bits, exponents down to -1022, below which the doubles are the multiples
  of \<open>pow2 (- 1074)\<close>; a value that rounds to \<open>2 ^ 1024\<close> or beyond is out of range.
\<close>

datatype pyfloat = Finite rat | PosInf | NegInf

definition pow2 :: "int \<Rightarrow> rat" where
  "pow2 e = (if e \<ge> 0 then 2 ^ nat e else 1 / 2 ^ nat (- e))"

text \<open>For a positive \<open>x\<close>, the exponent \<open>e\<close> with \<open>pow2 e \<le> x < pow2 (e + 1)\<close>.\<close>

definition floor_log2 :: "rat \<Rightarrow> int" where
  "floor_log2 x =
     (let e0 = bitlen (fst (quotient_of x)) - bitlen (snd (quotient_of x))
      in if pow2 e0 \<le> x then e0 else e0 - 1)"

definition round_half_even :: "rat \<Rightarrow> int" where
  "round_half_even x =
     (let f = \<lfloor>x\<rfloor>; r = x - of_int f
      in if r < 1 / 2 then f else if r > 1 / 2 then f + 1 else if even f then f else f + 1)"

definition round_double :: "rat \<Rightarrow> rat" where
  "round_double x =
     (if x = 0 then 0
      else
        (let e = max (floor_log2 \<bar>x\<bar>) (- 1022); quantum = pow2 (e - 52)
         in sgn x * of_int (round_half_even (\<bar>x\<bar> / quantum)) * quantum))"

definition double_of :: "rat \<Rightarrow> pyfloat" where
  "double_of x =
     (let r = round_double x
      in if r \<ge> 2 ^ 1024 then PosInf else if r \<le> - (2 ^ 1024) then NegInf else Finite r)"

text \<open>
  \<^verbatim>\<open>a / b\<close> on two ints: the correctly rounded quotient, ZeroDivisionError when
  \<open>b\<close> is zero, OverflowError when the quotient is out of range.
\<close>

definition py_truediv :: "int \<Rightarrow> int \<Rightarrow> rat result" where
  "py_truediv a b =
     (if b = 0 then Inl ZeroDivisionError
      else
        (case double_of (of_int a / of_int b) of
           Finite q \<Rightarrow> Inr q
         | _ \<Rightarrow> Inl OverflowError))"

text \<open>\<^verbatim>\<open>x * y\<close> on two finite floats; it overflows to an infinity and does not raise.\<close>

definition py_float_mul :: "rat \<Rightarrow> rat \<Rightarrow> pyfloat" where
  "py_float_mul x y = double_of (x * y)"

section \<open>Completeness analysis\<close>

text \<open>
  \<^verbatim>\<open>EXPECTED_LANGUAGES\<close> is a Python set. Its members are listed here in the order of
  the source text; the order in which Python iterates a set of strings is not fixed, and
  the results below that concern languages are stated through membership and lookup.
\<close>

definition EXPECTED_LANGUAGES :: "string list" where
  "EXPECTED_LANGUAGES =
     [''ar'', ''de'', ''es'', ''fr'', ''hi'', ''ja'', ''ko'', ''pt'', ''zh-Hans'', ''en'']"

record analysis =
  total_keys :: nat
  complete_keys :: nat
  incomplete_keys :: "string list"
  missing_languages :: "(string \<times> string list) list"
  should_not_translate :: nat
  completion_percentage :: pyfloat

definition initial_analysis :: "nat \<Rightarrow> analysis" where
  "initial_analysis n =
     \<lparr>total_keys = n, complete_keys = 0, incomplete_keys = [], missing_languages = [],
      should_not_translate = 0, completion_percentage = Finite 0\<rparr>"

text \<open>The last step of both \<^verbatim>\<open>analyze_completeness\<close> functions.\<close>

definition calculate_percentage :: "analysis \<Rightarrow> analysis result" where
  "calculate_percentage a =
     (let translatable_keys = int (total_keys a) - int (should_not_translate a)
      in if translatable_keys > 0
         then
           (case py_truediv (int (complete_keys a)) translatable_keys of
              Inl e \<Rightarrow> Inl e
            | Inr q \<Rightarrow> Inr (a\<lparr>completion_percentage := py_float_mul q 100\<rparr>))
         else Inr a)"

text \<open>\<^verbatim>\<open>list(EXPECTED_LANGUAGES - set(localizations.keys()))\<close>.\<close>

definition missing_from :: "(string \<times> json) list \<Rightarrow> string list" where
  "missing_from localizations =
     filter (\<lambda>l. l \<notin> fst ` set localizations) EXPECTED_LANGUAGES"

subsection \<open>localization\_analyzer.py\<close>

text \<open>
  The inner loop of \<^verbatim>\<open>analyze_completeness\<close>: it stops at the first localization
  whose state is not \<^verbatim>\<open>'translated'\<close>.
\<close>

fun all_translated :: "(string \<times> json) list \<Rightarrow> bool result" where
  "all_translated [] = Inr True"
| "all_translated ((lang, loc_data) # rest) =
     (case py_get loc_data ''stringUnit'' (JObj []) of
        Inl e \<Rightarrow> Inl e
      | Inr su \<Rightarrow>
          (case py_get su ''state'' JNull of
             Inl e \<Rightarrow> Inl e
           | Inr st \<Rightarrow> if st \<noteq> JStr ''translated'' then Inr False else all_translated rest))"

text \<open>The body of the loop over \<^verbatim>\<open>strings.items()\<close>.\<close>

definition analyzer_entry :: "analysis \<Rightarrow> string \<Rightarrow> json \<Rightarrow> analysis result" where
  "analyzer_entry a key v =
     (case py_get v ''shouldTranslate'' JNull of
        Inl e \<Rightarrow> Inl e
      | Inr flag \<Rightarrow>
          if py_eq_False flag
          then Inr (a\<lparr>should_not_translate := should_not_translate a + 1\<rparr>)
          else
            (case py_get v ''localizations'' (JObj []) of
               Inl e \<Rightarrow> Inl e
             | Inr locs \<Rightarrow>
                 (case py_items locs of
                    Inl e \<Rightarrow> Inl e
                  | Inr localizations \<Rightarrow>
                      if missing_from localizations \<noteq> []
                      then Inr (a\<lparr>incomplete_keys := incomplete_keys a @ [key],
                                  missing_languages :=
                                    AList.update key (missing_from localizations)
                                      (missing_languages a)\<rparr>)
                      else
                        (case all_translated localizations of
                           Inl e \<Rightarrow> Inl e
                         | Inr ok \<Rightarrow>
                             if ok
                             then Inr (a\<lparr>complete_keys := complete_keys a + 1\<rparr>)
                             else Inr (a\<lparr>incomplete_keys :=
                                          incomplete_keys a @ [key]\<rparr>)))))"

fun analyzer_loop :: "(string \<times> json) list \<Rightarrow> analysis \<Rightarrow> analysis result" where
  "analyzer_loop [] a = Inr a"
| "analyzer_loop ((key, v) # rest) a =
     (case analyzer_entry a key v of Inl e \<Rightarrow> Inl e | Inr a' \<Rightarrow> analyzer_loop rest a')"

definition analyzer_analyze_completeness :: "json \<Rightarrow> analysis result" where
  "analyzer_analyze_completeness data =
     (case py_get data ''strings'' (JObj []) of
        Inl e \<Rightarrow> Inl e
      | Inr strings \<Rightarrow>
          (case py_len strings of
             Inl e \<Rightarrow> Inl e
           | Inr n \<Rightarrow>
               (case py_items strings of
                  Inl e \<Rightarrow> Inl e
                | Inr items \<Rightarrow>
                    (case analyzer_loop items (initial_analysis n) of
                       Inl e \<Rightarrow> Inl e
                     | Inr a \<Rightarrow> calculate_percentage a))))"

subsection \<open>localization\_fixer.py\<close>

definition fixer_entry :: "analysis \<Rightarrow> string \<Rightarrow> json \<Rightarrow> analysis result" where
  "fixer_entry a key v =
     (case py_get v ''shouldTranslate'' JNull of
        Inl e \<Rightarrow> Inl e
      | Inr flag \<Rightarrow>
          if py_eq_False flag
          then Inr (a\<lparr>should_not_translate := should_not_translate a + 1\<rparr>)
          else
            (case py_get v ''localizations'' (JObj []) of
               Inl e \<Rightarrow> Inl e
             | Inr locs \<Rightarrow>
                 (case py_items locs of
                    Inl e \<Rightarrow> Inl e
                  | Inr localizations \<Rightarrow>
                      if missing_from localizations \<noteq> []
                      then Inr (a\<lparr>incomplete_keys := incomplete_keys a @ [key],
                                  missing_languages :=
                                    AList.update key (missing_from localizations)
                                      (missing_languages a)\<rparr>)
                      else Inr (a\<lparr>complete_keys := complete_keys a + 1\<rparr>))))"

fun fixer_loop :: "(string \<times> json) list \<Rightarrow> analysis \<Rightarrow> analysis result" where
  "fixer_loop [] a = Inr a"
| "fixer_loop ((key, v) # rest) a =
     (case fixer_entry a key v of Inl e \<Rightarrow> Inl e | Inr a' \<Rightarrow> fixer_loop rest a')"

definition fixer_analyze_completeness :: "json \<Rightarrow> analysis result" where
  "fixer_analyze_completeness data =
     (case py_get data ''strings'' (JObj []) of
        Inl e \<Rightarrow> Inl e
      | Inr strings \<Rightarrow>
          (case py_len strings of
             Inl e \<Rightarrow> Inl e
           | Inr n \<Rightarrow>
               (case py_items strings of
                  Inl e \<Rightarrow> Inl e
                | Inr items \<Rightarrow>
                    (case fixer_loop items (initial_analysis n) of
                       Inl e \<Rightarrow> Inl e
                     | Inr a \<Rightarrow> calculate_percentage a))))"

subsection \<open>localization\_status.py\<close>

text \<open>
  \<^verbatim>\<open>check_localization_status\<close> after the file is loaded: the counters it prints.
\<close>

record status =
  st_total_keys :: nat
  st_should_not_translate :: nat
  st_complete_keys :: nat

definition status_entry :: "status \<Rightarrow> string \<Rightarrow> json \<Rightarrow> status result" where
  "status_entry s key v =
     (case py_get v ''shouldTranslate'' JNull of
        Inl e \<Rightarrow> Inl e
      | Inr flag \<Rightarrow>
          if py_eq_False flag
          then Inr (s\<lparr>st_should_not_translate := st_should_not_translate s + 1\<rparr>)
          else
            (case py_get v ''localizations'' (JObj []) of
               Inl e \<Rightarrow> Inl e
             | Inr locs \<Rightarrow>
                 (case py_items locs of
                    Inl e \<Rightarrow> Inl e
                  | Inr localizations \<Rightarrow>
                      if set EXPECTED_LANGUAGES \<subseteq> fst ` set localizations
                      then Inr (s\<lparr>st_complete_keys := st_complete_keys s + 1\<rparr>)
                      else Inr s)))"

fun status_loop :: "(string \<times> json) list \<Rightarrow> status \<Rightarrow> status result" where
  "status_loop [] s = Inr s"
| "status_loop ((key, v) # rest) s =
     (case status_entry s key v of Inl e \<Rightarrow> Inl e | Inr s' \<Rightarrow> status_loop rest s')"

text \<open>
  The percentage it prints. The \<^verbatim>\<open>else\<close> branch gives the int \<open>0\<close>, shown here as the
  float it equals.
\<close>

definition status_percentage :: "status \<Rightarrow> pyfloat result" where
  "status_percentage s =
     (let translatable_keys = int (st_total_keys s) - int (st_should_not_translate s)
      in if translatable_keys > 0
         then
           (case py_truediv (int (st_complete_keys s)) translatable_keys of
              Inl e \<Rightarrow> Inl e
            | Inr q \<Rightarrow> Inr (py_float_mul q 100))
         else Inr (Finite 0))"

definition check_localization_status :: "json \<Rightarrow> (status \<times> pyfloat) result" where
  "check_localization_status data =
     (case py_get data ''strings'' (JObj []) of
        Inl e \<Rightarrow> Inl e
      | Inr strings \<Rightarrow>
          (case py_len strings of
             Inl e \<Rightarrow> Inl e
           | Inr n \<Rightarrow>
               (case py_items strings of
                  Inl e \<Rightarrow> Inl e
                | Inr items \<Rightarrow>
                    (case status_loop items
                            \<lparr>st_total_keys = n, st_should_not_translate = 0,
                             st_complete_keys = 0\<rparr> of
                       Inl e \<Rightarrow> Inl e
                     | Inr s \<Rightarrow>
                         (case status_percentage s of
                            Inl e \<Rightarrow> Inl e
                          | Inr completion \<Rightarrow> Inr (s, completion))))))"

section \<open>Repair\<close>

text \<open>A lookup in a phrase table: \<^verbatim>\<open>key in table and lang in table[key]\<close>.\<close>

definition phrase :: "(string \<times> (string \<times> string) list) list \<Rightarrow> string \<Rightarrow> string \<Rightarrow> string option" where
  "phrase table key lang =
     (case map_of table key of None \<Rightarrow> None | Some m \<Rightarrow> map_of m lang)"

subsection \<open>localization\_analyzer.py\<close>

text \<open>\<^verbatim>\<open>translation_map\<close>, local to \<^verbatim>\<open>generate_missing_translations\<close>.\<close>

definition translation_map :: "(string \<times> (string \<times> string) list) list" where
  "translation_map = [
    ('' of '',
     [
      (''ar'', [CHR 0xD9, CHR 0x85, CHR 0xD9, CHR 0x86]),
      (''de'', ''von''),
      (''es'', ''de''),
      (''fr'', ''de''),
      (''hi'', [CHR 0xE0, CHR 0xA4, CHR 0x95, CHR 0xE0, CHR 0xA4, CHR 0xBE]),
      (''ja'', [CHR 0xE3, CHR 0x81, CHR 0xAE]),
      (''ko'', ''~'' @ [CHR 0xEC, CHR 0x9D, CHR 0x98]),
      (''pt'', ''de''),
      (''zh-Hans'', [CHR 0xE7, CHR 0x9A, CHR 0x84]),
      (''en'', '' of '')]),
    (''-'',
     [
      (''ar'', ''-''),
      (''de'', ''-''),
      (''es'', ''-''),
      (''fr'', ''-''),
      (''hi'', ''-''),
      (''ja'', ''-''),
      (''ko'', ''-''),
      (''pt'', ''-''),
      (''zh-Hans'', ''-''),
      (''en'', ''-'')]),
    ('':'',
     [
      (''ar'', '':''),
      (''de'', '':''),
      (''es'', '':''),
      (''fr'', '':''),
      (''hi'', '':''),
      (''ja'', '':''),
      (''ko'', '':''),
      (''pt'', '':''),
      (''zh-Hans'', '':''),
      (''en'', '':'')])]"

text \<open>\<^verbatim>\<open>existing_localizations['en']['stringUnit']['value']\<close>.\<close>

definition english_value_of :: "json \<Rightarrow> json result" where
  "english_value_of existing_localizations =
     (case py_getitem existing_localizations ''en'' of
        Inl e \<Rightarrow> Inl e
      | Inr en \<Rightarrow>
          (case py_getitem en ''stringUnit'' of
             Inl e \<Rightarrow> Inl e
           | Inr su \<Rightarrow> py_getitem su ''value''))"

text \<open>The loop of \<^verbatim>\<open>generate_missing_translations\<close> that fills \<^verbatim>\<open>new_translations\<close>.\<close>

fun new_translations_loop ::
  "string \<Rightarrow> json \<Rightarrow> string list \<Rightarrow> (string \<times> json) list \<Rightarrow> (string \<times> json) list" where
  "new_translations_loop key english_value [] new_translations = new_translations"
| "new_translations_loop key english_value (lang # rest) new_translations =
     new_translations_loop key english_value rest
       (AList.update lang
          (string_unit (case phrase translation_map key lang of
                          Some v \<Rightarrow> JStr v
                        | None \<Rightarrow> english_value))
          new_translations)"

definition generate_missing_translations ::
  "json \<Rightarrow> string \<Rightarrow> string list \<Rightarrow> (string \<times> json) list result" where
  "generate_missing_translations data key missing =
     (case py_getitem data ''strings'' of
        Inl e \<Rightarrow> Inl e
      | Inr strings \<Rightarrow>
          (case py_getitem strings key of
             Inl e \<Rightarrow> Inl e
           | Inr entry \<Rightarrow>
               (case py_get entry ''localizations'' (JObj []) of
                  Inl e \<Rightarrow> Inl e
                | Inr existing_localizations \<Rightarrow>
                    (case py_contains ''en'' existing_localizations of
                       Inl e \<Rightarrow> Inl e
                     | Inr has_en \<Rightarrow>
                         (case (if has_en then english_value_of existing_localizations
                                else Inr (JStr key)) of
                            Inl e \<Rightarrow> Inl e
                          | Inr english_value \<Rightarrow>
                              Inr (new_translations_loop key english_value missing []))))))"

text \<open>
  \<^verbatim>\<open>fixed_data['strings'][key]['localizations'][lang] = translation\<close>, for every item
  of \<^verbatim>\<open>new_translations\<close>.
\<close>

fun add_translations :: "string \<Rightarrow> (string \<times> json) list \<Rightarrow> json \<Rightarrow> json result" where
  "add_translations key [] fixed_data = Inr fixed_data"
| "add_translations key ((lang, translation) # rest) fixed_data =
     (case py_modify fixed_data ''strings''
             (\<lambda>strings. py_modify strings key
                (\<lambda>entry. py_modify entry ''localizations''
                   (\<lambda>localizations. py_setitem localizations lang translation))) of
        Inl e \<Rightarrow> Inl e
      | Inr fixed_data' \<Rightarrow> add_translations key rest fixed_data')"

text \<open>
  The loop over \<^verbatim>\<open>analysis['incomplete_keys']\<close>. \<^verbatim>\<open>fixed_data = data.copy()\<close> is a
  shallow copy: \<^verbatim>\<open>data['strings']\<close> and \<^verbatim>\<open>fixed_data['strings']\<close> are one object, so
  \<^verbatim>\<open>generate_missing_translations(data, ...)\<close> reads the entries as repaired so far.
\<close>

fun analyzer_fix_loop :: "analysis \<Rightarrow> string list \<Rightarrow> json \<Rightarrow> json result" where
  "analyzer_fix_loop an [] fixed_data = Inr fixed_data"
| "analyzer_fix_loop an (key # rest) fixed_data =
     (let missing = (case map_of (missing_languages an) key of Some m \<Rightarrow> m | None \<Rightarrow> [])
      in if missing \<noteq> []
         then
           (case generate_missing_translations fixed_data key missing of
              Inl e \<Rightarrow> Inl e
            | Inr new_translations \<Rightarrow>
                (case add_translations key new_translations fixed_data of
                   Inl e \<Rightarrow> Inl e
                 | Inr fixed_data' \<Rightarrow> analyzer_fix_loop an rest fixed_data'))
         else analyzer_fix_loop an rest fixed_data)"

definition analyzer_fix_localizations :: "json \<Rightarrow> json result" where
  "analyzer_fix_localizations data =
     (case analyzer_analyze_completeness data of
        Inl e \<Rightarrow> Inl e
      | Inr an \<Rightarrow> analyzer_fix_loop an (incomplete_keys an) data)"

subsection \<open>localization\_fixer.py\<close>

definition TRANSLATION_MAPPINGS :: "(string \<times> (string \<times> string) list) list" where
  "TRANSLATION_MAPPINGS = [
    (''Documentation'',
     [
      (''ar'', [CHR 0xC3, CHR 0x98, CHR 0xC2, CHR 0xA7, CHR 0xC3, CHR 0x99, CHR 0xE2, CHR 0x80, CHR 0x9E, CHR 0xC3, CHR 0x98, CHR 0xC2, CHR 0xAA, CHR 0xC3, CHR 0x99, CHR 0xCB, CHR 0x86, CHR 0xC3, CHR 0x98, CHR 0xC2, CHR 0xAB, CHR 0xC3, CHR 0x99, CHR 0xC5, CHR 0xA0, CHR 0xC3, CHR 0x99, CHR 0xE2, CHR 0x80, CHR 0x9A]),
      (''de'', ''Dokumentation''),
      (''es'', ''Documentaci'' @ [CHR 0xC3, CHR 0x83, CHR 0xC2, CHR 0xB3] @ ''n''),
      (''fr'', ''Documentation''),
      (''hi'', [CHR 0xC3, CHR 0xA0, CHR 0xC2, CHR 0xA4, CHR 0xC2, CHR 0xAA, CHR 0xC3, CHR 0xA0, CHR 0xC2, CHR 0xA5, CHR 0xC3, CHR 0xA0, CHR 0xC2, CHR 0xA4, CHR 0xC2, CHR 0xB0, CHR 0xC3, CHR 0xA0, CHR 0xC2, CHR 0xA4, CHR 0xC2, CHR 0xB2, CHR 0xC3, CHR 0xA0, CHR 0xC2, CHR 0xA5, CHR 0xE2, CHR 0x80, CHR 0xA1, CHR 0xC3, CHR 0xA0, CHR 0xC2, CHR 0xA4, CHR 0xE2, CHR 0x80, CHR 0x93, CHR 0xC3, CHR 0xA0, CHR 0xC2, CHR 0xA4, CHR 0xC2, CHR 0xA8]),
      (''ja'', [CHR 0xC3, CHR 0xA3, CHR 0xC6, CHR 0x92, CHR 0xE2, CHR 0x80, CHR 0xB0, CHR 0xC3, CHR 0xA3, CHR 0xE2, CHR 0x80, CHR 0x9A, CHR 0xC2, CHR 0xAD, CHR 0xC3, CHR 0xA3, CHR 0xC6, CHR 0x92, CHR 0xC2, CHR 0xA5, CHR 0xC3, CHR 0xA3, CHR 0xC6, CHR 0x92, CHR 0xC2, CHR 0xA1, CHR 0xC3, CHR 0xA3, CHR 0xC6, CHR 0x92, CHR 0xC2, CHR 0xB3, CHR 0xC3, CHR 0xA3, CHR 0xC6, CHR 0x92, CHR 0xCB, CHR 0x86]),
      (''ko'', [CHR 0xC3, CHR 0xAB, CHR 0xC2, CHR 0xAC, CHR 0xC2, CHR 0xB8, CHR 0xC3, CHR 0xAC, CHR 0xE2, CHR 0x80, CHR 0x9E, CHR 0xC5, CHR 0x93]),
      (''pt'', ''Documenta'' @ [CHR 0xC3, CHR 0x83, CHR 0xC2, CHR 0xA7, CHR 0xC3, CHR 0x83, CHR 0xC2, CHR 0xA3] @ ''o''),
      (''zh-Hans'', [CHR 0xC3, CHR 0xA6, CHR 0xE2, CHR 0x80, CHR 0x93, CHR 0xE2, CHR 0x80, CHR 0xA1, CHR 0xC3, CHR 0xA6, CHR 0xC2, CHR 0xA1, CHR 0xC2, CHR 0xA3]),
      (''en'', ''Documentation'')]),
    (''Email Support'',
     [
      (''ar'', [CHR 0xC3, CHR 0x98, CHR 0xC2, CHR 0xAF, CHR 0xC3, CHR 0x98, CHR 0xC2, CHR 0xB9, CHR 0xC3, CHR 0x99, CHR 0xE2, CHR 0x80, CHR 0xA6] @ '' '' @ [CHR 0xC3, CHR 0x98, CHR 0xC2, CHR 0xA7, CHR 0xC3, CHR 0x99, CHR 0xE2, CHR 0x80, CHR 0x9E, CHR 0xC3, CHR 0x98, CHR 0xC2, CHR 0xA8, CHR 0xC3, CHR 0x98, CHR 0xC2, CHR 0xB1, CHR 0xC3, CHR 0x99, CHR 0xC5, CHR 0xA0, CHR 0xC3, CHR 0x98, CHR 0xC2, CHR 0xAF] @ '' '' @ [CHR 0xC3, CHR 0x98, CHR 0xC2, CHR 0xA7, CHR 0xC3, CHR 0x99, CHR 0xE2, CHR 0x80, CHR 0x9E, CHR 0xC3, CHR 0x98, CHR 0xC2, CHR 0xA5, CHR 0xC3, CHR 0x99, CHR 0xE2, CHR 0x80, CHR 0x9E, CHR 0xC3, CHR 0x99, CHR 0xC6, CHR 0x92, CHR 0xC3, CHR 0x98, CHR 0xC2, CHR 0xAA, CHR 0xC3, CHR 0x98, CHR 0xC2, CHR 0xB1, CHR 0xC3, CHR 0x99, CHR 0xCB, CHR 0x86, CHR 0xC3, CHR 0x99, CHR 0xE2, CHR 0x80, CHR 0xA0, CHR 0xC3, CHR 0x99, CHR 0xC5, CHR 0xA0]),
      (''de'', ''E-Mail-Support''),
      (''es'', ''Soporte por correo''),
      (''fr'', ''Support par e-mail''),
      (''hi'', [CHR 0xC3, CHR 0xA0, CHR 0xC2, CHR 0xA4, CHR 0xCB, CHR 0x86, CHR 0xC3, CHR 0xA0, CHR 0xC2, CHR 0xA4, CHR 0xC2, CHR 0xAE, CHR 0xC3, CHR 0xA0, CHR 0xC2, CHR 0xA5, CHR 0xE2, CHR 0x80, CHR 0xA1, CHR 0xC3, CHR 0xA0, CHR 0xC2, CHR 0xA4, CHR 0xC2, CHR 0xB2] @ '' '' @ [CHR 0xC3, CHR 0xA0, CHR 0xC2, CHR 0xA4, CHR 0xC2, CHR 0xB8, CHR 0xC3, CHR 0xA0, CHR 0xC2, CHR 0xA4, CHR 0xC2, CHR 0xAE, CHR 0xC3, CHR 0xA0, CHR 0xC2, CHR 0xA4, CHR 0xC2, CHR 0xB0, CHR 0xC3, CHR 0xA0, CHR 0xC2, CHR 0xA5, CHR 0xC3, CHR 0xA0, CHR 0xC2, CHR 0xA4, CHR 0xC2, CHR 0xA5, CHR 0xC3, CHR 0xA0, CHR 0xC2, CHR 0xA4, CHR 0xC2, CHR 0xA8]),
      (''ja'', [CHR 0xC3, CHR 0xA3, CHR 0xC6, CHR 0x92, CHR 0xC2, CHR 0xA1, CHR 0xC3, CHR 0xA3, CHR 0xC6, CHR 0x92, CHR 0xC2, CHR 0xBC, CHR 0xC3, CHR 0xA3, CHR 0xC6, CHR 0x92, CHR 0xC2, CHR 0xAB, CHR 0xC3, CHR 0xA3, CHR 0xE2, CHR 0x80, CHR 0x9A, CHR 0xC2, CHR 0xB5, CHR 0xC3, CHR 0xA3, CHR 0xC6, CHR 0x92, CHR 0xC3, CHR 0xA3, CHR 0xC6, CHR 0x92, CHR 0xC2, CHR 0xBC, CHR 0xC3, CHR 0xA3, CHR 0xC6, CHR 0x92, CHR 0xCB, CHR 0x86]),
      (''ko'', [CHR 0xC3, CHR 0xAC, CHR 0xC2, CHR 0xB4, CHR 0xC3, CHR 0xAB, CHR 0xC2, CHR 0xA9, CHR 0xE2, CHR 0x80, CHR 0x9D, CHR 0xC3, CHR 0xAC, CHR 0xC2, CHR 0xBC] @ '' '' @ [CHR 0xC3, CHR 0xAC, CHR 0xC2, CHR 0xA7, CHR 0xE2, CHR 0x82, CHR 0xAC, CHR 0xC3, CHR 0xAC, CHR 0xE2, CHR 0x80, CHR 0xBA]),
      (''pt'', ''Suporte por e-mail''),
      (''zh-Hans'', [CHR 0xC3, CHR 0xA9, CHR 0xE2, CHR 0x80, CHR 0x9A, CHR 0xC2, CHR 0xAE, CHR 0xC3, CHR 0xA4, CHR 0xC2, CHR 0xBB, CHR 0xC2, CHR 0xB6, CHR 0xC3, CHR 0xA6, CHR 0xE2, CHR 0x80, CHR 0x9D, CHR 0xC2, CHR 0xAF, CHR 0xC3, CHR 0xA6, CHR 0xC5, CHR 0x92]),
      (''en'', ''Email Support'')]),
    (''Hide Completed Items'',
     [
      (''ar'', [CHR 0xC3, CHR 0x98, CHR 0xC2, CHR 0xA5, CHR 0xC3, CHR 0x98, CHR 0xC2, CHR 0xAE, CHR 0xC3, CHR 0x99, CHR 0xC3, CHR 0x98, CHR 0xC2, CHR 0xA7, CHR 0xC3, CHR 0x98, CHR 0xC2, CHR 0xA1] @ '' '' @ [CHR 0xC3, CHR 0x98, CHR 0xC2, CHR 0xA7, CHR 0xC3, CHR 0x99, CHR 0xE2, CHR 0x80, CHR 0x9E, CHR 0xC3, CHR 0x98, CHR 0xC2, CHR 0xB9, CHR 0xC3, CHR 0x99, CHR 0xE2, CHR 0x80, CHR 0xA0, CHR 0xC3, CHR 0x98, CHR 0xC2, CHR 0xA7, CHR 0xC3, CHR 0x98, CHR 0xC2, CHR 0xB5, CHR 0xC3, CHR 0x98, CHR 0xC2, CHR 0xB1] @ '' '' @ [CHR 0xC3, CHR 0x98, CHR 0xC2, CHR 0xA7, CHR 0xC3, CHR 0x99, CHR 0xE2, CHR 0x80, CHR 0x9E, CHR 0xC3, CHR 0x99, CHR 0xE2, CHR 0x80, CHR 0xA6, CHR 0xC3, CHR 0x99, CHR 0xC6, CHR 0x92, CHR 0xC3, CHR 0x98, CHR 0xC2, CHR 0xAA, CHR 0xC3, CHR 0x99, CHR 0xE2, CHR 0x80, CHR 0xA6, CHR 0xC3, CHR 0x99, CHR 0xE2, CHR 0x80, CHR 0x9E, CHR 0xC3, CHR 0x98, CHR 0xC2, CHR 0xA9]),
      (''de'', ''Erledigte Elemente ausblenden''),
      (''es'', ''Ocultar elementos completados''),
      (''fr'', ''Masquer les '' @ [CHR 0xC3, CHR 0x83, CHR 0xC2, CHR 0xA9] @ ''l'' @ [CHR 0xC3, CHR 0x83, CHR 0xC2, CHR 0xA9] @ ''ments termin'' @ [CHR 0xC3, CHR 0x83, CHR 0xC2, CHR 0xA9] @ ''s''),
      (''hi'', [CHR 0xC3, CHR 0xA0, CHR 0xC2, CHR 0xA4, CHR 0xC2, CHR 0xAA, CHR 0xC3, CHR 0xA0, CHR 0xC2, CHR 0xA5, CHR 0xE2, CHR 0x80, CHR 0x9A, CHR 0xC3, CHR 0xA0, CHR 0xC2, CHR 0xA4, CHR 0xC2, CHR 0xB0, CHR 0xC3, CHR 0xA0, CHR 0xC2, CHR 0xA5, CHR 0xC3, CHR 0xA0, CHR 0xC2, CHR 0xA4, CHR 0xC2, CHR 0xA3] @ '' '' @ [CHR 0xC3, CHR 0xA0, CHR 0xC2, CHR 0xA4, CHR 0xE2, CHR 0x80, CHR 0xA0, CHR 0xC3, CHR 0xA0, CHR 0xC2, CHR 0xA4, CHR 0xE2, CHR 0x80, CHR 0xA1, CHR 0xC3, CHR 0xA0, CHR 0xC2, CHR 0xA4, CHR 0xC5, CHR 0xB8, CHR 0xC3, CHR 0xA0, CHR 0xC2, CHR 0xA4, CHR 0xC2, CHR 0xAE] @ '' '' @ [CHR 0xC3, CHR 0xA0, CHR 0xC2, CHR 0xA4, CHR 0xE2, CHR 0x80, CHR 0xBA, CHR 0xC3, CHR 0xA0, CHR 0xC2, CHR 0xA5, CHR 0xC3, CHR 0xA0, CHR 0xC2, CHR 0xA4, CHR 0xC2, CHR 0xAA, CHR 0xC3, CHR 0xA0, CHR 0xC2, CHR 0xA4, CHR 0xC2, CHR 0xBE, CHR 0xC3, CHR 0xA0, CHR 0xC2, CHR 0xA4, CHR 0xC3, CHR 0xA0, CHR 0xC2, CHR 0xA4, CHR 0xE2, CHR 0x80, CHR 0x9A]),
      (''ja'', [CHR 0xC3, CHR 0xA5, CHR 0xC2, CHR 0xAE, CHR 0xC5, CHR 0x92, CHR 0xC3, CHR 0xA4, CHR 0xC2, CHR 0xBA, CHR 0xE2, CHR 0x80, CHR 0xA0, CHR 0xC3, CHR 0xA3, CHR 0xE2, CHR 0x80, CHR 0x94, CHR 0xC3, CHR 0xA3, CHR 0xC5, CHR 0xB8, CHR 0xC3, CHR 0xA3, CHR 0xE2, CHR 0x80, CHR 0x9A, CHR 0xC2, CHR 0xA2, CHR 0xC3, CHR 0xA3, CHR 0xE2, CHR 0x80, CHR 0x9A, CHR 0xC2, CHR 0xA4, CHR 0xC3, CHR 0xA3, CHR 0xC6, CHR 0x92, CHR 0xE2, CHR 0x80, CHR 0xA0, CHR 0xC3, CHR 0xA3, CHR 0xC6, CHR 0x92, CHR 0xC2, CHR 0xA0, CHR 0xC3, CHR 0xA3, CHR 0xE2, CHR 0x80, CHR 0x9A, CHR 0xE2, CHR 0x80, CHR 0x99, CHR 0xC3, CHR 0xA9, CHR 0xC5, CHR 0xBE, CHR 0xC3, CHR 0xA8, CHR 0xC2, CHR 0xA1, CHR 0xC2, CHR 0xA8, CHR 0xC3, CHR 0xA7, CHR 0xC2, CHR 0xA4, CHR 0xC2, CHR 0xBA]),
      (''ko'', [CHR 0xC3, CHR 0xAC, CHR 0xE2, CHR 0x84, CHR 0xA2, CHR 0xE2, CHR 0x80, CHR 0x9E, CHR 0xC3, CHR 0xAB, CHR 0xC2, CHR 0xA3, CHR 0xC5, CHR 0x92, CHR 0xC3, CHR 0xAB, CHR 0xC5, CHR 0x93] @ '' '' @ [CHR 0xC3, CHR 0xAD, CHR 0xE2, CHR 0x80, CHR 0xA2, CHR 0xC2, CHR 0xAD, CHR 0xC3, CHR 0xAB, CHR 0xC2, CHR 0xAA, CHR 0xC2, CHR 0xA9] @ '' '' @ [CHR 0xC3, CHR 0xAC, CHR 0xCB, CHR 0x86, CHR 0xC2, CHR 0xA8, CHR 0xC3, CHR 0xAA, CHR 0xC2, CHR 0xB8, CHR 0xC2, CHR 0xB0, CHR 0xC3, CHR 0xAA, CHR 0xC2, CHR 0xB8, CHR 0xC2, CHR 0xB0]),
      (''pt'', ''Ocultar itens conclu'' @ [CHR 0xC3, CHR 0x83, CHR 0xC2, CHR 0xAD] @ ''dos''),
      (''zh-Hans'', [CHR 0xC3, CHR 0xA9, CHR 0xC5, CHR 0xA1, CHR 0xC3, CHR 0xA8, CHR 0xE2, CHR 0x80, CHR 0x94, CHR 0xC3, CHR 0xA5, CHR 0xC2, CHR 0xB7, CHR 0xC2, CHR 0xB2, CHR 0xC3, CHR 0xA5, CHR 0xC2, CHR 0xAE, CHR 0xC5, CHR 0x92, CHR 0xC3, CHR 0xA6, CHR 0xCB, CHR 0x86, CHR 0xC3, CHR 0xA9, CHR 0xC2, CHR 0xA1, CHR 0xC2, CHR 0xB9, CHR 0xC3, CHR 0xA7, CHR 0xE2, CHR 0x80, CHR 0xBA, CHR 0xC2, CHR 0xAE]),
      (''en'', ''Hide Completed Items'')]),
    (''Organizes habits and tasks by time periods: Morning, Afternoon, Evening, and Today'',
     [
      (''ar'', [CHR 0xC3, CHR 0x99, CHR 0xC5, CHR 0xA0, CHR 0xC3, CHR 0x99, CHR 0xE2, CHR 0x80, CHR 0xA0, CHR 0xC3, CHR 0x98, CHR 0xC2, CHR 0xB8, CHR 0xC3, CHR 0x99, CHR 0xE2, CHR 0x80, CHR 0xA6] @ '' '' @ [CHR 0xC3, CHR 0x98, CHR 0xC2, CHR 0xA7, CHR 0xC3, CHR 0x99, CHR 0xE2, CHR 0x80, CHR 0x9E, CHR 0xC3, CHR 0x98, CHR 0xC2, CHR 0xB9, CHR 0xC3, CHR 0x98, CHR 0xC2, CHR 0xA7, CHR 0xC3, CHR 0x98, CHR 0xC2, CHR 0xAF, CHR 0xC3, CHR 0x98, CHR 0xC2, CHR 0xA7, CHR 0xC3, CHR 0x98, CHR 0xC2, CHR 0xAA] @ '' '' @ [CHR 0xC3, CHR 0x99, CHR 0xCB, CHR 0x86, CHR 0xC3, CHR 0x98, CHR 0xC2, CHR 0xA7, CHR 0xC3, CHR 0x99, CHR 0xE2, CHR 0x80, CHR 0x9E, CHR 0xC3, CHR 0x99, CHR 0xE2, CHR 0x80, CHR 0xA6, CHR 0xC3, CHR 0x99, CHR 0xE2, CHR 0x80, CHR 0xA1, CHR 0xC3, CHR 0x98, CHR 0xC2, CHR 0xA7, CHR 0xC3, CHR 0x99, CHR 0xE2, CHR 0x80, CHR 0xA6] @ '' '' @ [CHR 0xC3, CHR 0x98, CHR 0xC2, CHR 0xAD, CHR 0xC3, CHR 0x98, CHR 0xC2, CHR 0xB3, CHR 0xC3, CHR 0x98, CHR 0xC2, CHR 0xA8] @ '' '' @ [CHR 0xC3, CHR 0x98, CHR 0xC2, CHR 0xA7, CHR 0xC3, CHR 0x99, CHR 0xE2, CHR 0x80, CHR 0x9E, CHR 0xC3, CHR 0x99, CHR 0xC3, CHR 0x98, CHR 0xC2, CHR 0xAA, CHR 0xC3, CHR 0x98, CHR 0xC2, CHR 0xB1, CHR 0xC3, CHR 0x98, CHR 0xC2, CHR 0xA7, CHR 0xC3, CHR 0x98, CHR 0xC2, CHR 0xAA] @ '' '' @ [CHR 0xC3, CHR 0x98, CHR 0xC2, CHR 0xA7, CHR 0xC3, CHR 0x99, CHR 0xE2, CHR 0x80, CHR 0x9E, CHR 0xC3, CHR 0x98, CHR 0xC2, CHR 0xB2, CHR 0xC3, CHR 0x99, CHR 0xE2, CHR 0x80, CHR 0xA6, CHR 0xC3, CHR 0x99, CHR 0xE2, CHR 0x80, CHR 0xA0, CHR 0xC3, CHR 0x99, CHR 0xC5, CHR 0xA0, CHR 0xC3, CHR 0x98, CHR 0xC2, CHR 0xA9] @ '': '' @ [CHR 0xC3, CHR 0x98, CHR 0xC2, CHR 0xA7, CHR 0xC3, CHR 0x99, CHR 0xE2, CHR 0x80, CHR 0x9E, CHR 0xC3, CHR 0x98, CHR 0xC2, CHR 0xB5, CHR 0xC3, CHR 0x98, CHR 0xC2, CHR 0xA8, CHR 0xC3, CHR 0x98, CHR 0xC2, CHR 0xA7, CHR 0xC3, CHR 0x98, CHR 0xC2, CHR 0xAD, CHR 0xC3, CHR 0x98, CHR 0xC5, CHR 0x92] @ '' '' @ [CHR 0xC3, CHR 0x98, CHR 0xC2, CHR 0xA8, CHR 0xC3, CHR 0x98, CHR 0xC2, CHR 0xB9, CHR 0xC3, CHR 0x98, CHR 0xC2, CHR 0xAF] @ '' '' @ [CHR 0xC3, CHR 0x98, CHR 0xC2, CHR 0xA7, CHR 0xC3, CHR 0x99, CHR 0xE2, CHR 0x80, CHR 0x9E, CHR 0xC3, CHR 0x98, CHR 0xC2, CHR 0xB8, CHR 0xC3, CHR 0x99, CHR 0xE2, CHR 0x80, CHR 0xA1, CHR 0xC3, CHR 0x98, CHR 0xC2, CHR 0xB1, CHR 0xC3, CHR 0x98, CHR 0xC5, CHR 0x92] @ '' '' @ [CHR 0xC3, CHR 0x98, CHR 0xC2, CHR 0xA7, CHR 0xC3, CHR 0x99, CHR 0xE2, CHR 0x80, CHR 0x9E, CHR 0xC3, CHR 0x99, CHR 0xE2, CHR 0x80, CHR 0xA6, CHR 0xC3, CHR 0x98, CHR 0xC2, CHR 0xB3, CHR 0xC3, CHR 0x98, CHR 0xC2, CHR 0xA7, CHR 0xC3, CHR 0x98, CHR 0xC2, CHR 0xA1, CHR 0xC3, CHR 0x98, CHR 0xC5, CHR 0x92] @ '' '' @ [CHR 0xC3, CHR 0x99, CHR 0xCB, CHR 0x86, CHR 0xC3, CHR 0x98, CHR 0xC2, CHR 0xA7, CHR 0xC3, CHR 0x99, CHR 0xE2, CHR 0x80, CHR 0x9E, CHR 0xC3, CHR 0x99, CHR 0xC5, CHR 0xA0, CHR 0xC3, CHR 0x99, CHR 0xCB, CHR 0x86, CHR 0xC3, CHR 0x99, CHR 0xE2, CHR 0x80, CHR 0xA6]),
      (''de'', ''Organisiert Gewohnheiten und Aufgaben nach Tageszeiten: Morgen, Nachmittag, Abend und Heute''),
      (''es'', ''Organiza h'' @ [CHR 0xC3, CHR 0x83, CHR 0xC2, CHR 0xA1] @ ''bitos y tareas por per'' @ [CHR 0xC3, CHR 0x83, CHR 0xC2, CHR 0xAD] @ ''odos de tiempo: Ma'' @ [CHR 0xC3, CHR 0x83, CHR 0xC2, CHR 0xB1] @ ''ana, Tarde, Noche y Hoy''),
      (''fr'', ''Organise les habitudes et t'' @ [CHR 0xC3, CHR 0x83, CHR 0xC2, CHR 0xA2] @ ''ches par p'' @ [CHR 0xC3, CHR 0x83, CHR 0xC2, CHR 0xA9] @ ''riodes : Matin, Apr'' @ [CHR 0xC3, CHR 0x83, CHR 0xC2, CHR 0xA8] @ ''s-midi, Soir et Aujourd'hui''),
      (''hi'', [CHR 0xC3, CHR 0xA0, CHR 0xC2, CHR 0xA4, CHR 0xC2, CHR 0xB8, CHR 0xC3, CHR 0xA0, CHR 0xC2, CHR 0xA4, CHR 0xC2, CHR 0xAE, CHR 0xC3, CHR 0xA0, CHR 0xC2, CHR 0xA4, CHR 0xC2, CHR 0xAF] @ '' '' @ [CHR 0xC3, CHR 0xA0, CHR 0xC2, CHR 0xA4, CHR 0xE2, CHR 0x80, CHR 0xA6, CHR 0xC3, CHR 0xA0, CHR 0xC2, CHR 0xA4, CHR 0xC2, CHR 0xB5, CHR 0xC3, CHR 0xA0, CHR 0xC2, CHR 0xA4, CHR 0xC2, CHR 0xA7, CHR 0xC3, CHR 0xA0, CHR 0xC2, CHR 0xA4, CHR 0xC2, CHR 0xBF] @ '' '' @ [CHR 0xC3, CHR 0xA0, CHR 0xC2, CHR 0xA4, CHR 0xE2, CHR 0x80, CHR 0xA2, CHR 0xC3, CHR 0xA0, CHR 0xC2, CHR 0xA5, CHR 0xE2, CHR 0x80, CHR 0xA1] @ '' '' @ [CHR 0xC3, CHR 0xA0, CHR 0xC2, CHR 0xA4, CHR 0xE2, CHR 0x80, CHR 0xA6, CHR 0xC3, CHR 0xA0, CHR 0xC2, CHR 0xA4, CHR 0xC2, CHR 0xA8, CHR 0xC3, CHR 0xA0, CHR 0xC2, CHR 0xA5, CHR 0xC3, CHR 0xA0, CHR 0xC2, CHR 0xA4, CHR 0xC2, CHR 0xB8, CHR 0xC3, CHR 0xA0, CHR 0xC2, CHR 0xA4, CHR 0xC2, CHR 0xBE, CHR 0xC3, CHR 0xA0, CHR 0xC2, CHR 0xA4, CHR 0xC2, CHR 0xB0] @ '' '' @ [CHR 0xC3, CHR 0xA0, CHR 0xC2, CHR 0xA4, CHR 0xE2, CHR 0x80, CHR 0xA0, CHR 0xC3, CHR 0xA0, CHR 0xC2, CHR 0xA4, CHR 0xC2, CHR 0xA6, CHR 0xC3, CHR 0xA0, CHR 0xC2, CHR 0xA4, CHR 0xC2, CHR 0xA4, CHR 0xC3, CHR 0xA0, CHR 0xC2, CHR 0xA5, CHR 0xE2, CHR 0x80, CHR 0xB9, CHR 0xC3, CHR 0xA0, CHR 0xC2, CHR 0xA4, CHR 0xE2, CHR 0x80, CHR 0x9A] @ '' '' @ [CHR 0xC3, CHR 0xA0, CHR 0xC2, CHR 0xA4, CHR 0xE2, CHR 0x80, CHR 0x9D, CHR 0xC3, CHR 0xA0, CHR 0xC2, CHR 0xA4, CHR 0xC2, CHR 0xB0] @ '' '' @ [CHR 0xC3, CHR 0xA0, CHR 0xC2, CHR 0xA4, CHR 0xE2, CHR 0x80, CHR 0xA2, CHR 0xC3, CHR 0xA0, CHR 0xC2, CHR 0xA4, CHR 0xC2, CHR 0xBE, CHR 0xC3, CHR 0xA0, CHR 0xC2, CHR 0xA4, CHR 0xC2, CHR 0xB0, CHR 0xC3, CHR 0xA0, CHR 0xC2, CHR 0xA5, CHR 0xC3, CHR 0xA0, CHR 0xC2, CHR 0xA4, CHR 0xC2, CHR 0xAF, CHR 0xC3, CHR 0xA0, CHR 0xC2, CHR 0xA5, CHR 0xE2, CHR 0x80, CHR 0xB9, CHR 0xC3, CHR 0xA0, CHR 0xC2, CHR 0xA4, CHR 0xE2, CHR 0x80, CHR 0x9A] @ '' '' @ [CHR 0xC3, CHR 0xA0, CHR 0xC2, CHR 0xA4, CHR 0xE2, CHR 0x80, CHR 0xA2, CHR 0xC3, CHR 0xA0, CHR 0xC2, CHR 0xA5, CHR 0xE2, CHR 0x80, CHR 0xB9] @ '' '' @ [CHR 0xC3, CHR 0xA0, CHR 0xC2, CHR 0xA4, CHR 0xC2, CHR 0xB5, CHR 0xC3, CHR 0xA0, CHR 0xC2, CHR 0xA5, CHR 0xC3, CHR 0xA0, CHR 0xC2, CHR 0xA4, CHR 0xC2, CHR 0xAF, CHR 0xC3, CHR 0xA0, CHR 0xC2, CHR 0xA4, CHR 0xC2, CHR 0xB5, CHR 0xC3, CHR 0xA0, CHR 0xC2, CHR 0xA4, CHR 0xC2, CHR 0xB8, CHR 0xC3, CHR 0xA0, CHR 0xC2, CHR 0xA5, CHR 0xC3, CHR 0xA0, CHR 0xC2, CHR 0xA4, CHR 0xC2, CHR 0xA5, CHR 0xC3, CHR 0xA0, CHR 0xC2, CHR 0xA4, CHR 0xC2, CHR 0xBF, CHR 0xC3, CHR 0xA0, CHR 0xC2, CHR 0xA4, CHR 0xC2, CHR 0xA4] @ '' '' @ [CHR 0xC3, CHR 0xA0, CHR 0xC2, CHR 0xA4, CHR 0xE2, CHR 0x80, CHR 0xA2, CHR 0xC3, CHR 0xA0, CHR 0xC2, CHR 0xA4, CHR 0xC2, CHR 0xB0, CHR 0xC3, CHR 0xA0, CHR 0xC2, CHR 0xA4, CHR 0xC2, CHR 0xA4, CHR 0xC3, CHR 0xA0, CHR 0xC2, CHR 0xA4, CHR 0xC2, CHR 0xBE] @ '' '' @ [CHR 0xC3, CHR 0xA0, CHR 0xC2, CHR 0xA4, CHR 0xC2, CHR 0xB9, CHR 0xC3, CHR 0xA0, CHR 0xC2, CHR 0xA5, CHR 0xCB, CHR 0x86] @ '': '' @ [CHR 0xC3, CHR 0xA0, CHR 0xC2, CHR 0xA4, CHR 0xC2, CHR 0xB8, CHR 0xC3, CHR 0xA0, CHR 0xC2, CHR 0xA5, CHR 0xC3, CHR 0xA0, CHR 0xC2, CHR 0xA4, CHR 0xC2, CHR 0xAC, CHR 0xC3, CHR 0xA0, CHR 0xC2, CHR 0xA4, CHR 0xC2, CHR 0xB9] @ '', '' @ [CHR 0xC3, CHR 0xA0, CHR 0xC2, CHR 0xA4, CHR 0xC2, CHR 0xA6, CHR 0xC3, CHR 0xA0, CHR 0xC2, CHR 0xA5, CHR 0xE2, CHR 0x80, CHR 0xB9, CHR 0xC3, CHR 0xA0, CHR 0xC2, CHR 0xA4, CHR 0xC2, CHR 0xAA, CHR 0xC3, CHR 0xA0, CHR 0xC2, CHR 0xA4, CHR 0xC2, CHR 0xB9, CHR 0xC3, CHR 0xA0, CHR 0xC2, CHR 0xA4, CHR 0xC2, CHR 0xB0] @ '', '' @ [CHR 0xC3, CHR 0xA0, CHR 0xC2, CHR 0xA4, CHR 0xC2, CHR 0xB6, CHR 0xC3, CHR 0xA0, CHR 0xC2, CHR 0xA4, CHR 0xC2, CHR 0xBE, CHR 0xC3, CHR 0xA0, CHR 0xC2, CHR 0xA4, CHR 0xC2, CHR 0xAE] @ '', '' @ [CHR 0xC3, CHR 0xA0, CHR 0xC2, CHR 0xA4, CHR 0xE2, CHR 0x80, CHR 0x9D, CHR 0xC3, CHR 0xA0, CHR 0xC2, CHR 0xA4, CHR 0xC2, CHR 0xB0] @ '' '' @ [CHR 0xC3, CHR 0xA0, CHR 0xC2, CHR 0xA4, CHR 0xE2, CHR 0x80, CHR 0xA0, CHR 0xC3, CHR 0xA0, CHR 0xC2, CHR 0xA4, CHR 0xC5, CHR 0x93]),
      (''ja'', [CHR 0xC3, CHR 0xA7, CHR 0xC2, CHR 0xBF, CHR 0xE2, CHR 0x80, CHR 0x99, CHR 0xC3, CHR 0xA6, CHR 0xE2, CHR 0x80, CHR 0xA6, CHR 0xC2, CHR 0xA3, CHR 0xC3, CHR 0xA3, CHR 0xC2, CHR 0xA8, CHR 0xC3, CHR 0xA3, CHR 0xE2, CHR 0x80, CHR 0x9A, CHR 0xC2, CHR 0xBF, CHR 0xC3, CHR 0xA3, CHR 0xE2, CHR 0x80, CHR 0x9A, CHR 0xC2, CHR 0xB9, CHR 0xC3, CHR 0xA3, CHR 0xE2, CHR 0x80, CHR 0x9A, CHR 0xC2, CHR 0xAF, CHR 0xC3, CHR 0xA3, CHR 0xE2, CHR 0x80, CHR 0x9A, CHR 0xE2, CHR 0x80, CHR 0x99, CHR 0xC3, CHR 0xA6, CHR 0xE2, CHR 0x84, CHR 0xA2, CHR 0xE2, CHR 0x80, CHR 0x9A, CHR 0xC3, CHR 0xA9, CHR 0xE2, CHR 0x80, CHR 0x93, CHR 0xE2, CHR 0x80, CHR 0x9C, CHR 0xC3, CHR 0xA5, CHR 0xC2, CHR 0xB8, CHR 0xC2, CHR 0xAF, CHR 0xC3, CHR 0xA5, CHR 0xCB, CHR 0x86, CHR 0xC2, CHR 0xA5, CHR 0xC3, CHR 0xA3, CHR 0xC2, CHR 0xAB, CHR 0xC3, CHR 0xA6, CHR 0xE2, CHR 0x80, CHR 0xA2, CHR 0xC2, CHR 0xB4, CHR 0xC3, CHR 0xA7, CHR 0xE2, CHR 0x80, CHR 0xA0, CHR 0xC3, CHR 0xAF, CHR 0xC2, CHR 0xBC, CHR 0xC5, CHR 0xA1, CHR 0xC3, CHR 0xA6, CHR 0xC5, CHR 0x93, CHR 0xC3, CHR 0xA3, CHR 0xE2, CHR 0x82, CHR 0xAC, CHR 0xC3, CHR 0xA5, CHR 0xCB, CHR 0x86, CHR 0xC3, CHR 0xA5, CHR 0xC2, CHR 0xBE, CHR 0xC5, CHR 0x92, CHR 0xC3, CHR 0xA3, CHR 0xE2, CHR 0x82, CHR 0xAC, CHR 0xC3, CHR 0xA5, CHR 0xC2, CHR 0xA4, CHR 0xE2, CHR 0x80, CHR 0xA2, CHR 0xC3, CHR 0xA6, CHR 0xE2, CHR 0x80, CHR 0x93, CHR 0xC2, CHR 0xB9, CHR 0xC3, CHR 0xA3, CHR 0xE2, CHR 0x82, CHR 0xAC, CHR 0xC3, CHR 0xA4, CHR 0xC2, CHR 0xBB, CHR 0xC5, CHR 0xA0, CHR 0xC3, CHR 0xA6, CHR 0xE2, CHR 0x80, CHR 0x94, CHR 0xC2, CHR 0xA5]),
      (''ko'', [CHR 0xC3, CHR 0xAC, CHR 0xC5, CHR 0xA0, CHR 0xC2, CHR 0xB5, CHR 0xC3, CHR 0xAA, CHR 0xC2, CHR 0xB4, CHR 0xE2, CHR 0x82, CHR 0xAC, CHR 0xC3, CHR 0xAA, CHR 0xC2, CHR 0xB3, CHR 0xC2, CHR 0xBC] @ '' '' @ [CHR 0xC3, CHR 0xAC, CHR 0xC5, CHR 0xBE, CHR 0xE2, CHR 0x80, CHR 0x98, CHR 0xC3, CHR 0xAC, CHR 0xE2, CHR 0x80, CHR 0x94, CHR 0xE2, CHR 0x80, CHR 0xA6, CHR 0xC3, CHR 0xAC, CHR 0xE2, CHR 0x80, CHR 0x9E] @ '' '' @ [CHR 0xC3, CHR 0xAC, CHR 0xE2, CHR 0x80, CHR 0xB9, CHR 0xC5, CHR 0x93, CHR 0xC3, CHR 0xAA, CHR 0xC2, CHR 0xB0, CHR 0xE2, CHR 0x80, CHR 0x9E, CHR 0xC3, CHR 0xAB, CHR 0xC5, CHR 0x92, CHR 0xE2, CHR 0x82, CHR 0xAC, CHR 0xC3, CHR 0xAB, CHR 0xC2, CHR 0xB3, CHR 0xE2, CHR 0x80, CHR 0x9E, CHR 0xC3, CHR 0xAB, CHR 0xC2, CHR 0xA1, CHR 0xC5, CHR 0x93] @ '' '' @ [CHR 0xC3, CHR 0xAC, CHR 0xC2, CHR 0xA0, CHR 0xE2, CHR 0x80, CHR 0xA2, CHR 0xC3, CHR 0xAB, CHR 0xC2, CHR 0xA6, CHR 0xC2, CHR 0xAC] @ '': '' @ [CHR 0xC3, CHR 0xAC, CHR 0xE2, CHR 0x80, CHR 0xA2, CHR 0xE2, CHR 0x80, CHR 0x9E, CHR 0xC3, CHR 0xAC, CHR 0xC2, CHR 0xB9, CHR 0xC2, CHR 0xA8] @ '', '' @ [CHR 0xC3, CHR 0xAC, CHR 0xCB, CHR 0x9C, CHR 0xC2, CHR 0xA4, CHR 0xC3, CHR 0xAD, CHR 0xE2, CHR 0x80, CHR 0xBA, CHR 0xE2, CHR 0x80, CHR 0x9E] @ '', '' @ [CHR 0xC3, CHR 0xAC, CHR 0xC2, CHR 0xA0, CHR 0xE2, CHR 0x82, CHR 0xAC, CHR 0xC3, CHR 0xAB, CHR 0xE2, CHR 0x80, CHR 0xA6] @ '', '' @ [CHR 0xC3, CHR 0xAC, CHR 0xCB, CHR 0x9C, CHR 0xC2, CHR 0xA4, CHR 0xC3, CHR 0xAB, CHR 0xC5, CHR 0xA0, CHR 0xCB, CHR 0x9C]),
      (''pt'', ''Organiza h'' @ [CHR 0xC3, CHR 0x83, CHR 0xC2, CHR 0xA1] @ ''bitos e tarefas por per'' @ [CHR 0xC3, CHR 0x83, CHR 0xC2, CHR 0xAD] @ ''odos: Manh'' @ [CHR 0xC3, CHR 0x83, CHR 0xC2, CHR 0xA3] @ '', Tarde, Noite e Hoje''),
      (''zh-Hans'', [CHR 0xC3, CHR 0xA6, CHR 0xC5, CHR 0x92, CHR 0xE2, CHR 0x80, CHR 0xB0, CHR 0xC3, CHR 0xA6, CHR 0xE2, CHR 0x80, CHR 0x94, CHR 0xC2, CHR 0xB6, CHR 0xC3, CHR 0xA9, CHR 0xE2, CHR 0x80, CHR 0x94, CHR 0xC2, CHR 0xB4, CHR 0xC3, CHR 0xA6, CHR 0xC2, CHR 0xAE, CHR 0xC2, CHR 0xB5, CHR 0xC3, CHR 0xA7, CHR 0xC2, CHR 0xBB, CHR 0xE2, CHR 0x80, CHR 0x9E, CHR 0xC3, CHR 0xA7, CHR 0xC2, CHR 0xBB, CHR 0xE2, CHR 0x80, CHR 0xA1, CHR 0xC3, CHR 0xA4, CHR 0xC2, CHR 0xB9, CHR 0xC2, CHR 0xA0, CHR 0xC3, CHR 0xA6, CHR 0xC6, CHR 0x92, CHR 0xC2, CHR 0xAF, CHR 0xC3, CHR 0xA5, CHR 0xE2, CHR 0x80, CHR 0x99, CHR 0xC5, CHR 0x92, CHR 0xC3, CHR 0xA4, CHR 0xC2, CHR 0xBB, CHR 0xC2, CHR 0xBB, CHR 0xC3, CHR 0xA5, CHR 0xC5, CHR 0xA0, CHR 0xC2, CHR 0xA1, CHR 0xC3, CHR 0xAF, CHR 0xC2, CHR 0xBC, CHR 0xC5, CHR 0xA1, CHR 0xC3, CHR 0xA4, CHR 0xC2, CHR 0xB8, CHR 0xC5, CHR 0xA0, CHR 0xC3, CHR 0xA5, CHR 0xCB, CHR 0x86, CHR 0xC3, CHR 0xA3, CHR 0xE2, CHR 0x82, CHR 0xAC, CHR 0xC3, CHR 0xA4, CHR 0xC2, CHR 0xB8, CHR 0xE2, CHR 0x80, CHR 0xB9, CHR 0xC3, CHR 0xA5, CHR 0xCB, CHR 0x86, CHR 0xC3, CHR 0xA3, CHR 0xE2, CHR 0x82, CHR 0xAC, CHR 0xC3, CHR 0xA6, CHR 0xE2, CHR 0x84, CHR 0xA2, CHR 0xC5, CHR 0xA1, CHR 0xC3, CHR 0xA4, CHR 0xC2, CHR 0xB8, CHR 0xC5, CHR 0xA0, CHR 0xC3, CHR 0xA5, CHR 0xE2, CHR 0x80, CHR 0x99, CHR 0xC5, CHR 0x92, CHR 0xC3, CHR 0xA4, CHR 0xC2, CHR 0xBB, CHR 0xC5, CHR 0xA0, CHR 0xC3, CHR 0xA5, CHR 0xC2, CHR 0xA4, CHR 0xC2, CHR 0xA9]),
      (''en'', ''Organizes habits and tasks by time periods: Morning, Afternoon, Evening, and Today'')]),
    (''Hides completed habits and tasks from view'',
     [
      (''ar'', [CHR 0xC3, CHR 0x99, CHR 0xC5, CHR 0xA0, CHR 0xC3, CHR 0x98, CHR 0xC2, CHR 0xAE, CHR 0xC3, CHR 0x99, CHR 0xC3, CHR 0x99, CHR 0xC5, CHR 0xA0] @ '' '' @ [CHR 0xC3, CHR 0x98, CHR 0xC2, CHR 0xA7, CHR 0xC3, CHR 0x99, CHR 0xE2, CHR 0x80, CHR 0x9E, CHR 0xC3, CHR 0x98, CHR 0xC2, CHR 0xB9, CHR 0xC3, CHR 0x98, CHR 0xC2, CHR 0xA7, CHR 0xC3, CHR 0x98, CHR 0xC2, CHR 0xAF, CHR 0xC3, CHR 0x98, CHR 0xC2, CHR 0xA7, CHR 0xC3, CHR 0x98, CHR 0xC2, CHR 0xAA] @ '' '' @ [CHR 0xC3, CHR 0x99, CHR 0xCB, CHR 0x86, CHR 0xC3, CHR 0x98, CHR 0xC2, CHR 0xA7, CHR 0xC3, CHR 0x99, CHR 0xE2, CHR 0x80, CHR 0x9E, CHR 0xC3, CHR 0x99, CHR 0xE2, CHR 0x80, CHR 0xA6, CHR 0xC3, CHR 0x99, CHR 0xE2, CHR 0x80, CHR 0xA1, CHR 0xC3, CHR 0x98, CHR 0xC2, CHR 0xA7, CHR 0xC3, CHR 0x99, CHR 0xE2, CHR 0x80, CHR 0xA6] @ '' '' @ [CHR 0xC3, CHR 0x98, CHR 0xC2, CHR 0xA7, CHR 0xC3, CHR 0x99, CHR 0xE2, CHR 0x80, CHR 0x9E, CHR 0xC3, CHR 0x99, CHR 0xE2, CHR 0x80, CHR 0xA6, CHR 0xC3, CHR 0x99, CHR 0xC6, CHR 0x92, CHR 0xC3, CHR 0x98, CHR 0xC2, CHR 0xAA, CHR 0xC3, CHR 0x99, CHR 0xE2, CHR 0x80, CHR 0xA6, CHR 0xC3, CHR 0x99, CHR 0xE2, CHR 0x80, CHR 0x9E, CHR 0xC3, CHR 0x98, CHR 0xC2, CHR 0xA9] @ '' '' @ [CHR 0xC3, CHR 0x99, CHR 0xE2, CHR 0x80, CHR 0xA6, CHR 0xC3, CHR 0x99, CHR 0xE2, CHR 0x80, CHR 0xA0] @ '' '' @ [CHR 0xC3, CHR 0x98, CHR 0xC2, CHR 0xA7, CHR 0xC3, CHR 0x99, CHR 0xE2, CHR 0x80, CHR 0x9E, CHR 0xC3, CHR 0x98, CHR 0xC2, CHR 0xB9, CHR 0xC3, CHR 0x98, CHR 0xC2, CHR 0xB1, CHR 0xC3, CHR 0x98, CHR 0xC2, CHR 0xB6]),
      (''de'', ''Blendet erledigte Gewohnheiten und Aufgaben aus''),
      (''es'', ''Oculta h'' @ [CHR 0xC3, CHR 0x83, CHR 0xC2, CHR 0xA1] @ ''bitos y tareas completados de la vista''),
      (''fr'', ''Cache les habitudes et t'' @ [CHR 0xC3, CHR 0x83, CHR 0xC2, CHR 0xA2] @ ''ches termin'' @ [CHR 0xC3, CHR 0x83, CHR 0xC2, CHR 0xA9] @ ''es''),
      (''hi'', [CHR 0xC3, CHR 0xA0, CHR 0xC2, CHR 0xA4, CHR 0xC2, CHR 0xAA, CHR 0xC3, CHR 0xA0, CHR 0xC2, CHR 0xA5, CHR 0xE2, CHR 0x80, CHR 0x9A, CHR 0xC3, CHR 0xA0, CHR 0xC2, CHR 0xA4, CHR 0xC2, CHR 0xB0, CHR 0xC3, CHR 0xA0, CHR 0xC2, CHR 0xA5, CHR 0xC3, CHR 0xA0, CHR 0xC2, CHR 0xA4, CHR 0xC2, CHR 0xA3] @ '' '' @ [CHR 0xC3, CHR 0xA0, CHR 0xC2, CHR 0xA4, CHR 0xE2, CHR 0x80, CHR 0xA0, CHR 0xC3, CHR 0xA0, CHR 0xC2, CHR 0xA4, CHR 0xC2, CHR 0xA6, CHR 0xC3, CHR 0xA0, CHR 0xC2, CHR 0xA4, CHR 0xC2, CHR 0xA4, CHR 0xC3, CHR 0xA0, CHR 0xC2, CHR 0xA5, CHR 0xE2, CHR 0x80, CHR 0xB9, CHR 0xC3, CHR 0xA0, CHR 0xC2, CHR 0xA4, CHR 0xE2, CHR 0x80, CHR 0x9A] @ '' '' @ [CHR 0xC3, CHR 0xA0, CHR 0xC2, CHR 0xA4, CHR 0xE2, CHR 0x80, CHR 0x9D, CHR 0xC3, CHR 0xA0, CHR 0xC2, CHR 0xA4, CHR 0xC2, CHR 0xB0] @ '' '' @ [CHR 0xC3, CHR 0xA0, CHR 0xC2, CHR 0xA4, CHR 0xE2, CHR 0x80, CHR 0xA2, CHR 0xC3, CHR 0xA0, CHR 0xC2, CHR 0xA4, CHR 0xC2, CHR 0xBE, CHR 0xC3, CHR 0xA0, CHR 0xC2, CHR 0xA4, CHR 0xC2, CHR 0xB0, CHR 0xC3, CHR 0xA0, CHR 0xC2, CHR 0xA5, CHR 0xC3, CHR 0xA0, CHR 0xC2, CHR 0xA4, CHR 0xC2, CHR 0xAF, CHR 0xC3, CHR 0xA0, CHR 0xC2, CHR 0xA5, CHR 0xE2, CHR 0x80, CHR 0xB9, CHR 0xC3, CHR 0xA0, CHR 0xC2, CHR 0xA4, CHR 0xE2, CHR 0x80, CHR 0x9A] @ '' '' @ [CHR 0xC3, CHR 0xA0, CHR 0xC2, CHR 0xA4, CHR 0xE2, CHR 0x80, CHR 0xA2, CHR 0xC3, CHR 0xA0, CHR 0xC2, CHR 0xA5, CHR 0xE2, CHR 0x80, CHR 0xB9] @ '' '' @ [CHR 0xC3, CHR 0xA0, CHR 0xC2, CHR 0xA4, CHR 0xC2, CHR 0xA6, CHR 0xC3, CHR 0xA0, CHR 0xC2, CHR 0xA5, CHR 0xC6, CHR 0x92, CHR 0xC3, CHR 0xA0, CHR 0xC2, CHR 0xA4, CHR 0xC2, CHR 0xB6, CHR 0xC3, CHR 0xA0, CHR 0xC2, CHR 0xA5, CHR 0xC3, CHR 0xA0, CHR 0xC2, CHR 0xA4, CHR 0xC2, CHR 0xAF] @ '' '' @ [CHR 0xC3, CHR 0xA0, CHR 0xC2, CHR 0xA4, CHR 0xC2, CHR 0xB8, CHR 0xC3, CHR 0xA0, CHR 0xC2, CHR 0xA5, CHR 0xE2, CHR 0x80, CHR 0xA1] @ '' '' @ [CHR 0xC3, CHR 0xA0, CHR 0xC2, CHR 0xA4, CHR 0xE2, CHR 0x80, CHR 0xBA, CHR 0xC3, CHR 0xA0, CHR 0xC2, CHR 0xA5, CHR 0xC3, CHR 0xA0, CHR 0xC2, CHR 0xA4, CHR 0xC2, CHR 0xAA, CHR 0xC3, CHR 0xA0, CHR 0xC2, CHR 0xA4, CHR 0xC2, CHR 0xBE, CHR 0xC3, CHR 0xA0, CHR 0xC2, CHR 0xA4, CHR 0xC2, CHR 0xA4, CHR 0xC3, CHR 0xA0, CHR 0xC2, CHR 0xA4, CHR 0xC2, CHR 0xBE] @ '' '' @ [CHR 0xC3, CHR 0xA0, CHR 0xC2, CHR 0xA4, CHR 0xC2, CHR 0xB9, CHR 0xC3, CHR 0xA0, CHR 0xC2, CHR 0xA5, CHR 0xCB, CHR 0x86]),
      (''ja'', [CHR 0xC3, CHR 0xA5, CHR 0xC2, CHR 0xAE, CHR 0xC5, CHR 0x92, CHR 0xC3, CHR 0xA4, CHR 0xC2, CHR 0xBA, CHR 0xE2, CHR 0x80, CHR 0xA0, CHR 0xC3, CHR 0xA3, CHR 0xE2, CHR 0x80, CHR 0x94, CHR 0xC3, CHR 0xA3, CHR 0xC5, CHR 0xB8, CHR 0xC3, CHR 0xA7, CHR 0xC2, CHR 0xBF, CHR 0xE2, CHR 0x80, CHR 0x99, CHR 0xC3, CHR 0xA6, CHR 0xE2, CHR 0x80, CHR 0xA6, CHR 0xC2, CHR 0xA3, CHR 0xC3, CHR 0xA3, CHR 0xC2, CHR 0xA8, CHR 0xC3, CHR 0xA3, CHR 0xE2, CHR 0x80, CHR 0x9A, CHR 0xC2, CHR 0xBF, CHR 0xC3, CHR 0xA3, CHR 0xE2, CHR 0x80, CHR 0x9A, CHR 0xC2, CHR 0xB9, CHR 0xC3, CHR 0xA3, CHR 0xE2, CHR 0x80, CHR 0x9A, CHR 0xC2, CHR 0xAF, CHR 0xC3, CHR 0xA3, CHR 0xE2, CHR 0x80, CHR 0x9A, CHR 0xE2, CHR 0x80, CHR 0x99, CHR 0xC3, CHR 0xA9, CHR 0xC5, CHR 0xBE, CHR 0xC3, CHR 0xA8, CHR 0xC2, CHR 0xA1, CHR 0xC2, CHR 0xA8, CHR 0xC3, CHR 0xA7, CHR 0xC2, CHR 0xA4, CHR 0xC2, CHR 0xBA, CHR 0xC3, CHR 0xA3, CHR 0xC2, CHR 0xAB, CHR 0xC3, CHR 0xA3, CHR 0xE2, CHR 0x80, CHR 0x94, CHR 0xC3, CHR 0xA3, CHR 0xC2, CHR 0xBE, CHR 0xC3, CHR 0xA3, CHR 0xE2, CHR 0x84, CHR 0xA2]),
      (''ko'', [CHR 0xC3, CHR 0xAC, CHR 0xE2, CHR 0x84, CHR 0xA2, CHR 0xE2, CHR 0x80, CHR 0x9E, CHR 0xC3, CHR 0xAB, CHR 0xC2, CHR 0xA3, CHR 0xC5, CHR 0x92, CHR 0xC3, CHR 0xAB, CHR 0xC5, CHR 0x93] @ '' '' @ [CHR 0xC3, CHR 0xAC, CHR 0xC5, CHR 0xA0, CHR 0xC2, CHR 0xB5, CHR 0xC3, CHR 0xAA, CHR 0xC2, CHR 0xB4, CHR 0xE2, CHR 0x82, CHR 0xAC, CHR 0xC3, CHR 0xAA, CHR 0xC2, CHR 0xB3, CHR 0xC2, CHR 0xBC] @ '' '' @ [CHR 0xC3, CHR 0xAC, CHR 0xC5, CHR 0xBE, CHR 0xE2, CHR 0x80, CHR 0x98, CHR 0xC3, CHR 0xAC, CHR 0xE2, CHR 0x80, CHR 0x94, CHR 0xE2, CHR 0x80, CHR 0xA6, CHR 0xC3, CHR 0xAC, CHR 0xE2, CHR 0x80, CHR 0x9E] @ '' '' @ [CHR 0xC3, CHR 0xAB, CHR 0xC2, CHR 0xB3, CHR 0xC2, CHR 0xB4, CHR 0xC3, CHR 0xAA, CHR 0xC2, CHR 0xB8, CHR 0xC2, CHR 0xB0, CHR 0xC3, CHR 0xAC, CHR 0xE2, CHR 0x80, CHR 0x94, CHR 0xC3, CHR 0xAC, CHR 0xE2, CHR 0x80, CHR 0x9E, CHR 0xC5, CHR 0x93] @ '' '' @ [CHR 0xC3, CHR 0xAC, CHR 0xCB, CHR 0x86, CHR 0xC2, CHR 0xA8, CHR 0xC3, CHR 0xAA, CHR 0xC2, CHR 0xB9, CHR 0xC3, CHR 0xAB, CHR 0xE2, CHR 0x80, CHR 0xB9, CHR 0xCB, CHR 0x86, CHR 0xC3, CHR 0xAB, CHR 0xE2, CHR 0x80, CHR 0xB9, CHR 0xC2, CHR 0xA4]),
      (''pt'', ''Oculta h'' @ [CHR 0xC3, CHR 0x83, CHR 0xC2, CHR 0xA1] @ ''bitos e tarefas conclu'' @ [CHR 0xC3, CHR 0x83, CHR 0xC2, CHR 0xAD] @ ''dos da visualiza'' @ [CHR 0xC3, CHR 0x83, CHR 0xC2, CHR 0xA7, CHR 0xC3, CHR 0x83, CHR 0xC2, CHR 0xA3] @ ''o''),
      (''zh-Hans'', [CHR 0xC3, CHR 0xA4, CHR 0xC2, CHR 0xBB, CHR 0xC5, CHR 0xBD, CHR 0xC3, CHR 0xA8, CHR 0xC2, CHR 0xA7, CHR 0xE2, CHR 0x80, CHR 0xA0, CHR 0xC3, CHR 0xA5, CHR 0xE2, CHR 0x80, CHR 0xBA, CHR 0xC2, CHR 0xBE, CHR 0xC3, CHR 0xA4, CHR 0xC2, CHR 0xB8, CHR 0xC2, CHR 0xAD, CHR 0xC3, CHR 0xA9, CHR 0xC5, CHR 0xA1, CHR 0xC3, CHR 0xA8, CHR 0xE2, CHR 0x80, CHR 0x94, CHR 0xC3, CHR 0xA5, CHR 0xC2, CHR 0xB7, CHR 0xC2, CHR 0xB2, CHR 0xC3, CHR 0xA5, CHR 0xC2, CHR 0xAE, CHR 0xC5, CHR 0x92, CHR 0xC3, CHR 0xA6, CHR 0xCB, CHR 0x86, CHR 0xC3, CHR 0xA7, CHR 0xC5, CHR 0xA1, CHR 0xE2, CHR 0x80, CHR 0x9E, CHR 0xC3, CHR 0xA4, CHR 0xC2, CHR 0xB9, CHR 0xC2, CHR 0xA0, CHR 0xC3, CHR 0xA6, CHR 0xC6, CHR 0x92, CHR 0xC2, CHR 0xAF, CHR 0xC3, CHR 0xA5, CHR 0xE2, CHR 0x80, CHR 0x99, CHR 0xC5, CHR 0x92, CHR 0xC3, CHR 0xA4, CHR 0xC2, CHR 0xBB, CHR 0xC2, CHR 0xBB, CHR 0xC3, CHR 0xA5, CHR 0xC5, CHR 0xA0, CHR 0xC2, CHR 0xA1]),
      (''en'', ''Hides completed habits and tasks from view'')]),
    (''Time-Based Filtering'',
     [
      (''ar'', [CHR 0xC3, CHR 0x98, CHR 0xC2, CHR 0xA7, CHR 0xC3, CHR 0x99, CHR 0xE2, CHR 0x80, CHR 0x9E, CHR 0xC3, CHR 0x98, CHR 0xC2, CHR 0xAA, CHR 0xC3, CHR 0x98, CHR 0xC2, CHR 0xB5, CHR 0xC3, CHR 0x99, CHR 0xC3, CHR 0x99, CHR 0xC5, CHR 0xA0, CHR 0xC3, CHR 0x98, CHR 0xC2, CHR 0xA9] @ '' '' @ [CHR 0xC3, CHR 0x98, CHR 0xC2, CHR 0xA7, CHR 0xC3, CHR 0x99, CHR 0xE2, CHR 0x80, CHR 0x9E, CHR 0xC3, CHR 0x99, CHR 0xE2, CHR 0x80, CHR 0x9A, CHR 0xC3, CHR 0x98, CHR 0xC2, CHR 0xA7, CHR 0xC3, CHR 0x98, CHR 0xC2, CHR 0xA6, CHR 0xC3, CHR 0x99, CHR 0xE2, CHR 0x80, CHR 0xA6, CHR 0xC3, CHR 0x98, CHR 0xC2, CHR 0xA9] @ '' '' @ [CHR 0xC3, CHR 0x98, CHR 0xC2, CHR 0xB9, CHR 0xC3, CHR 0x99, CHR 0xE2, CHR 0x80, CHR 0x9E, CHR 0xC3, CHR 0x99, CHR 0xE2, CHR 0x80, CHR 0xB0] @ '' '' @ [CHR 0xC3, CHR 0x98, CHR 0xC2, CHR 0xA7, CHR 0xC3, CHR 0x99, CHR 0xE2, CHR 0x80, CHR 0x9E, CHR 0xC3, CHR 0x99, CHR 0xCB, CHR 0x86, CHR 0xC3, CHR 0x99, CHR 0xE2, CHR 0x80, CHR 0x9A, CHR 0xC3, CHR 0x98, CHR 0xC2, CHR 0xAA]),
      (''de'', ''Zeitbasierte Filterung''),
      (''es'', ''Filtrado basado en tiempo''),
      (''fr'', ''Filtrage temporel''),
      (''hi'', [CHR 0xC3, CHR 0xA0, CHR 0xC2, CHR 0xA4, CHR 0xC2, CHR 0xB8, CHR 0xC3, CHR 0xA0, CHR 0xC2, CHR 0xA4, CHR 0xC2, CHR 0xAE, CHR 0xC3, CHR 0xA0, CHR 0xC2, CHR 0xA4, CHR 0xC2, CHR 0xAF] @ ''-'' @ [CHR 0xC3, CHR 0xA0, CHR 0xC2, CHR 0xA4, CHR 0xE2, CHR 0x80, CHR 0xA0, CHR 0xC3, CHR 0xA0, CHR 0xC2, CHR 0xA4, CHR 0xC2, CHR 0xA7, CHR 0xC3, CHR 0xA0, CHR 0xC2, CHR 0xA4, CHR 0xC2, CHR 0xBE, CHR 0xC3, CHR 0xA0, CHR 0xC2, CHR 0xA4, CHR 0xC2, CHR 0xB0, CHR 0xC3, CHR 0xA0, CHR 0xC2, CHR 0xA4, CHR 0xC2, CHR 0xBF, CHR 0xC3, CHR 0xA0, CHR 0xC2, CHR 0xA4, CHR 0xC2, CHR 0xA4] @ '' '' @ [CHR 0xC3, CHR 0xA0, CHR 0xC2, CHR 0xA4, CHR 0xC2, CHR 0xAB, CHR 0xC3, CHR 0xA0, CHR 0xC2, CHR 0xA4, CHR 0xC2, CHR 0xBC, CHR 0xC3, CHR 0xA0, CHR 0xC2, CHR 0xA4, CHR 0xC2, CHR 0xBF, CHR 0xC3, CHR 0xA0, CHR 0xC2, CHR 0xA4, CHR 0xC2, CHR 0xB2, CHR 0xC3, CHR 0xA0, CHR 0xC2, CHR 0xA5, CHR 0xC3, CHR 0xA0, CHR 0xC2, CHR 0xA4, CHR 0xC5, CHR 0xB8, CHR 0xC3, CHR 0xA0, CHR 0xC2, CHR 0xA4, CHR 0xC2, CHR 0xB0, CHR 0xC3, CHR 0xA0, CHR 0xC2, CHR 0xA4, CHR 0xC2, CHR 0xBF, CHR 0xC3, CHR 0xA0, CHR 0xC2, CHR 0xA4, CHR 0xE2, CHR 0x80, CHR 0x9A, CHR 0xC3, CHR 0xA0, CHR 0xC2, CHR 0xA4, CHR 0xE2, CHR 0x80, CHR 0x94]),
      (''ja'', [CHR 0xC3, CHR 0xA6, CHR 0xE2, CHR 0x84, CHR 0xA2, CHR 0xE2, CHR 0x80, CHR 0x9A, CHR 0xC3, CHR 0xA9, CHR 0xE2, CHR 0x80, CHR 0x93, CHR 0xE2, CHR 0x80, CHR 0x9C, CHR 0xC3, CHR 0xA3, CHR 0xC6, CHR 0x92, CHR 0xE2, CHR 0x84, CHR 0xA2, CHR 0xC3, CHR 0xA3, CHR 0xC6, CHR 0x92, CHR 0xC2, CHR 0xBC, CHR 0xC3, CHR 0xA3, CHR 0xE2, CHR 0x80, CHR 0x9A, CHR 0xC2, CHR 0xB9, CHR 0xC3, CHR 0xA3, CHR 0xC6, CHR 0x92, CHR 0xE2, CHR 0x80, CHR 0xA2, CHR 0xC3, CHR 0xA3, CHR 0xE2, CHR 0x80, CHR 0x9A, CHR 0xC2, CHR 0xA3, CHR 0xC3, CHR 0xA3, CHR 0xC6, CHR 0x92, CHR 0xC2, CHR 0xAB, CHR 0xC3, CHR 0xA3, CHR 0xE2, CHR 0x80, CHR 0x9A, CHR 0xC2, CHR 0xBF, CHR 0xC3, CHR 0xA3, CHR 0xC6, CHR 0x92, CHR 0xC2, CHR 0xAA, CHR 0xC3, CHR 0xA3, CHR 0xC6, CHR 0x92, CHR 0xC2, CHR 0xB3, CHR 0xC3, CHR 0xA3, CHR 0xE2, CHR 0x80, CHR 0x9A, CHR 0xC2, CHR 0xB0]),
      (''ko'', [CHR 0xC3, CHR 0xAC, CHR 0xE2, CHR 0x80, CHR 0xB9, CHR 0xC5, CHR 0x93, CHR 0xC3, CHR 0xAA, CHR 0xC2, CHR 0xB0, CHR 0xE2, CHR 0x80, CHR 0x9E] @ '' '' @ [CHR 0xC3, CHR 0xAA, CHR 0xC2, CHR 0xB8, CHR 0xC2, CHR 0xB0, CHR 0xC3, CHR 0xAB, CHR 0xC2, CHR 0xB0, CHR 0xCB, CHR 0x9C] @ '' '' @ [CHR 0xC3, CHR 0xAD, CHR 0xE2, CHR 0x80, CHR 0xA2, CHR 0xE2, CHR 0x80, CHR 0x9E, CHR 0xC3, CHR 0xAD, CHR 0xE2, CHR 0x80, CHR 0x9E, CHR 0xC2, CHR 0xB0, CHR 0xC3, CHR 0xAB, CHR 0xC2, CHR 0xA7]),
      (''pt'', ''Filtragem baseada em tempo''),
      (''zh-Hans'', [CHR 0xC3, CHR 0xA5, CHR 0xC5, CHR 0xB8, CHR 0xC2, CHR 0xBA, CHR 0xC3, CHR 0xA4, CHR 0xC2, CHR 0xBA, CHR 0xC5, CHR 0xBD, CHR 0xC3, CHR 0xA6, CHR 0xE2, CHR 0x80, CHR 0x94, CHR 0xC2, CHR 0xB6, CHR 0xC3, CHR 0xA9, CHR 0xE2, CHR 0x80, CHR 0x94, CHR 0xC2, CHR 0xB4, CHR 0xC3, CHR 0xA7, CHR 0xC5, CHR 0xA1, CHR 0xE2, CHR 0x80, CHR 0x9E, CHR 0xC3, CHR 0xA8, CHR 0xC2, CHR 0xBF, CHR 0xE2, CHR 0x80, CHR 0xA1, CHR 0xC3, CHR 0xA6, CHR 0xC2, CHR 0xBB, CHR 0xC2, CHR 0xA4]),
      (''en'', ''Time-Based Filtering'')]),
    (''View Options'',
     [
      (''ar'', [CHR 0xC3, CHR 0x98, CHR 0xC2, CHR 0xAE, CHR 0xC3, CHR 0x99, CHR 0xC5, CHR 0xA0, CHR 0xC3, CHR 0x98, CHR 0xC2, CHR 0xA7, CHR 0xC3, CHR 0x98, CHR 0xC2, CHR 0xB1, CHR 0xC3, CHR 0x98, CHR 0xC2, CHR 0xA7, CHR 0xC3, CHR 0x98, CHR 0xC2, CHR 0xAA] @ '' '' @ [CHR 0xC3, CHR 0x98, CHR 0xC2, CHR 0xA7, CHR 0xC3, CHR 0x99, CHR 0xE2, CHR 0x80, CHR 0x9E, CHR 0xC3, CHR 0x98, CHR 0xC2, CHR 0xB9, CHR 0xC3, CHR 0x98, CHR 0xC2, CHR 0xB1, CHR 0xC3, CHR 0x98, CHR 0xC2, CHR 0xB6]),
      (''de'', ''Ansichtsoptionen''),
      (''es'', ''Opciones de vista''),
      (''fr'', ''Options d'affichage''),
      (''hi'', [CHR 0xC3, CHR 0xA0, CHR 0xC2, CHR 0xA4, CHR 0xC2, CHR 0xA6, CHR 0xC3, CHR 0xA0, CHR 0xC2, CHR 0xA5, CHR 0xC6, CHR 0x92, CHR 0xC3, CHR 0xA0, CHR 0xC2, CHR 0xA4, CHR 0xC2, CHR 0xB6, CHR 0xC3, CHR 0xA0, CHR 0xC2, CHR 0xA5, CHR 0xC3, CHR 0xA0, CHR 0xC2, CHR 0xA4, CHR 0xC2, CHR 0xAF] @ '' '' @ [CHR 0xC3, CHR 0xA0, CHR 0xC2, CHR 0xA4, CHR 0xC2, CHR 0xB5, CHR 0xC3, CHR 0xA0, CHR 0xC2, CHR 0xA4, CHR 0xC2, CHR 0xBF, CHR 0xC3, CHR 0xA0, CHR 0xC2, CHR 0xA4, CHR 0xE2, CHR 0x80, CHR 0xA2, CHR 0xC3, CHR 0xA0, CHR 0xC2, CHR 0xA4, CHR 0xC2, CHR 0xB2, CHR 0xC3, CHR 0xA0, CHR 0xC2, CHR 0xA5, CHR 0xC3, CHR 0xA0, CHR 0xC2, CHR 0xA4, CHR 0xC2, CHR 0xAA]),
      (''ja'', [CHR 0xC3, CHR 0xA8, CHR 0xC2, CHR 0xA1, CHR 0xC2, CHR 0xA8, CHR 0xC3, CHR 0xA7, CHR 0xC2, CHR 0xA4, CHR 0xC2, CHR 0xBA, CHR 0xC3, CHR 0xA3, CHR 0xE2, CHR 0x80, CHR 0x9A, CHR 0xC2, CHR 0xAA, CHR 0xC3, CHR 0xA3, CHR 0xC6, CHR 0x92, CHR 0xE2, CHR 0x80, CHR 0x94, CHR 0xC3, CHR 0xA3, CHR 0xE2, CHR 0x80, CHR 0x9A, CHR 0xC2, CHR 0xB7, CHR 0xC3, CHR 0xA3, CHR 0xC6, CHR 0x92, CHR 0xC2, CHR 0xA7, CHR 0xC3, CHR 0xA3, CHR 0xC6, CHR 0x92, CHR 0xC2, CHR 0xB3]),
      (''ko'', [CHR 0xC3, CHR 0xAB, CHR 0xC2, CHR 0xB3, CHR 0xC2, CHR 0xB4, CHR 0xC3, CHR 0xAA, CHR 0xC2, CHR 0xB8, CHR 0xC2, CHR 0xB0] @ '' '' @ [CHR 0xC3, CHR 0xAC, CHR 0xCB, CHR 0x9C, CHR 0xC2, CHR 0xB5, CHR 0xC3, CHR 0xAC, CHR 0xE2, CHR 0x80, CHR 0xA6, CHR 0xCB, CHR 0x9C]),
      (''pt'', ''Op'' @ [CHR 0xC3, CHR 0x83, CHR 0xC2, CHR 0xA7, CHR 0xC3, CHR 0x83, CHR 0xC2, CHR 0xB5] @ ''es de visualiza'' @ [CHR 0xC3, CHR 0x83, CHR 0xC2, CHR 0xA7, CHR 0xC3, CHR 0x83, CHR 0xC2, CHR 0xA3] @ ''o''),
      (''zh-Hans'', [CHR 0xC3, CHR 0xA6, CHR 0xC5, CHR 0xB8, CHR 0xC2, CHR 0xA5, CHR 0xC3, CHR 0xA7, CHR 0xC5, CHR 0x93, CHR 0xE2, CHR 0x80, CHR 0xB9, CHR 0xC3, CHR 0xA9, CHR 0xE2, CHR 0x82, CHR 0xAC, CHR 0xE2, CHR 0x80, CHR 0xB0, CHR 0xC3, CHR 0xA9, CHR 0xC2, CHR 0xA1, CHR 0xC2, CHR 0xB9]),
      (''en'', ''View Options'')]),
    (''Nothing to do.'',
     [
      (''ar'', [CHR 0xC3, CHR 0x99, CHR 0xE2, CHR 0x80, CHR 0x9E, CHR 0xC3, CHR 0x98, CHR 0xC2, CHR 0xA7] @ '' '' @ [CHR 0xC3, CHR 0x99, CHR 0xC5, CHR 0xA0, CHR 0xC3, CHR 0x99, CHR 0xCB, CHR 0x86, CHR 0xC3, CHR 0x98, CHR 0xC2, CHR 0xAC, CHR 0xC3, CHR 0x98, CHR 0xC2, CHR 0xAF] @ '' '' @ [CHR 0xC3, CHR 0x98, CHR 0xC2, CHR 0xB4, CHR 0xC3, CHR 0x99, CHR 0xC5, CHR 0xA0, CHR 0xC3, CHR 0x98, CHR 0xC2, CHR 0xA1] @ '' '' @ [CHR 0xC3, CHR 0x99, CHR 0xE2, CHR 0x80, CHR 0x9E, CHR 0xC3, CHR 0x99, CHR 0xE2, CHR 0x80, CHR 0x9E, CHR 0xC3, CHR 0x99, CHR 0xE2, CHR 0x80, CHR 0x9A, CHR 0xC3, CHR 0x99, CHR 0xC5, CHR 0xA0, CHR 0xC3, CHR 0x98, CHR 0xC2, CHR 0xA7, CHR 0xC3, CHR 0x99, CHR 0xE2, CHR 0x80, CHR 0xA6] @ '' '' @ [CHR 0xC3, CHR 0x98, CHR 0xC2, CHR 0xA8, CHR 0xC3, CHR 0x99, CHR 0xE2, CHR 0x80, CHR 0xA1] @ ''.''),
      (''de'', ''Nichts zu tun.''),
      (''es'', ''Nada que hacer.''),
      (''fr'', ''Rien '' @ [CHR 0xC3, CHR 0x83, CHR 0xC2, CHR 0xA0] @ '' faire.''),
      (''hi'', [CHR 0xC3, CHR 0xA0, CHR 0xC2, CHR 0xA4, CHR 0xE2, CHR 0x80, CHR 0xA2, CHR 0xC3, CHR 0xA0, CHR 0xC2, CHR 0xA5, CHR 0xC3, CHR 0xA0, CHR 0xC2, CHR 0xA4, CHR 0xE2, CHR 0x80, CHR 0xBA] @ '' '' @ [CHR 0xC3, CHR 0xA0, CHR 0xC2, CHR 0xA4, CHR 0xC2, CHR 0xA8, CHR 0xC3, CHR 0xA0, CHR 0xC2, CHR 0xA4, CHR 0xC2, CHR 0xB9, CHR 0xC3, CHR 0xA0, CHR 0xC2, CHR 0xA5, CHR 0xE2, CHR 0x82, CHR 0xAC, CHR 0xC3, CHR 0xA0, CHR 0xC2, CHR 0xA4, CHR 0xE2, CHR 0x80, CHR 0x9A] @ '' '' @ [CHR 0xC3, CHR 0xA0, CHR 0xC2, CHR 0xA4, CHR 0xE2, CHR 0x80, CHR 0xA2, CHR 0xC3, CHR 0xA0, CHR 0xC2, CHR 0xA4, CHR 0xC2, CHR 0xB0, CHR 0xC3, CHR 0xA0, CHR 0xC2, CHR 0xA4, CHR 0xC2, CHR 0xA8, CHR 0xC3, CHR 0xA0, CHR 0xC2, CHR 0xA4, CHR 0xC2, CHR 0xBE] @ ''.''),
      (''ja'', [CHR 0xC3, CHR 0xA3, CHR 0xE2, CHR 0x80, CHR 0x9A, CHR 0xE2, CHR 0x80, CHR 0x9E, CHR 0xC3, CHR 0xA3, CHR 0xE2, CHR 0x80, CHR 0x9A, CHR 0xE2, CHR 0x80, CHR 0xB9, CHR 0xC3, CHR 0xA3, CHR 0xE2, CHR 0x80, CHR 0x9C, CHR 0xC3, CHR 0xA3, CHR 0xC2, CHR 0xA8, CHR 0xC3, CHR 0xA3, CHR 0xC2, CHR 0xAF, CHR 0xC3, CHR 0xA3, CHR 0xE2, CHR 0x80, CHR 0x9A, CHR 0xC3, CHR 0xA3, CHR 0xE2, CHR 0x80, CHR 0x9A, CHR 0xC5, CHR 0xA0, CHR 0xC3, CHR 0xA3, CHR 0xC2, CHR 0xBE, CHR 0xC3, CHR 0xA3, CHR 0xE2, CHR 0x80, CHR 0xBA, CHR 0xC3, CHR 0xA3, CHR 0xE2, CHR 0x80, CHR 0x9A, CHR 0xE2, CHR 0x80, CHR 0x9C, CHR 0xC3, CHR 0xA3, CHR 0xE2, CHR 0x82, CHR 0xAC, CHR 0xE2, CHR 0x80, CHR 0x9A]),
      (''ko'', [CHR 0xC3, CHR 0xAD, CHR 0xE2, CHR 0x80, CHR 0xA2, CHR 0xC2, CHR 0xA0] @ '' '' @ [CHR 0xC3, CHR 0xAC, CHR 0xC2, CHR 0xBC, CHR 0xC3, CHR 0xAC, CHR 0xC2, CHR 0xB4] @ '' '' @ [CHR 0xC3, CHR 0xAC, CHR 0xE2, CHR 0x80, CHR 0x94, CHR 0xE2, CHR 0x80, CHR 0xA0, CHR 0xC3, CHR 0xAC, CHR 0xC5, CHR 0xA0, CHR 0xC2, CHR 0xB5, CHR 0xC3, CHR 0xAB, CHR 0xE2, CHR 0x80, CHR 0xB9, CHR 0xCB, CHR 0x86, CHR 0xC3, CHR 0xAB, CHR 0xE2, CHR 0x80, CHR 0xB9, CHR 0xC2, CHR 0xA4] @ ''.''),
      (''pt'', ''Nada para fazer.''),
      (''zh-Hans'', [CHR 0xC3, CHR 0xA6, CHR 0xE2, CHR 0x80, CHR 0x94, CHR 0xC2, CHR 0xA0, CHR 0xC3, CHR 0xA4, CHR 0xC2, CHR 0xBA, CHR 0xE2, CHR 0x80, CHR 0xB9, CHR 0xC3, CHR 0xA5, CHR 0xC2, CHR 0xAF, CHR 0xC3, CHR 0xA5, CHR 0xC5, CHR 0xA1, CHR 0xC3, CHR 0xA3, CHR 0xE2, CHR 0x82, CHR 0xAC, CHR 0xE2, CHR 0x80, CHR 0x9A]),
      (''en'', ''Nothing to do.'')]),
    (''Habit Reminders'',
     [
      (''ar'', [CHR 0xC3, CHR 0x98, CHR 0xC2, CHR 0xAA, CHR 0xC3, CHR 0x98, CHR 0xC2, CHR 0xB0, CHR 0xC3, CHR 0x99, CHR 0xC6, CHR 0x92, CHR 0xC3, CHR 0x99, CHR 0xC5, CHR 0xA0, CHR 0xC3, CHR 0x98, CHR 0xC2, CHR 0xB1, CHR 0xC3, CHR 0x98, CHR 0xC2, CHR 0xA7, CHR 0xC3, CHR 0x98, CHR 0xC2, CHR 0xAA] @ '' '' @ [CHR 0xC3, CHR 0x98, CHR 0xC2, CHR 0xA7, CHR 0xC3, CHR 0x99, CHR 0xE2, CHR 0x80, CHR 0x9E, CHR 0xC3, CHR 0x98, CHR 0xC2, CHR 0xB9, CHR 0xC3, CHR 0x98, CHR 0xC2, CHR 0xA7, CHR 0xC3, CHR 0x98, CHR 0xC2, CHR 0xAF, CHR 0xC3, CHR 0x98, CHR 0xC2, CHR 0xA7, CHR 0xC3, CHR 0x98, CHR 0xC2, CHR 0xAA]),
      (''de'', ''Gewohnheitserinnerungen''),
      (''es'', ''Recordatorios de h'' @ [CHR 0xC3, CHR 0x83, CHR 0xC2, CHR 0xA1] @ ''bitos''),
      (''fr'', ''Rappels d'habitudes''),
      (''hi'', [CHR 0xC3, CHR 0xA0, CHR 0xC2, CHR 0xA4, CHR 0xE2, CHR 0x80, CHR 0xA0, CHR 0xC3, CHR 0xA0, CHR 0xC2, CHR 0xA4, CHR 0xC2, CHR 0xA6, CHR 0xC3, CHR 0xA0, CHR 0xC2, CHR 0xA4, CHR 0xC2, CHR 0xA4] @ '' '' @ [CHR 0xC3, CHR 0xA0, CHR 0xC2, CHR 0xA4, CHR 0xE2, CHR 0x80, CHR 0xA6, CHR 0xC3, CHR 0xA0, CHR 0xC2, CHR 0xA4, CHR 0xC2, CHR 0xA8, CHR 0xC3, CHR 0xA0, CHR 0xC2, CHR 0xA5, CHR 0xC3, CHR 0xA0, CHR 0xC2, CHR 0xA4, CHR 0xC2, CHR 0xB8, CHR 0xC3, CHR 0xA0, CHR 0xC2, CHR 0xA5, CHR 0xC3, CHR 0xA0, CHR 0xC2, CHR 0xA4, CHR 0xC2, CHR 0xAE, CHR 0xC3, CHR 0xA0, CHR 0xC2, CHR 0xA4, CHR 0xC2, CHR 0xBE, CHR 0xC3, CHR 0xA0, CHR 0xC2, CHR 0xA4, CHR 0xC2, CHR 0xB0, CHR 0xC3, CHR 0xA0, CHR 0xC2, CHR 0xA4, CHR 0xE2, CHR 0x80, CHR 0xA2]),
      (''ja'', [CHR 0xC3, CHR 0xA7, CHR 0xC2, CHR 0xBF, CHR 0xE2, CHR 0x80, CHR 0x99, CHR 0xC3, CHR 0xA6, CHR 0xE2, CHR 0x80, CHR 0xA6, CHR 0xC2, CHR 0xA3, CHR 0xC3, CHR 0xA3, CHR 0xC6, CHR 0x92, CHR 0xC2, CHR 0xAA, CHR 0xC3, CHR 0xA3, CHR 0xC6, CHR 0x92, CHR 0xC5, CHR 0xBE, CHR 0xC3, CHR 0xA3, CHR 0xE2, CHR 0x80, CHR 0x9A, CHR 0xC2, CHR 0xA4, CHR 0xC3, CHR 0xA3, CHR 0xC6, CHR 0x92, CHR 0xC2, CHR 0xB3, CHR 0xC3, CHR 0xA3, CHR 0xC6, CHR 0x92, CHR 0xE2, CHR 0x82, CHR 0xAC, CHR 0xC3, CHR 0xA3, CHR 0xC6, CHR 0x92, CHR 0xC2, CHR 0xBC]),
      (''ko'', [CHR 0xC3, CHR 0xAC, CHR 0xC5, CHR 0xA0, CHR 0xC2, CHR 0xB5, CHR 0xC3, CHR 0xAA, CHR 0xC2, CHR 0xB4, CHR 0xE2, CHR 0x82, CHR 0xAC] @ '' '' @ [CHR 0xC3, CHR 0xAC, CHR 0xE2, CHR 0x80, CHR 0xA2, CHR 0xC5, CHR 0x92, CHR 0xC3, CHR 0xAB, CHR 0xC2, CHR 0xA6, CHR 0xC2, CHR 0xBC]),
      (''pt'', ''Lembretes de h'' @ [CHR 0xC3, CHR 0x83, CHR 0xC2, CHR 0xA1] @ ''bitos''),
      (''zh-Hans'', [CHR 0xC3, CHR 0xA4, CHR 0xC2, CHR 0xB9, CHR 0xC2, CHR 0xA0, CHR 0xC3, CHR 0xA6, CHR 0xC6, CHR 0x92, CHR 0xC2, CHR 0xAF, CHR 0xC3, CHR 0xA6, CHR 0xC3, CHR 0xA9, CHR 0xE2, CHR 0x80, CHR 0xA0, CHR 0xE2, CHR 0x80, CHR 0x99]),
      (''en'', ''Habit Reminders'')]),
    (''Enable reminders'',
     [
      (''ar'', [CHR 0xC3, CHR 0x98, CHR 0xC2, CHR 0xAA, CHR 0xC3, CHR 0x99, CHR 0xE2, CHR 0x80, CHR 0xA6, CHR 0xC3, CHR 0x99, CHR 0xC6, CHR 0x92, CHR 0xC3, CHR 0x99, CHR 0xC5, CHR 0xA0, CHR 0xC3, CHR 0x99, CHR 0xE2, CHR 0x80, CHR 0xA0] @ '' '' @ [CHR 0xC3, CHR 0x98, CHR 0xC2, CHR 0xA7, CHR 0xC3, CHR 0x99, CHR 0xE2, CHR 0x80, CHR 0x9E, CHR 0xC3, CHR 0x98, CHR 0xC2, CHR 0xAA, CHR 0xC3, CHR 0x98, CHR 0xC2, CHR 0xB0, CHR 0xC3, CHR 0x99, CHR 0xC6, CHR 0x92, CHR 0xC3, CHR 0x99, CHR 0xC5, CHR 0xA0, CHR 0xC3, CHR 0x98, CHR 0xC2, CHR 0xB1, CHR 0xC3, CHR 0x98, CHR 0xC2, CHR 0xA7, CHR 0xC3, CHR 0x98, CHR 0xC2, CHR 0xAA]),
      (''de'', ''Erinnerungen aktivieren''),
      (''es'', ''Habilitar recordatorios''),
      (''fr'', ''Activer les rappels''),
      (''hi'', [CHR 0xC3, CHR 0xA0, CHR 0xC2, CHR 0xA4, CHR 0xE2, CHR 0x80, CHR 0xA6, CHR 0xC3, CHR 0xA0, CHR 0xC2, CHR 0xA4, CHR 0xC2, CHR 0xA8, CHR 0xC3, CHR 0xA0, CHR 0xC2, CHR 0xA5, CHR 0xC3, CHR 0xA0, CHR 0xC2, CHR 0xA4, CHR 0xC2, CHR 0xB8, CHR 0xC3, CHR 0xA0, CHR 0xC2, CHR 0xA5, CHR 0xC3, CHR 0xA0, CHR 0xC2, CHR 0xA4, CHR 0xC2, CHR 0xAE, CHR 0xC3, CHR 0xA0, CHR 0xC2, CHR 0xA4, CHR 0xC2, CHR 0xBE, CHR 0xC3, CHR 0xA0, CHR 0xC2, CHR 0xA4, CHR 0xC2, CHR 0xB0, CHR 0xC3, CHR 0xA0, CHR 0xC2, CHR 0xA4, CHR 0xE2, CHR 0x80, CHR 0xA2] @ '' '' @ [CHR 0xC3, CHR 0xA0, CHR 0xC2, CHR 0xA4, CHR 0xC2, CHR 0xB8, CHR 0xC3, CHR 0xA0, CHR 0xC2, CHR 0xA4, CHR 0xE2, CHR 0x80, CHR 0xA2, CHR 0xC3, CHR 0xA0, CHR 0xC2, CHR 0xA5, CHR 0xC3, CHR 0xA0, CHR 0xC2, CHR 0xA4, CHR 0xC2, CHR 0xB7, CHR 0xC3, CHR 0xA0, CHR 0xC2, CHR 0xA4, CHR 0xC2, CHR 0xAE] @ '' '' @ [CHR 0xC3, CHR 0xA0, CHR 0xC2, CHR 0xA4, CHR 0xE2, CHR 0x80, CHR 0xA2, CHR 0xC3, CHR 0xA0, CHR 0xC2, CHR 0xA4, CHR 0xC2, CHR 0xB0, CHR 0xC3, CHR 0xA0, CHR 0xC2, CHR 0xA5, CHR 0xE2, CHR 0x80, CHR 0xA1, CHR 0xC3, CHR 0xA0, CHR 0xC2, CHR 0xA4, CHR 0xE2, CHR 0x80, CHR 0x9A]),
      (''ja'', [CHR 0xC3, CHR 0xA3, CHR 0xC6, CHR 0x92, CHR 0xC2, CHR 0xAA, CHR 0xC3, CHR 0xA3, CHR 0xC6, CHR 0x92, CHR 0xC5, CHR 0xBE, CHR 0xC3, CHR 0xA3, CHR 0xE2, CHR 0x80, CHR 0x9A, CHR 0xC2, CHR 0xA4, CHR 0xC3, CHR 0xA3, CHR 0xC6, CHR 0x92, CHR 0xC2, CHR 0xB3, CHR 0xC3, CHR 0xA3, CHR 0xC6, CHR 0x92, CHR 0xE2, CHR 0x82, CHR 0xAC, CHR 0xC3, CHR 0xA3, CHR 0xC6, CHR 0x92, CHR 0xC2, CHR 0xBC, CHR 0xC3, CHR 0xA3, CHR 0xE2, CHR 0x80, CHR 0x9A, CHR 0xE2, CHR 0x80, CHR 0x99, CHR 0xC3, CHR 0xA6, CHR 0xC5, CHR 0x93, CHR 0xE2, CHR 0x80, CHR 0xB0, CHR 0xC3, CHR 0xA5, CHR 0xC5, CHR 0xA0, CHR 0xC2, CHR 0xB9, CHR 0xC3, CHR 0xA3, CHR 0xC2, CHR 0xAB, CHR 0xC3, CHR 0xA3, CHR 0xE2, CHR 0x84, CHR 0xA2, CHR 0xC3, CHR 0xA3, CHR 0xE2, CHR 0x80, CHR 0x9A, CHR 0xE2, CHR 0x80, CHR 0xB9]),
      (''ko'', [CHR 0xC3, CHR 0xAC, CHR 0xE2, CHR 0x80, CHR 0xA2, CHR 0xC5, CHR 0x92, CHR 0xC3, CHR 0xAB, CHR 0xC2, CHR 0xA6, CHR 0xC2, CHR 0xBC] @ '' '' @ [CHR 0xC3, CHR 0xAD, CHR 0xE2, CHR 0x84, CHR 0xA2, CHR 0xC5, CHR 0x93, CHR 0xC3, CHR 0xAC, CHR 0xE2, CHR 0x80, CHR 0x9E, CHR 0xC2, CHR 0xB1, CHR 0xC3, CHR 0xAD, CHR 0xE2, CHR 0x84, CHR 0xA2, CHR 0xE2, CHR 0x80, CHR 0x9D]),
      (''pt'', ''Ativar lembretes''),
      (''zh-Hans'', [CHR 0xC3, CHR 0xA5, CHR 0xC2, CHR 0xAF, CHR 0xC3, CHR 0xA7, CHR 0xE2, CHR 0x80, CHR 0x9D, CHR 0xC2, CHR 0xA8, CHR 0xC3, CHR 0xA6, CHR 0xC3, CHR 0xA9, CHR 0xE2, CHR 0x80, CHR 0xA0, CHR 0xE2, CHR 0x80, CHR 0x99]),
      (''en'', ''Enable reminders'')]),
    (''All reminders disabled'',
     [
      (''ar'', [CHR 0xC3, CHR 0x98, CHR 0xC2, CHR 0xAC, CHR 0xC3, CHR 0x99, CHR 0xE2, CHR 0x80, CHR 0xA6, CHR 0xC3, CHR 0x99, CHR 0xC5, CHR 0xA0, CHR 0xC3, CHR 0x98, CHR 0xC2, CHR 0xB9] @ '' '' @ [CHR 0xC3, CHR 0x98, CHR 0xC2, CHR 0xA7, CHR 0xC3, CHR 0x99, CHR 0xE2, CHR 0x80, CHR 0x9E, CHR 0xC3, CHR 0x98, CHR 0xC2, CHR 0xAA, CHR 0xC3, CHR 0x98, CHR 0xC2, CHR 0xB0, CHR 0xC3, CHR 0x99, CHR 0xC6, CHR 0x92, CHR 0xC3, CHR 0x99, CHR 0xC5, CHR 0xA0, CHR 0xC3, CHR 0x98, CHR 0xC2, CHR 0xB1, CHR 0xC3, CHR 0x98, CHR 0xC2, CHR 0xA7, CHR 0xC3, CHR 0x98, CHR 0xC2, CHR 0xAA] @ '' '' @ [CHR 0xC3, CHR 0x99, CHR 0xE2, CHR 0x80, CHR 0xA6, CHR 0xC3, CHR 0x98, CHR 0xC2, CHR 0xB9, CHR 0xC3, CHR 0x98, CHR 0xC2, CHR 0xB7, CHR 0xC3, CHR 0x99, CHR 0xE2, CHR 0x80, CHR 0x9E, CHR 0xC3, CHR 0x98, CHR 0xC2, CHR 0xA9]),
      (''de'', ''Alle Erinnerungen deaktiviert''),
      (''es'', ''Todos los recordatorios desactivados''),
      (''fr'', ''Tous les rappels d'' @ [CHR 0xC3, CHR 0x83, CHR 0xC2, CHR 0xA9] @ ''sactiv'' @ [CHR 0xC3, CHR 0x83, CHR 0xC2, CHR 0xA9] @ ''s''),
      (''hi'', [CHR 0xC3, CHR 0xA0, CHR 0xC2, CHR 0xA4, CHR 0xC2, CHR 0xB8, CHR 0xC3, CHR 0xA0, CHR 0xC2, CHR 0xA4, CHR 0xC2, CHR 0xAD, CHR 0xC3, CHR 0xA0, CHR 0xC2, CHR 0xA5, CHR 0xE2, CHR 0x82, CHR 0xAC] @ '' '' @ [CHR 0xC3, CHR 0xA0, CHR 0xC2, CHR 0xA4, CHR 0xE2, CHR 0x80, CHR 0xA6, CHR 0xC3, CHR 0xA0, CHR 0xC2, CHR 0xA4, CHR 0xC2, CHR 0xA8, CHR 0xC3, CHR 0xA0, CHR 0xC2, CHR 0xA5, CHR 0xC3, CHR 0xA0, CHR 0xC2, CHR 0xA4, CHR 0xC2, CHR 0xB8, CHR 0xC3, CHR 0xA0, CHR 0xC2, CHR 0xA5, CHR 0xC3, CHR 0xA0, CHR 0xC2, CHR 0xA4, CHR 0xC2, CHR 0xAE, CHR 0xC3, CHR 0xA0, CHR 0xC2, CHR 0xA4, CHR 0xC2, CHR 0xBE, CHR 0xC3, CHR 0xA0, CHR 0xC2, CHR 0xA4, CHR 0xC2, CHR 0xB0, CHR 0xC3, CHR 0xA0, CHR 0xC2, CHR 0xA4, CHR 0xE2, CHR 0x80, CHR 0xA2] @ '' '' @ [CHR 0xC3, CHR 0xA0, CHR 0xC2, CHR 0xA4, CHR 0xE2, CHR 0x80, CHR 0xA6, CHR 0xC3, CHR 0xA0, CHR 0xC2, CHR 0xA4, CHR 0xE2, CHR 0x80, CHR 0xA2, CHR 0xC3, CHR 0xA0, CHR 0xC2, CHR 0xA5, CHR 0xC3, CHR 0xA0, CHR 0xC2, CHR 0xA4, CHR 0xC2, CHR 0xB7, CHR 0xC3, CHR 0xA0, CHR 0xC2, CHR 0xA4, CHR 0xC2, CHR 0xAE]),
      (''ja'', [CHR 0xC3, CHR 0xA3, CHR 0xE2, CHR 0x84, CHR 0xA2, CHR 0xC3, CHR 0xA3, CHR 0xC2, CHR 0xB9, CHR 0xC3, CHR 0xA3, CHR 0xC2, CHR 0xA6, CHR 0xC3, CHR 0xA3, CHR 0xC2, CHR 0xAE, CHR 0xC3, CHR 0xA3, CHR 0xC6, CHR 0x92, CHR 0xC2, CHR 0xAA, CHR 0xC3, CHR 0xA3, CHR 0xC6, CHR 0x92, CHR 0xC5, CHR 0xBE, CHR 0xC3, CHR 0xA3, CHR 0xE2, CHR 0x80, CHR 0x9A, CHR 0xC2, CHR 0xA4, CHR 0xC3, CHR 0xA3, CHR 0xC6, CHR 0x92, CHR 0xC2, CHR 0xB3, CHR 0xC3, CHR 0xA3, CHR 0xC6, CHR 0x92, CHR 0xE2, CHR 0x82, CHR 0xAC, CHR 0xC3, CHR 0xA3, CHR 0xC6, CHR 0x92, CHR 0xC2, CHR 0xBC, CHR 0xC3, CHR 0xA3, CHR 0xC5, CHR 0x92, CHR 0xC3, CHR 0xA7, CHR 0xE2, CHR 0x80, CHR 0x9E, CHR 0xC2, CHR 0xA1, CHR 0xC3, CHR 0xA5, CHR 0xC5, CHR 0xA0, CHR 0xC2, CHR 0xB9]),
      (''ko'', [CHR 0xC3, CHR 0xAB, CHR 0xC2, CHR 0xAA, CHR 0xC2, CHR 0xA8, CHR 0xC3, CHR 0xAB, CHR 0xE2, CHR 0x80, CHR 0x9C, CHR 0xC2, CHR 0xA0] @ '' '' @ [CHR 0xC3, CHR 0xAC, CHR 0xE2, CHR 0x80, CHR 0xA2, CHR 0xC5, CHR 0x92, CHR 0xC3, CHR 0xAB, CHR 0xC2, CHR 0xA6, CHR 0xC2, CHR 0xBC, CHR 0xC3, CHR 0xAC, CHR 0xC2, CHR 0xB4] @ '' '' @ [CHR 0xC3, CHR 0xAB, CHR 0xC2, CHR 0xB9, CHR 0xE2, CHR 0x80, CHR 0x9E, CHR 0xC3, CHR 0xAD, CHR 0xE2, CHR 0x84, CHR 0xA2, CHR 0xC5, CHR 0x93, CHR 0xC3, CHR 0xAC, CHR 0xE2, CHR 0x80, CHR 0x9E, CHR 0xC2, CHR 0xB1, CHR 0xC3, CHR 0xAD, CHR 0xE2, CHR 0x84, CHR 0xA2, CHR 0xE2, CHR 0x80, CHR 0x9D, CHR 0xC3, CHR 0xAB, CHR 0xC2, CHR 0xA8]),
      (''pt'', ''Todos os lembretes desativados''),
      (''zh-Hans'', [CHR 0xC3, CHR 0xA6, CHR 0xE2, CHR 0x80, CHR 0xB0, CHR 0xE2, CHR 0x82, CHR 0xAC, CHR 0xC3, CHR 0xA6, CHR 0xC5, CHR 0x93, CHR 0xE2, CHR 0x80, CHR 0xB0, CHR 0xC3, CHR 0xA6, CHR 0xC3, CHR 0xA9, CHR 0xE2, CHR 0x80, CHR 0xA0, CHR 0xE2, CHR 0x80, CHR 0x99, CHR 0xC3, CHR 0xA5, CHR 0xC2, CHR 0xB7, CHR 0xC2, CHR 0xB2, CHR 0xC3, CHR 0xA7, CHR 0xC2, CHR 0xA6, CHR 0xC3, CHR 0xA7, CHR 0xE2, CHR 0x80, CHR 0x9D, CHR 0xC2, CHR 0xA8]),
      (''en'', ''All reminders disabled'')])]"

text \<open>
  \<^verbatim>\<open>get_translation_value\<close>. The test \<^verbatim>\<open>english_value in TRANSLATION_MAPPINGS\<close>
  hashes the value, which raises TypeError for a list or a dict.
\<close>

definition get_translation_value :: "string \<Rightarrow> string \<Rightarrow> json \<Rightarrow> json result" where
  "get_translation_value key language existing_localizations =
     (case phrase TRANSLATION_MAPPINGS key language of
        Some v \<Rightarrow> Inr (JStr v)
      | None \<Rightarrow>
          if language = ''en'' then Inr (JStr key)
          else
            (case py_contains ''en'' existing_localizations of
               Inl e \<Rightarrow> Inl e
             | Inr has_en \<Rightarrow>
                 if has_en
                 then
                   (case english_value_of existing_localizations of
                      Inl e \<Rightarrow> Inl e
                    | Inr english_value \<Rightarrow>
                        (case english_value of
                           JArr xs \<Rightarrow> Inl TypeError
                         | JObj kvs \<Rightarrow> Inl TypeError
                         | JStr s \<Rightarrow>
                             (case phrase TRANSLATION_MAPPINGS s language of
                                Some v \<Rightarrow> Inr (JStr v)
                              | None \<Rightarrow> Inr english_value)
                         | _ \<Rightarrow> Inr english_value))
                 else Inr (JStr key)))"

text \<open>
  The loop over the missing languages of one entry. \<^verbatim>\<open>existing_localizations\<close> was
  bound before the loop: when the entry had a \<^verbatim>\<open>'localizations'\<close> dict it is that very
  dict, which the loop is filling (\<open>aliased\<close>); otherwise it is a fresh empty dict that
  stays empty while another one is filled.
\<close>

fun fixer_add_languages :: "string \<Rightarrow> bool \<Rightarrow> string list \<Rightarrow> json \<Rightarrow> json result" where
  "fixer_add_languages key aliased [] localizations = Inr localizations"
| "fixer_add_languages key aliased (lang # rest) localizations =
     (case get_translation_value key lang (if aliased then localizations else JObj []) of
        Inl e \<Rightarrow> Inl e
      | Inr translation_value \<Rightarrow>
          (case py_setitem localizations lang (string_unit translation_value) of
             Inl e \<Rightarrow> Inl e
           | Inr localizations' \<Rightarrow> fixer_add_languages key aliased rest localizations'))"

definition fixer_fix_entry :: "string \<Rightarrow> string list \<Rightarrow> json \<Rightarrow> json result" where
  "fixer_fix_entry key missing entry =
     (case py_get entry ''localizations'' (JObj []) of
        Inl e \<Rightarrow> Inl e
      | Inr existing_localizations \<Rightarrow>
          (case py_contains ''localizations'' entry of
             Inl e \<Rightarrow> Inl e
           | Inr present \<Rightarrow>
               (case (if present then Inr entry
                      else py_setitem entry ''localizations'' (JObj [])) of
                  Inl e \<Rightarrow> Inl e
                | Inr entry' \<Rightarrow>
                    py_modify entry' ''localizations''
                      (fixer_add_languages key present missing))))"

text \<open>
  The loop over \<^verbatim>\<open>analysis['incomplete_keys']\<close>. \<^verbatim>\<open>fixed_data\<close> starts as a deep copy
  of \<^verbatim>\<open>data\<close> (a round trip through \<^verbatim>\<open>json.dumps\<close> and \<^verbatim>\<open>json.loads\<close>), which is the
  same value.
\<close>

fun fixer_fix_loop :: "analysis \<Rightarrow> string list \<Rightarrow> json \<Rightarrow> json result" where
  "fixer_fix_loop an [] fixed_data = Inr fixed_data"
| "fixer_fix_loop an (key # rest) fixed_data =
     (let missing = (case map_of (missing_languages an) key of Some m \<Rightarrow> m | None \<Rightarrow> [])
      in if missing \<noteq> []
         then
           (case py_modify fixed_data ''strings''
                   (\<lambda>strings. py_modify strings key (fixer_fix_entry key missing)) of
              Inl e \<Rightarrow> Inl e
            | Inr fixed_data' \<Rightarrow> fixer_fix_loop an rest fixed_data')
         else fixer_fix_loop an rest fixed_data)"

definition fixer_fix_localizations :: "json \<Rightarrow> json result" where
  "fixer_fix_localizations data =
     (case fixer_analyze_completeness data of
        Inl e \<Rightarrow> Inl e
      | Inr an \<Rightarrow> fixer_fix_loop an (incomplete_keys an) data)"

section \<open>The normalizer (fix\_localizations.py)\<close>

text \<open>The two state tests applied to one localization.\<close>

definition normalize_state :: "json \<Rightarrow> json result" where
  "normalize_state localization =
     (case py_contains ''stringUnit'' localization of
        Inl e \<Rightarrow> Inl e
      | Inr has_unit \<Rightarrow>
          if \<not> has_unit then Inr localization
          else
            (case py_getitem localization ''stringUnit'' of
               Inl e \<Rightarrow> Inl e
             | Inr su \<Rightarrow>
                 (case py_contains ''state'' su of
                    Inl e \<Rightarrow> Inl e
                  | Inr has_state \<Rightarrow>
                      if \<not> has_state
                      then py_modify localization ''stringUnit''
                             (\<lambda>u. py_setitem u ''state'' (JStr ''translated''))
                      else
                        (case py_getitem su ''state'' of
                           Inl e \<Rightarrow> Inl e
                         | Inr st \<Rightarrow>
                             if st \<noteq> JStr ''translated''
                             then py_modify localization ''stringUnit''
                                    (\<lambda>u. py_setitem u ''state'' (JStr ''translated''))
                             else Inr localization))))"

fun normalize_states :: "(string \<times> json) list \<Rightarrow> (string \<times> json) list result" where
  "normalize_states [] = Inr []"
| "normalize_states ((lang_code, localization) # rest) =
     (case normalize_state localization of
        Inl e \<Rightarrow> Inl e
      | Inr localization' \<Rightarrow>
          (case normalize_states rest of
             Inl e \<Rightarrow> Inl e
           | Inr rest' \<Rightarrow> Inr ((lang_code, localization') # rest')))"

text \<open>What the loop body does to \<^verbatim>\<open>string_data['localizations']\<close>.\<close>

definition normalize_localizations :: "string \<Rightarrow> json \<Rightarrow> json result" where
  "normalize_localizations string_key localizations =
     (case py_contains ''en'' localizations of
        Inl e \<Rightarrow> Inl e
      | Inr has_en \<Rightarrow>
          (case (if has_en then Inr localizations
                 else
                   (case py_len localizations of
                      Inl e \<Rightarrow> Inl e
                    | Inr n \<Rightarrow>
                        if n > 0
                        then py_setitem localizations ''en'' (string_unit (JStr string_key))
                        else Inr localizations)) of
             Inl e \<Rightarrow> Inl e
           | Inr localizations' \<Rightarrow>
               (case py_items localizations' of
                  Inl e \<Rightarrow> Inl e
                | Inr items \<Rightarrow>
                    (case normalize_states items of
                       Inl e \<Rightarrow> Inl e
                     | Inr items' \<Rightarrow> Inr (JObj items')))))"

definition normalize_entry :: "string \<Rightarrow> json \<Rightarrow> json result" where
  "normalize_entry string_key string_data =
     (case py_get string_data ''shouldTranslate'' JNull of
        Inl e \<Rightarrow> Inl e
      | Inr flag \<Rightarrow>
          if py_eq_False flag then Inr string_data
          else
            (case py_contains ''localizations'' string_data of
               Inl e \<Rightarrow> Inl e
             | Inr present \<Rightarrow>
                 if \<not> present then Inr string_data
                 else py_modify string_data ''localizations''
                        (normalize_localizations string_key)))"

fun normalize_entries :: "(string \<times> json) list \<Rightarrow> (string \<times> json) list result" where
  "normalize_entries [] = Inr []"
| "normalize_entries ((string_key, string_data) # rest) =
     (case normalize_entry string_key string_data of
        Inl e \<Rightarrow> Inl e
      | Inr string_data' \<Rightarrow>
          (case normalize_entries rest of
             Inl e \<Rightarrow> Inl e
           | Inr rest' \<Rightarrow> Inr ((string_key, string_data') # rest')))"

text \<open>
  \<^verbatim>\<open>fix_localizations\<close> between reading and writing the file: \<open>None\<close> when it returns
  early, without writing, because there is no \<^verbatim>\<open>'strings'\<close> section; otherwise the
  document it writes back.
\<close>

definition normalizer_fix_localizations :: "json \<Rightarrow> json option result" where
  "normalizer_fix_localizations data =
     (case py_contains ''strings'' data of
        Inl e \<Rightarrow> Inl e
      | Inr present \<Rightarrow>
          if \<not> present then Inr None
          else
            (case py_modify data ''strings''
                    (\<lambda>strings.
                       case py_items strings of
                         Inl e \<Rightarrow> Inl e
                       | Inr items \<Rightarrow>
                           (case normalize_entries items of
                              Inl e \<Rightarrow> Inl e
                            | Inr items' \<Rightarrow> Inr (JObj items'))) of
               Inl e \<Rightarrow> Inl e
             | Inr data' \<Rightarrow> Inr (Some data')))"

text \<open>
  The catalog file after a run on a file holding \<open>data\<close>: the file is rewritten only
  when the pass comes to its end.
\<close>

definition normalizer_run :: "json \<Rightarrow> json" where
  "normalizer_run data =
     (case normalizer_fix_localizations data of Inr (Some data') \<Rightarrow> data' | _ \<Rightarrow> data)"

section \<open>Reading a catalog\<close>

text \<open>
  The parts of a document the properties below talk about, read the way the scripts read
  them: \<^verbatim>\<open>data.get('strings', {})\<close>, \<^verbatim>\<open>value.get('shouldTranslate') == False\<close>,
  \<^verbatim>\<open>value.get('localizations', {})\<close> and
  \<^verbatim>\<open>loc_data.get('stringUnit', {}).get('state')\<close>.
\<close>

text \<open>The items of \<^verbatim>\<open>data.get('strings', {})\<close>.\<close>

definition strings_of :: "json \<Rightarrow> (string \<times> json) list" where
  "strings_of data =
     (case data of
        JObj kvs \<Rightarrow> (case map_of kvs ''strings'' of Some (JObj items) \<Rightarrow> items | _ \<Rightarrow> [])
      | _ \<Rightarrow> [])"

text \<open>An entry is excluded when its \<^verbatim>\<open>shouldTranslate\<close> equals \<^verbatim>\<open>False\<close>.\<close>

definition entry_excluded :: "json \<Rightarrow> bool" where
  "entry_excluded v =
     (case v of
        JObj kvs \<Rightarrow> (case map_of kvs ''shouldTranslate'' of Some flag \<Rightarrow> py_eq_False flag | None \<Rightarrow> False)
      | _ \<Rightarrow> False)"

text \<open>The items of the entry's \<^verbatim>\<open>localizations\<close> dict, none when it has no such dict.\<close>

definition entry_localizations :: "json \<Rightarrow> (string \<times> json) list" where
  "entry_localizations v =
     (case v of
        JObj kvs \<Rightarrow> (case map_of kvs ''localizations'' of Some (JObj locs) \<Rightarrow> locs | _ \<Rightarrow> [])
      | _ \<Rightarrow> [])"

text \<open>The state of a localization, \<^verbatim>\<open>None\<close> when it has no string unit or no state.\<close>

definition state_of :: "json \<Rightarrow> json" where
  "state_of loc =
     (case loc of
        JObj kvs \<Rightarrow>
          (case map_of kvs ''stringUnit'' of
             Some (JObj su) \<Rightarrow> (case map_of su ''state'' of Some s \<Rightarrow> s | None \<Rightarrow> JNull)
           | _ \<Rightarrow> JNull)
      | _ \<Rightarrow> JNull)"

text \<open>Every localization of the entry is in state \<^verbatim>\<open>'translated'\<close>.\<close>

definition states_translated :: "json \<Rightarrow> bool" where
  "states_translated v =
     list_all (\<lambda>(lang, loc). state_of loc = JStr ''translated'') (entry_localizations v)"

text \<open>
  What one round of the analysis loop does to the report when it goes through. With
  \<open>strict\<close> the states are checked, as in localization\_analyzer.py; without, they are
  not, as in localization\_fixer.py.
\<close>

definition tally :: "bool \<Rightarrow> analysis \<Rightarrow> string \<times> json \<Rightarrow> analysis" where
  "tally strict a kv =
     (if entry_excluded (snd kv)
      then a\<lparr>should_not_translate := should_not_translate a + 1\<rparr>
      else if missing_from (entry_localizations (snd kv)) \<noteq> []
      then a\<lparr>incomplete_keys := incomplete_keys a @ [fst kv],
             missing_languages :=
               AList.update (fst kv) (missing_from (entry_localizations (snd kv)))
                 (missing_languages a)\<rparr>
      else if strict \<and> \<not> states_translated (snd kv)
      then a\<lparr>incomplete_keys := incomplete_keys a @ [fst kv]\<rparr>
      else a\<lparr>complete_keys := complete_keys a + 1\<rparr>)"

text \<open>The entries whose key the loop appends to \<^verbatim>\<open>incomplete_keys\<close>, and those it counts as complete.\<close>

definition entry_incomplete :: "bool \<Rightarrow> json \<Rightarrow> bool" where
  "entry_incomplete strict v \<longleftrightarrow>
     \<not> entry_excluded v \<and>
     (missing_from (entry_localizations v) \<noteq> [] \<or> (strict \<and> \<not> states_translated v))"

definition entry_complete :: "bool \<Rightarrow> json \<Rightarrow> bool" where
  "entry_complete strict v \<longleftrightarrow>
     \<not> entry_excluded v \<and> missing_from (entry_localizations v) = [] \<and>
     (strict \<longrightarrow> states_translated v)"

text \<open>
  The percentage as the specification words it, in exact arithmetic: complete entries over
  translatable entries, times 100, and 0 when there is no translatable entry.
\<close>

definition claimed_percentage :: "nat \<Rightarrow> nat \<Rightarrow> nat \<Rightarrow> rat" where
  "claimed_percentage n_total n_excluded n_complete =
     (if int n_total - int n_excluded = 0 then 0
      else of_nat n_complete / of_int (int n_total - int n_excluded) * 100)"

text \<open>
  The same in the arithmetic of Python floats: the quotient rounded to a double, times 100,
  rounded again.
\<close>

definition completion_rule :: "nat \<Rightarrow> nat \<Rightarrow> nat \<Rightarrow> pyfloat" where
  "completion_rule n_total n_excluded n_complete =
     (if int n_total - int n_excluded = 0 then Finite 0
      else py_float_mul
             (round_double (of_nat n_complete / of_int (int n_total - int n_excluded))) 100)"

section \<open>The value chosen for a missing language\<close>

text \<open>\<^verbatim>\<open>data['strings'][key]\<close>, when there is such an entry.\<close>

definition entry_of :: "json \<Rightarrow> string \<Rightarrow> json option" where
  "entry_of data key = map_of (strings_of data) key"

text \<open>\<^verbatim>\<open>data['strings'][key]['localizations']\<close>, empty when there is none.\<close>

definition localizations_at :: "json \<Rightarrow> string \<Rightarrow> (string \<times> json) list" where
  "localizations_at data key =
     (case entry_of data key of Some e \<Rightarrow> entry_localizations e | None \<Rightarrow> [])"

text \<open>
  The value of the existing \<^verbatim>\<open>'en'\<close> localization,
  \<^verbatim>\<open>localizations['en']['stringUnit']['value']\<close>, when it is there.
\<close>

definition existing_english :: "(string \<times> json) list \<Rightarrow> json option" where
  "existing_english localizations =
     (case map_of localizations ''en'' of
        Some (JObj en) \<Rightarrow>
          (case map_of en ''stringUnit'' of
             Some (JObj su) \<Rightarrow> map_of su ''value''
           | _ \<Rightarrow> None)
      | _ \<Rightarrow> None)"

text \<open>
  The chain of \<^verbatim>\<open>get_translation_value\<close> read against the localizations the entry had
  before repair: the phrase table at the key; the key for \<^verbatim>\<open>'en'\<close>; with an English
  value, the phrase table at that value and then the value itself; the key.
\<close>

definition fixer_choice :: "string \<Rightarrow> string \<Rightarrow> (string \<times> json) list \<Rightarrow> json" where
  "fixer_choice key lang localizations =
     (case phrase TRANSLATION_MAPPINGS key lang of
        Some v \<Rightarrow> JStr v
      | None \<Rightarrow>
          if lang = ''en'' then JStr key
          else
            (case existing_english localizations of
               None \<Rightarrow> JStr key
             | Some (JStr s) \<Rightarrow>
                 (case phrase TRANSLATION_MAPPINGS s lang of
                    Some v \<Rightarrow> JStr v
                  | None \<Rightarrow> JStr s)
             | Some english_value \<Rightarrow> english_value))"

text \<open>
  The chain as the specification words it: the phrase table at the key; the key for
  \<^verbatim>\<open>'en'\<close>; the canonical value, which is the English value when there is one and the
  key otherwise.
\<close>

definition claimed_choice ::
  "(string \<times> (string \<times> string) list) list \<Rightarrow> string \<Rightarrow> string \<Rightarrow> (string \<times> json) list \<Rightarrow> json" where
  "claimed_choice table key lang localizations =
     (case phrase table key lang of
        Some v \<Rightarrow> JStr v
      | None \<Rightarrow>
          if lang = ''en'' then JStr key
          else
            (case existing_english localizations of
               None \<Rightarrow> JStr key
             | Some english_value \<Rightarrow> english_value))"

section \<open>Notions used in the proofs about repair\<close>

text \<open>
  While the fixer fills an entry, the \<^verbatim>\<open>'en'\<close> localization it sees is the one the
  entry had, or, when the entry had none, the one the loop has just inserted.
\<close>

definition seen_ok :: "string \<Rightarrow> (string \<times> json) list \<Rightarrow> (string \<times> json) list \<Rightarrow> bool" where
  "seen_ok key orig seen \<longleftrightarrow>
     map_of seen ''en'' = map_of orig ''en'' \<or>
     (map_of orig ''en'' = None \<and>
      map_of seen ''en'' = Some (string_unit (fixer_choice key ''en'' orig)))"

text \<open>
  A repaired entry: the same fields in the same order, its localizations extended at the
  missing languages by a translated string unit holding the chosen value, and unchanged at
  every other language.
\<close>

definition repaired :: "(string \<Rightarrow> json) \<Rightarrow> string list \<Rightarrow> json \<Rightarrow> json \<Rightarrow> bool" where
  "repaired choice missing e e' \<longleftrightarrow>
     (\<exists>kvs locs'. e = JObj kvs \<and> e' = JObj (AList.update ''localizations'' (JObj locs') kvs) \<and>
        (\<forall>l. map_of locs' l =
               (if l \<in> set missing then Some (string_unit (choice l))
                else map_of (entry_localizations e) l)))"

text \<open>\<^verbatim>\<open>analysis['missing_languages'].get(key, [])\<close>.\<close>

definition missing_for :: "analysis \<Rightarrow> string \<Rightarrow> string list" where
  "missing_for an key = (case map_of (missing_languages an) key of Some m \<Rightarrow> m | None \<Rightarrow> [])"

text \<open>
  The common shape of the two loops over \<^verbatim>\<open>analysis['incomplete_keys']\<close>, and the
  step each of them takes at a key that misses languages.
\<close>

fun repair_loop ::
  "(string \<Rightarrow> string list \<Rightarrow> json \<Rightarrow> json result) \<Rightarrow> analysis \<Rightarrow> string list \<Rightarrow> json \<Rightarrow> json result" where
  "repair_loop step an [] d = Inr d"
| "repair_loop step an (key # rest) d =
     (if missing_for an key \<noteq> []
      then (case step key (missing_for an key) d of
              Inl e \<Rightarrow> Inl e
            | Inr d' \<Rightarrow> repair_loop step an rest d')
      else repair_loop step an rest d)"

definition fixer_step :: "string \<Rightarrow> string list \<Rightarrow> json \<Rightarrow> json result" where
  "fixer_step key missing d =
     py_modify d ''strings'' (\<lambda>strings. py_modify strings key (fixer_fix_entry key missing))"

definition analyzer_step :: "string \<Rightarrow> string list \<Rightarrow> json \<Rightarrow> json result" where
  "analyzer_step key missing d =
     (case generate_missing_translations d key missing of
        Inl e \<Rightarrow> Inl e
      | Inr new_translations \<Rightarrow> add_translations key new_translations d)"

section \<open>Example catalogs\<close>

definition needs_review_entry :: json where
  "needs_review_entry =
     JObj [(''localizations'', JObj [
       (''ar'', string_unit (JStr ''Save'')),
       (''de'', string_unit (JStr ''Save'')),
       (''es'', string_unit (JStr ''Save'')),
       (''fr'', JObj [(''stringUnit'',
                 JObj [(''state'', JStr ''needs_review''), (''value'', JStr ''Save'')])]),
       (''hi'', string_unit (JStr ''Save'')),
       (''ja'', string_unit (JStr ''Save'')),
       (''ko'', string_unit (JStr ''Save'')),
       (''pt'', string_unit (JStr ''Save'')),
       (''zh-Hans'', string_unit (JStr ''Save'')),
       (''en'', string_unit (JStr ''Save''))])]"

definition needs_review_catalog :: json where
  "needs_review_catalog = JObj [(''strings'', JObj [(''Save'', needs_review_entry)])]"

definition bare_catalog :: json where
  "bare_catalog = JObj [(''strings'', JObj [(''Save'', JObj [])])]"

definition mixed_catalog :: json where
  "mixed_catalog =
     JObj [(''sourceLanguage'', JStr ''en''),
           (''strings'', JObj [
              (''Brand'', JObj [(''shouldTranslate'', JBool False)]),
              (''Save'', needs_review_entry),
              (''Open'', JObj [(''localizations'',
                          JObj [(''en'', string_unit (JStr ''Open''))])])])]"

text \<open>The same catalog after repair, by either script.\<close>

definition mixed_catalog_fixed :: json where
  "mixed_catalog_fixed =
     JObj [(''sourceLanguage'', JStr ''en''),
           (''strings'', JObj [
              (''Brand'', JObj [(''shouldTranslate'', JBool False)]),
              (''Save'', needs_review_entry),
              (''Open'', JObj [(''localizations'',
                          JObj [(''en'', string_unit (JStr ''Open'')),
                                (''ar'', string_unit (JStr ''Open'')),
                                (''de'', string_unit (JStr ''Open'')),
                                (''es'', string_unit (JStr ''Open'')),
                                (''fr'', string_unit (JStr ''Open'')),
                                (''hi'', string_unit (JStr ''Open'')),
                                (''ja'', string_unit (JStr ''Open'')),
                                (''ko'', string_unit (JStr ''Open'')),
                                (''pt'', string_unit (JStr ''Open'')),
                                (''zh-Hans'', string_unit (JStr ''Open''))])])])]"

text \<open>What the analysis of localization\_fixer.py reports for that catalog.\<close>

definition mixed_analysis :: analysis where
  "mixed_analysis =
     \<lparr>total_keys = 3, complete_keys = 1, incomplete_keys = [''Open''],
      missing_languages =
        [(''Open'', [''ar'', ''de'', ''es'', ''fr'', ''hi'', ''ja'', ''ko'', ''pt'', ''zh-Hans''])],
      should_not_translate = 1, completion_percentage = Finite 50\<rparr>"

text \<open>
  A catalog whose only entry misses German and whose English value is a phrase of
  \<^verbatim>\<open>TRANSLATION_MAPPINGS\<close>, and the same catalog after repair by localization\_fixer.py.
\<close>

definition title_entry :: json where
  "title_entry =
     JObj [(''localizations'', JObj [
       (''en'', string_unit (JStr ''Documentation'')),
       (''ar'', string_unit (JStr ''Title'')),
       (''es'', string_unit (JStr ''Title'')),
       (''fr'', string_unit (JStr ''Title'')),
       (''hi'', string_unit (JStr ''Title'')),
       (''ja'', string_unit (JStr ''Title'')),
       (''ko'', string_unit (JStr ''Title'')),
       (''pt'', string_unit (JStr ''Title'')),
       (''zh-Hans'', string_unit (JStr ''Title''))])]"

definition title_catalog :: json where
  "title_catalog = JObj [(''strings'', JObj [(''Title'', title_entry)])]"

definition title_catalog_fixed :: json where
  "title_catalog_fixed =
     JObj [(''strings'', JObj [(''Title'',
       JObj [(''localizations'', JObj [
         (''en'', string_unit (JStr ''Documentation'')),
         (''ar'', string_unit (JStr ''Title'')),
         (''es'', string_unit (JStr ''Title'')),
         (''fr'', string_unit (JStr ''Title'')),
         (''hi'', string_unit (JStr ''Title'')),
         (''ja'', string_unit (JStr ''Title'')),
         (''ko'', string_unit (JStr ''Title'')),
         (''pt'', string_unit (JStr ''Title'')),
         (''zh-Hans'', string_unit (JStr ''Title'')),
         (''de'', string_unit (JStr ''Dokumentation''))])])])]"

text \<open>The catalog of three entries after the normalizer.\<close>

definition translated_entry :: json where
  "translated_entry =
     JObj [(''localizations'', JObj [
       (''ar'', string_unit (JStr ''Save'')),
       (''de'', string_unit (JStr ''Save'')),
       (''es'', string_unit (JStr ''Save'')),
       (''fr'', string_unit (JStr ''Save'')),
       (''hi'', string_unit (JStr ''Save'')),
       (''ja'', string_unit (JStr ''Save'')),
       (''ko'', string_unit (JStr ''Save'')),
       (''pt'', string_unit (JStr ''Save'')),
       (''zh-Hans'', string_unit (JStr ''Save'')),
       (''en'', string_unit (JStr ''Save''))])]"

definition mixed_catalog_normalized :: json where
  "mixed_catalog_normalized =
     JObj [(''sourceLanguage'', JStr ''en''),
           (''strings'', JObj [
              (''Brand'', JObj [(''shouldTranslate'', JBool False)]),
              (''Save'', translated_entry),
              (''Open'', JObj [(''localizations'',
                          JObj [(''en'', string_unit (JStr ''Open''))])])])]"

text \<open>
  A catalog whose only localization has plural variations instead of a string unit, before
  and after the normalizer.
\<close>

definition variations_catalog :: json where
  "variations_catalog =
     JObj [(''strings'', JObj [(''Hello'', JObj [(''localizations'',
       JObj [(''es'', JObj [(''variations'', JObj [])])])])])]"

definition variations_catalog_normalized :: json where
  "variations_catalog_normalized =
     JObj [(''strings'', JObj [(''Hello'', JObj [(''localizations'',
       JObj [(''es'', JObj [(''variations'', JObj [])]),
             (''en'', string_unit (JStr ''Hello''))])])])]"

text \<open>A catalog whose English localization has plural variations and no string unit.\<close>

definition english_variations_catalog :: json where
  "english_variations_catalog =
     JObj [(''strings'', JObj [(''Hello'', JObj [(''localizations'',
       JObj [(''en'', JObj [(''variations'', JObj [])])])])])]"

text \<open>
  A catalog of three translatable entries, one of them complete, and what the analysis of
  localization\_analyzer.py reports for it.
\<close>

definition third_catalog :: json where
  "third_catalog =
     JObj [(''strings'', JObj [
        (''Save'', translated_entry), (''Open'', JObj []), (''Close'', JObj [])])]"

definition third_analysis :: analysis where
  "third_analysis =
     \<lparr>total_keys = 3, complete_keys = 1, incomplete_keys = [''Open'', ''Close''],
      missing_languages =
        [(''Open'', [''ar'', ''de'', ''es'', ''fr'', ''hi'', ''ja'', ''ko'', ''pt'', ''zh-Hans'', ''en'']),
         (''Close'', [''ar'', ''de'', ''es'', ''fr'', ''hi'', ''ja'', ''ko'', ''pt'', ''zh-Hans'', ''en''])],
      should_not_translate = 0,
      completion_percentage = Finite (2345624805922133 / 70368744177664)\<rparr>"

section \<open>Facts about the float operations\<close>

lemma pow2_pos: "0 < pow2 e"
  by (simp add: pow2_def)

lemma pow2_le_one: "e \<le> 0 \<Longrightarrow> pow2 e \<le> 1"
  by (auto simp: pow2_def divide_le_eq_1)

lemma floor_log2_le:
  assumes "0 < x" "x \<le> 2 ^ k"
  shows "floor_log2 x \<le> int k"
proof -
  obtain p q where pq: "quotient_of x = (p, q)" by (cases "quotient_of x")
  then have q: "0 < q" and x: "x = of_int p / of_int q"
    by (auto dest: quotient_of_denom_pos quotient_of_div)
  from assms(1) x q have p: "0 < p" by (simp add: zero_less_divide_iff)
  from assms(2) x q have "of_int p \<le> (2 ^ k * of_int q :: rat)"
    by (simp add: pos_divide_le_eq)
  then have "(of_int p :: rat) \<le> of_int (2 ^ k * q)" by simp
  then have le: "p \<le> 2 ^ k * q" by (simp only: of_int_le_iff)
  from bitlen_bounds [OF q] have "q < 2 ^ nat (bitlen q)" by simp
  with le have "p < 2 ^ k * 2 ^ nat (bitlen q)"
    by (smt (verit, best) mult_strict_left_mono zero_less_power)
  then have "p < 2 ^ nat (int k + bitlen q)"
    using bitlen_nonneg [of q] by (simp add: nat_add_distrib power_add)
  moreover have "0 \<le> int k + bitlen q" using bitlen_nonneg [of q] by simp
  ultimately have "bitlen p \<le> int k + bitlen q"
    by (simp add: bitlen_le_iff_power)
  then show ?thesis
    using pq by (simp add: floor_log2_def Let_def)
qed

lemma round_half_even_bounds:
  assumes "0 \<le> y"
  shows "0 \<le> round_half_even y" "of_int (round_half_even y) \<le> y + 1"
proof -
  from assms have f: "0 \<le> \<lfloor>y\<rfloor>" by simp
  then show "0 \<le> round_half_even y" by (simp add: round_half_even_def Let_def)
  have "round_half_even y \<le> \<lfloor>y\<rfloor> + 1" by (simp add: round_half_even_def Let_def)
  then have "(of_int (round_half_even y) :: rat) \<le> of_int (\<lfloor>y\<rfloor> + 1)"
    by (simp only: of_int_le_iff)
  then have a: "(of_int (round_half_even y) :: rat) \<le> of_int \<lfloor>y\<rfloor> + 1"
    by (simp only: of_int_add of_int_1)
  have b: "of_int \<lfloor>y\<rfloor> \<le> y" by (rule of_int_floor_le)
  from a b show "of_int (round_half_even y) \<le> y + 1" by (rule order_trans [OF _ add_right_mono])
qed

lemma round_double_bounds:
  assumes "0 \<le> x" "x \<le> 2 ^ k" "k \<le> 52"
  shows "0 \<le> round_double x" "round_double x \<le> x + 1"
proof -
  show "0 \<le> round_double x"
  proof (cases "x = 0")
    case True
    then show ?thesis by (simp add: round_double_def)
  next
    case False
    with assms(1) have x: "0 < x" by simp
    let ?qu = "pow2 (max (floor_log2 x) (- 1022) - 52)"
    have "0 \<le> x / ?qu" using x pow2_pos [of "max (floor_log2 x) (- 1022) - 52"] by simp
    from round_half_even_bounds(1) [OF this] x pow2_pos [of "max (floor_log2 x) (- 1022) - 52"]
    show ?thesis by (simp add: round_double_def Let_def)
  qed
  show "round_double x \<le> x + 1"
  proof (cases "x = 0")
    case True
    then show ?thesis by (simp add: round_double_def)
  next
    case False
    with assms(1) have x: "0 < x" by simp
    let ?e = "max (floor_log2 x) (- 1022) - 52"
    let ?qu = "pow2 ?e"
    have qp: "0 < ?qu" by (rule pow2_pos)
    from floor_log2_le [OF x assms(2)] assms(3) have "?e \<le> 0" by simp
    then have q1: "?qu \<le> 1" by (rule pow2_le_one)
    have "0 \<le> x / ?qu" using x qp by simp
    from round_half_even_bounds(2) [OF this]
    have "of_int (round_half_even (x / ?qu)) * ?qu \<le> (x / ?qu + 1) * ?qu"
      using qp by (simp add: mult_right_mono)
    also have "\<dots> = x + ?qu" using qp by (simp add: field_simps)
    also have "\<dots> \<le> x + 1" using q1 by simp
    finally show ?thesis using x by (simp add: round_double_def Let_def)
  qed
qed

lemma double_of_Finite:
  assumes "0 \<le> x" "x \<le> 2 ^ k" "k \<le> 52"
  shows "double_of x = Finite (round_double x)"
proof -
  note b = round_double_bounds [OF assms]
  have "x + 1 \<le> 2 ^ k + 1" using assms(2) by simp
  also have "(2 ^ k + 1 :: rat) \<le> 2 ^ 52 + 1"
    using assms(3) by (intro add_right_mono power_increasing) simp_all
  also have "(2 ^ 52 + 1 :: rat) < 2 ^ 1024" by simp
  finally have "round_double x < 2 ^ 1024" using b(2) by simp
  moreover have "- (2 ^ 1024) < round_double x"
    using b(1) by (rule less_le_trans [rotated]) simp
  ultimately show ?thesis by (simp add: double_of_def Let_def)
qed

lemma py_truediv_fraction:
  assumes "0 \<le> a" "a \<le> b" "0 < b"
  shows "py_truediv a b = Inr (round_double (of_int a / of_int b))"
    and "0 \<le> round_double (of_int a / of_int b)"
    and "round_double (of_int a / of_int b) \<le> 2"
proof -
  let ?x = "of_int a / of_int b :: rat"
  from assms have x: "0 \<le> ?x" "?x \<le> 2 ^ 0" by (simp_all add: divide_le_eq_1)
  from double_of_Finite [OF x] assms(3)
  show "py_truediv a b = Inr (round_double ?x)" by (simp add: py_truediv_def)
  from round_double_bounds [OF x] x(2)
  show "0 \<le> round_double ?x" "round_double ?x \<le> 2" by simp_all
qed

lemma py_float_mul_percent:
  assumes "0 \<le> q" "q \<le> 2"
  shows "\<exists>p. py_float_mul q 100 = Finite p \<and> 0 \<le> p"
proof -
  from assms have x: "0 \<le> q * 100" "q * 100 \<le> 2 ^ 8" by simp_all
  from double_of_Finite [OF x] round_double_bounds(1) [OF x]
  show ?thesis by (simp add: py_float_mul_def)
qed

section \<open>Facts about the dict operations\<close>

lemma py_get_JObj [simp]:
  "py_get (JObj kvs) k dflt = Inr (case map_of kvs k of Some v \<Rightarrow> v | None \<Rightarrow> dflt)"
  by (simp add: py_get_def)

lemma py_get_Inr:
  "py_get d k dflt = Inr v \<Longrightarrow> \<exists>kvs. d = JObj kvs"
  by (cases d) (simp_all add: py_get_def)

lemma py_items_Inr [simp]: "py_items d = Inr kvs \<longleftrightarrow> d = JObj kvs"
  by (cases d) (simp_all add: py_items_def)

lemma py_items_JObj [simp]: "py_items (JObj kvs) = Inr kvs"
  by (simp add: py_items_def)

lemma py_getitem_JObj [simp]:
  "py_getitem (JObj kvs) k = (case map_of kvs k of Some v \<Rightarrow> Inr v | None \<Rightarrow> Inl KeyError)"
  by (simp add: py_getitem_def)

lemma py_getitem_Inr:
  "py_getitem d k = Inr v \<longleftrightarrow> (\<exists>kvs. d = JObj kvs \<and> map_of kvs k = Some v)"
  by (cases d) (auto simp: py_getitem_def split: option.splits)

lemma py_setitem_JObj [simp]:
  "py_setitem (JObj kvs) k v = Inr (JObj (AList.update k v kvs))"
  by (simp add: py_setitem_def)

lemma py_setitem_Inr:
  "py_setitem d k v = Inr d' \<longleftrightarrow> (\<exists>kvs. d = JObj kvs \<and> d' = JObj (AList.update k v kvs))"
  by (cases d) (auto simp: py_setitem_def)

lemma py_modify_Inr:
  "py_modify d k f = Inr d' \<longleftrightarrow>
     (\<exists>kvs v v'. d = JObj kvs \<and> map_of kvs k = Some v \<and> f v = Inr v' \<and>
        d' = JObj (AList.update k v' kvs))"
  by (cases d) (auto simp: py_modify_def py_getitem_def py_setitem_def split: option.splits sum.splits)

lemma py_contains_JObj [simp]: "py_contains k (JObj kvs) = Inr (k \<in> fst ` set kvs)"
  by (simp add: py_contains_def)

lemma py_len_JObj [simp]: "py_len (JObj kvs) = Inr (length kvs)"
  by (simp add: py_len_def)

lemma map_of_eq_None_dom: "map_of kvs k = None \<longleftrightarrow> k \<notin> fst ` set kvs"
  by (simp add: map_of_eq_None_iff)

section \<open>What the analysis computes\<close>

lemma all_translated_Inr:
  "all_translated locs = Inr b \<Longrightarrow>
     b = list_all (\<lambda>(lang, loc). state_of loc = JStr ''translated'') locs"
proof (induction locs)
  case Nil
  then show ?case by simp
next
  case (Cons p locs)
  obtain lang loc where p: "p = (lang, loc)" by (cases p)
  from Cons.prems p obtain kvs where loc: "loc = JObj kvs"
    by (cases loc) (simp_all add: py_get_def)
  show ?case
  proof (cases "map_of kvs ''stringUnit''")
    case None
    with Cons.prems p loc show ?thesis by (simp add: state_of_def)
  next
    case (Some su)
    with Cons.prems p loc obtain u where su: "su = JObj u"
      by (cases su) (simp_all add: py_get_def)
    with Cons Some p loc show ?thesis
      by (auto simp: state_of_def split: option.splits if_splits)
  qed
qed

lemma analyzer_entry_tally:
  "analyzer_entry a key v = Inr a' \<Longrightarrow> a' = tally True a (key, v)"
proof -
  assume h: "analyzer_entry a key v = Inr a'"
  then obtain kvs where v: "v = JObj kvs"
    by (cases v) (simp_all add: analyzer_entry_def py_get_def)
  show ?thesis
  proof (cases "entry_excluded v")
    case True
    with h v show ?thesis
      by (auto simp: analyzer_entry_def tally_def entry_excluded_def split: option.splits)
  next
    case False
    with h v have nf: "\<not> py_eq_False (case map_of kvs ''shouldTranslate'' of None \<Rightarrow> JNull | Some x \<Rightarrow> x)"
      by (auto simp: entry_excluded_def py_eq_False_def split: option.splits)
    from h v nf obtain locs where
      locs: "(case map_of kvs ''localizations'' of None \<Rightarrow> JObj [] | Some x \<Rightarrow> x) = JObj locs"
      by (auto simp: analyzer_entry_def split: sum.splits)
    then have el: "entry_localizations v = locs"
      using v by (auto simp: entry_localizations_def split: option.splits)
    from h v nf locs False el show ?thesis
      by (auto simp: analyzer_entry_def tally_def states_translated_def
               dest!: all_translated_Inr split: sum.splits if_splits)
  qed
qed

lemma fixer_entry_tally:
  "fixer_entry a key v = Inr a' \<Longrightarrow> a' = tally False a (key, v)"
proof -
  assume h: "fixer_entry a key v = Inr a'"
  then obtain kvs where v: "v = JObj kvs"
    by (cases v) (simp_all add: fixer_entry_def py_get_def)
  show ?thesis
  proof (cases "entry_excluded v")
    case True
    with h v show ?thesis
      by (auto simp: fixer_entry_def tally_def entry_excluded_def split: option.splits)
  next
    case False
    with h v have nf: "\<not> py_eq_False (case map_of kvs ''shouldTranslate'' of None \<Rightarrow> JNull | Some x \<Rightarrow> x)"
      by (auto simp: entry_excluded_def py_eq_False_def split: option.splits)
    from h v nf obtain locs where
      locs: "(case map_of kvs ''localizations'' of None \<Rightarrow> JObj [] | Some x \<Rightarrow> x) = JObj locs"
      by (auto simp: fixer_entry_def split: sum.splits)
    then have el: "entry_localizations v = locs"
      using v by (auto simp: entry_localizations_def split: option.splits)
    from h v nf locs False el show ?thesis
      by (auto simp: fixer_entry_def tally_def split: sum.splits if_splits)
  qed
qed

lemma analyzer_loop_foldl:
  "analyzer_loop items a = Inr a' \<Longrightarrow> a' = foldl (tally True) a items"
  by (induction items a rule: analyzer_loop.induct)
     (auto split: sum.splits dest!: analyzer_entry_tally)

lemma fixer_loop_foldl:
  "fixer_loop items a = Inr a' \<Longrightarrow> a' = foldl (tally False) a items"
  by (induction items a rule: fixer_loop.induct)
     (auto split: sum.splits dest!: fixer_entry_tally)

lemma foldl_tally_total [simp]: "total_keys (foldl (tally s) a items) = total_keys a"
  by (induction items arbitrary: a) (simp_all add: tally_def)

lemma foldl_tally_percentage [simp]:
  "completion_percentage (foldl (tally s) a items) = completion_percentage a"
  by (induction items arbitrary: a) (simp_all add: tally_def)

lemma foldl_tally_excluded:
  "should_not_translate (foldl (tally s) a items) =
     should_not_translate a + length (filter (\<lambda>kv. entry_excluded (snd kv)) items)"
  by (induction items arbitrary: a) (simp_all add: tally_def)

lemma foldl_tally_complete:
  "complete_keys (foldl (tally s) a items) =
     complete_keys a + length (filter (\<lambda>kv. entry_complete s (snd kv)) items)"
  by (induction items arbitrary: a) (auto simp: tally_def entry_complete_def)

lemma foldl_tally_incomplete:
  "incomplete_keys (foldl (tally s) a items) =
     incomplete_keys a @ map fst (filter (\<lambda>kv. entry_incomplete s (snd kv)) items)"
  by (induction items arbitrary: a) (auto simp: tally_def entry_incomplete_def)

lemma tally_missing:
  "map_of (missing_languages (tally s a kv)) k =
     (if fst kv = k \<and> \<not> entry_excluded (snd kv) \<and> missing_from (entry_localizations (snd kv)) \<noteq> []
      then Some (missing_from (entry_localizations (snd kv)))
      else map_of (missing_languages a) k)"
  by (simp add: tally_def AList.update_conv')

lemma foldl_tally_missing_notin:
  "k \<notin> fst ` set items \<Longrightarrow>
     map_of (missing_languages (foldl (tally s) a items)) k = map_of (missing_languages a) k"
  by (induction items arbitrary: a) (auto simp: tally_missing)

lemma foldl_tally_missing:
  "distinct (map fst items) \<Longrightarrow> map_of items k = Some v \<Longrightarrow>
     map_of (missing_languages (foldl (tally s) a items)) k =
       (if \<not> entry_excluded v \<and> missing_from (entry_localizations v) \<noteq> []
        then Some (missing_from (entry_localizations v))
        else map_of (missing_languages a) k)"
proof (induction items arbitrary: a)
  case Nil
  then show ?case by simp
next
  case (Cons p items)
  show ?case
  proof (cases "fst p = k")
    case True
    with Cons.prems have v: "snd p = v" and notin: "k \<notin> fst ` set items"
      by (auto split: if_splits)
    show ?thesis
      using v True by (simp add: foldl_tally_missing_notin [OF notin] tally_missing)
  next
    case False
    with Cons.prems have "map_of items k = Some v" "distinct (map fst items)"
      by (auto split: if_splits)
    from Cons.IH [OF this(2) this(1)] False show ?thesis
      by (simp add: tally_missing)
  qed
qed

lemma double_of_FiniteD: "double_of x = Finite q \<Longrightarrow> q = round_double x"
  by (simp add: double_of_def Let_def split: if_splits)

lemma py_truediv_Inr: "py_truediv a b = Inr q \<Longrightarrow> q = round_double (of_int a / of_int b)"
  by (auto simp: py_truediv_def split: if_splits pyfloat.splits dest: double_of_FiniteD)

lemma calculate_percentage_InrD:
  assumes "calculate_percentage a = Inr an"
  shows "an = (if int (total_keys a) - int (should_not_translate a) > 0
               then a\<lparr>completion_percentage :=
                        py_float_mul
                          (round_double (of_nat (complete_keys a) /
                             of_int (int (total_keys a) - int (should_not_translate a)))) 100\<rparr>
               else a)"
  using assms
  by (auto simp: calculate_percentage_def Let_def split: if_splits sum.splits
           dest!: py_truediv_Inr)

lemma status_percentage_InrD:
  assumes "status_percentage s = Inr p"
  shows "p = (if int (st_total_keys s) - int (st_should_not_translate s) > 0
              then py_float_mul
                     (round_double (of_nat (st_complete_keys s) /
                        of_int (int (st_total_keys s) - int (st_should_not_translate s)))) 100
              else Finite 0)"
  using assms
  by (auto simp: status_percentage_def Let_def split: if_splits sum.splits
           dest!: py_truediv_Inr)

lemma calculate_percentage_total:
  assumes "complete_keys a + should_not_translate a \<le> total_keys a"
  shows "\<exists>an. calculate_percentage a = Inr an"
proof (cases "int (total_keys a) - int (should_not_translate a) > 0")
  case True
  with assms py_truediv_fraction(1)
    [of "int (complete_keys a)" "int (total_keys a) - int (should_not_translate a)"]
  show ?thesis by (simp add: calculate_percentage_def Let_def)
next
  case False
  then show ?thesis by (simp add: calculate_percentage_def Let_def)
qed

lemma status_percentage_total:
  assumes "st_complete_keys s + st_should_not_translate s \<le> st_total_keys s"
  shows "\<exists>p. status_percentage s = Inr p"
proof (cases "int (st_total_keys s) - int (st_should_not_translate s) > 0")
  case True
  with assms py_truediv_fraction(1)
    [of "int (st_complete_keys s)" "int (st_total_keys s) - int (st_should_not_translate s)"]
  show ?thesis by (simp add: status_percentage_def Let_def)
next
  case False
  then show ?thesis by (simp add: status_percentage_def Let_def)
qed

lemma completion_rule_Finite:
  assumes "c + e \<le> t"
  shows "\<exists>p. completion_rule t e c = Finite p \<and> 0 \<le> p"
proof (cases "int t - int e = 0")
  case True
  then show ?thesis by (simp add: completion_rule_def)
next
  case False
  with assms have "0 \<le> int c" "int c \<le> int t - int e" "0 < int t - int e" by simp_all
  from py_truediv_fraction(2,3) [OF this] py_float_mul_percent False
  show ?thesis by (simp add: completion_rule_def)
qed

lemma disjoint_filters:
  "(\<And>x. \<not> (P x \<and> Q x)) \<Longrightarrow> length (filter P xs) + length (filter Q xs) \<le> length xs"
  by (induction xs) auto

lemma complete_excluded_le:
  "length (filter (\<lambda>kv. entry_complete s (snd kv)) items) +
   length (filter (\<lambda>kv. entry_excluded (snd kv)) items) \<le> length items"
  by (rule disjoint_filters) (auto simp: entry_complete_def)

lemma strings_items:
  assumes "py_get data ''strings'' (JObj []) = Inr strings" "py_items strings = Inr items"
  shows "strings_of data = items"
proof -
  from assms(1) obtain kvs where d: "data = JObj kvs" by (blast dest: py_get_Inr)
  with assms show ?thesis
    by (auto simp: strings_of_def split: option.splits)
qed

lemma analyzer_analysis:
  assumes "analyzer_analyze_completeness data = Inr an"
  shows "calculate_percentage
           (foldl (tally True) (initial_analysis (length (strings_of data))) (strings_of data))
         = Inr an"
proof -
  from assms obtain strings n items a where
    s: "py_get data ''strings'' (JObj []) = Inr strings" and
    n: "py_len strings = Inr n" and
    i: "py_items strings = Inr items" and
    l: "analyzer_loop items (initial_analysis n) = Inr a" and
    c: "calculate_percentage a = Inr an"
    by (auto simp: analyzer_analyze_completeness_def split: sum.splits)
  from i n have "n = length items" by simp
  with strings_items [OF s i] analyzer_loop_foldl [OF l] c show ?thesis by simp
qed

lemma fixer_analysis:
  assumes "fixer_analyze_completeness data = Inr an"
  shows "calculate_percentage
           (foldl (tally False) (initial_analysis (length (strings_of data))) (strings_of data))
         = Inr an"
proof -
  from assms obtain strings n items a where
    s: "py_get data ''strings'' (JObj []) = Inr strings" and
    n: "py_len strings = Inr n" and
    i: "py_items strings = Inr items" and
    l: "fixer_loop items (initial_analysis n) = Inr a" and
    c: "calculate_percentage a = Inr an"
    by (auto simp: fixer_analyze_completeness_def split: sum.splits)
  from i n have "n = length items" by simp
  with strings_items [OF s i] fixer_loop_foldl [OF l] c show ?thesis by simp
qed

lemma tallied_fields:
  assumes "calculate_percentage (foldl (tally s) (initial_analysis (length items)) items) = Inr an"
  shows "total_keys an = length items"
    and "should_not_translate an = length (filter (\<lambda>kv. entry_excluded (snd kv)) items)"
    and "complete_keys an = length (filter (\<lambda>kv. entry_complete s (snd kv)) items)"
    and "incomplete_keys an = map fst (filter (\<lambda>kv. entry_incomplete s (snd kv)) items)"
    and "map_of (missing_languages an) =
           map_of (missing_languages (foldl (tally s) (initial_analysis (length items)) items))"
    and "completion_percentage an =
           completion_rule (total_keys an) (should_not_translate an) (complete_keys an)"
proof -
  let ?a = "foldl (tally s) (initial_analysis (length items)) items"
  have t: "total_keys ?a = length items" by (simp add: initial_analysis_def)
  have e: "should_not_translate ?a = length (filter (\<lambda>kv. entry_excluded (snd kv)) items)"
    by (simp add: foldl_tally_excluded initial_analysis_def)
  have c: "complete_keys ?a = length (filter (\<lambda>kv. entry_complete s (snd kv)) items)"
    by (simp add: foldl_tally_complete initial_analysis_def)
  have i: "incomplete_keys ?a = map fst (filter (\<lambda>kv. entry_incomplete s (snd kv)) items)"
    by (simp add: foldl_tally_incomplete initial_analysis_def)
  have p: "completion_percentage ?a = Finite 0" by (simp add: initial_analysis_def)
  have le: "should_not_translate ?a \<le> total_keys ?a" unfolding t e by (rule length_filter_le)
  note an = calculate_percentage_InrD [OF assms]
  from an t show "total_keys an = length items" by (simp split: if_splits)
  from an e show "should_not_translate an = length (filter (\<lambda>kv. entry_excluded (snd kv)) items)"
    by (simp split: if_splits)
  from an c show "complete_keys an = length (filter (\<lambda>kv. entry_complete s (snd kv)) items)"
    by (simp split: if_splits)
  from an i show "incomplete_keys an = map fst (filter (\<lambda>kv. entry_incomplete s (snd kv)) items)"
    by (simp split: if_splits)
  from an show "map_of (missing_languages an) = map_of (missing_languages ?a)"
    by (simp split: if_splits)
  show "completion_percentage an =
           completion_rule (total_keys an) (should_not_translate an) (complete_keys an)"
  proof (cases "int (total_keys ?a) - int (should_not_translate ?a) > 0")
    case True
    with an have "an = ?a\<lparr>completion_percentage :=
                        py_float_mul
                          (round_double (of_nat (complete_keys ?a) /
                             of_int (int (total_keys ?a) - int (should_not_translate ?a)))) 100\<rparr>"
      by simp
    with True show ?thesis by (simp add: completion_rule_def)
  next
    case False
    with an have "an = ?a" by simp
    with False le p show ?thesis by (simp add: completion_rule_def)
  qed
qed

lemma tallied_total:
  "\<exists>an. calculate_percentage (foldl (tally s) (initial_analysis (length items)) items) = Inr an"
proof (rule calculate_percentage_total)
  let ?a = "foldl (tally s) (initial_analysis (length items)) items"
  have "total_keys ?a = length items" by (simp add: initial_analysis_def)
  moreover have "should_not_translate ?a = length (filter (\<lambda>kv. entry_excluded (snd kv)) items)"
    by (simp add: foldl_tally_excluded initial_analysis_def)
  moreover have "complete_keys ?a = length (filter (\<lambda>kv. entry_complete s (snd kv)) items)"
    by (simp add: foldl_tally_complete initial_analysis_def)
  ultimately show "complete_keys ?a + should_not_translate ?a \<le> total_keys ?a"
    using complete_excluded_le [of s items] by simp
qed

lemma status_entry_Inr:
  assumes "status_entry s key v = Inr s'"
  shows "s' = (if entry_excluded v
               then s\<lparr>st_should_not_translate := st_should_not_translate s + 1\<rparr>
               else if entry_complete False v
               then s\<lparr>st_complete_keys := st_complete_keys s + 1\<rparr>
               else s)"
proof -
  from assms obtain kvs where v: "v = JObj kvs"
    by (cases v) (simp_all add: status_entry_def py_get_def)
  show ?thesis
  proof (cases "entry_excluded v")
    case True
    with assms v show ?thesis
      by (auto simp: status_entry_def entry_excluded_def split: option.splits)
  next
    case False
    with assms v have nf: "\<not> py_eq_False (case map_of kvs ''shouldTranslate'' of None \<Rightarrow> JNull | Some x \<Rightarrow> x)"
      by (auto simp: entry_excluded_def py_eq_False_def split: option.splits)
    from assms v nf obtain locs where
      locs: "(case map_of kvs ''localizations'' of None \<Rightarrow> JObj [] | Some x \<Rightarrow> x) = JObj locs"
      by (auto simp: status_entry_def split: sum.splits)
    then have el: "entry_localizations v = locs"
      using v by (auto simp: entry_localizations_def split: option.splits)
    have sub: "(set EXPECTED_LANGUAGES \<subseteq> fst ` set locs) \<longleftrightarrow> missing_from locs = []"
      by (auto simp: missing_from_def filter_empty_conv)
    from assms v nf locs False el show ?thesis
      by (auto simp: status_entry_def entry_complete_def sub split: sum.splits if_splits)
  qed
qed

lemma status_loop_Inr:
  "status_loop items s = Inr s' \<Longrightarrow>
     st_total_keys s' = st_total_keys s \<and>
     st_should_not_translate s' =
       st_should_not_translate s + length (filter (\<lambda>kv. entry_excluded (snd kv)) items) \<and>
     st_complete_keys s' =
       st_complete_keys s + length (filter (\<lambda>kv. entry_complete False (snd kv)) items)"
proof (induction items s rule: status_loop.induct)
  case (1 s)
  then show ?case by simp
next
  case (2 key v rest s)
  from "2.prems" obtain s1 where
    e: "status_entry s key v = Inr s1" and l: "status_loop rest s1 = Inr s'"
    by (auto split: sum.splits)
  from "2.IH" [OF e l] status_entry_Inr [OF e] show ?case
    by (auto simp: entry_complete_def)
qed

lemma status_analysis:
  assumes "check_localization_status data = Inr (s, p)"
  shows "st_total_keys s = length (strings_of data)"
    and "st_should_not_translate s = length (filter (\<lambda>kv. entry_excluded (snd kv)) (strings_of data))"
    and "st_complete_keys s = length (filter (\<lambda>kv. entry_complete False (snd kv)) (strings_of data))"
    and "p = completion_rule (st_total_keys s) (st_should_not_translate s) (st_complete_keys s)"
proof -
  from assms obtain strings n items where
    s: "py_get data ''strings'' (JObj []) = Inr strings" and
    n: "py_len strings = Inr n" and
    i: "py_items strings = Inr items" and
    l: "status_loop items \<lparr>st_total_keys = n, st_should_not_translate = 0, st_complete_keys = 0\<rparr> = Inr s" and
    c: "status_percentage s = Inr p"
    by (auto simp: check_localization_status_def split: sum.splits)
  from i n have n': "n = length items" by simp
  note it = strings_items [OF s i]
  from status_loop_Inr [OF l] n' it
  show t: "st_total_keys s = length (strings_of data)"
    and e: "st_should_not_translate s = length (filter (\<lambda>kv. entry_excluded (snd kv)) (strings_of data))"
    and "st_complete_keys s = length (filter (\<lambda>kv. entry_complete False (snd kv)) (strings_of data))"
    by simp_all
  have le: "st_should_not_translate s \<le> st_total_keys s"
    unfolding t e by (rule length_filter_le)
  note p = status_percentage_InrD [OF c]
  show "p = completion_rule (st_total_keys s) (st_should_not_translate s) (st_complete_keys s)"
  proof (cases "int (st_total_keys s) - int (st_should_not_translate s) > 0")
    case True
    with p show ?thesis by (simp add: completion_rule_def)
  next
    case False
    with p le show ?thesis by (simp add: completion_rule_def)
  qed
qed

lemma py_get_Inl: "py_get d k dflt = Inl e \<Longrightarrow> e = AttributeError"
  by (cases d) (simp_all add: py_get_def)

lemma py_items_Inl: "py_items d = Inl e \<Longrightarrow> e = AttributeError"
  by (cases d) (simp_all add: py_items_def)

lemma py_len_Inl: "py_len d = Inl e \<Longrightarrow> e = TypeError"
  by (cases d) (simp_all add: py_len_def)

lemma all_translated_Inl: "all_translated locs = Inl e \<Longrightarrow> e = AttributeError"
  by (induction locs rule: all_translated.induct)
     (auto split: sum.splits if_splits dest: py_get_Inl)

lemma analyzer_entry_Inl: "analyzer_entry a key v = Inl e \<Longrightarrow> e = AttributeError"
  by (auto simp: analyzer_entry_def split: sum.splits if_splits
           dest: py_get_Inl py_items_Inl all_translated_Inl)

lemma analyzer_loop_Inl: "analyzer_loop items a = Inl e \<Longrightarrow> e = AttributeError"
  by (induction items a rule: analyzer_loop.induct)
     (auto split: sum.splits dest: analyzer_entry_Inl)

lemma fixer_entry_Inl: "fixer_entry a key v = Inl e \<Longrightarrow> e = AttributeError"
  by (auto simp: fixer_entry_def split: sum.splits if_splits dest: py_get_Inl py_items_Inl)

lemma fixer_loop_Inl: "fixer_loop items a = Inl e \<Longrightarrow> e = AttributeError"
  by (induction items a rule: fixer_loop.induct)
     (auto split: sum.splits dest: fixer_entry_Inl)

lemma status_entry_Inl: "status_entry s key v = Inl e \<Longrightarrow> e = AttributeError"
  by (auto simp: status_entry_def split: sum.splits if_splits dest: py_get_Inl py_items_Inl)

lemma status_loop_Inl: "status_loop items s = Inl e \<Longrightarrow> e = AttributeError"
  by (induction items s rule: status_loop.induct)
     (auto split: sum.splits dest: status_entry_Inl)

lemma analyzer_analyze_Inl:
  assumes "analyzer_analyze_completeness data = Inl e"
  shows "e = AttributeError \<or> e = TypeError"
proof -
  have "False" if l: "analyzer_loop items (initial_analysis (length items)) = Inr a"
    and c: "calculate_percentage a = Inl e" for items a
    using analyzer_loop_foldl [OF l] tallied_total [of True items] c by auto
  with assms show ?thesis
    by (auto simp: analyzer_analyze_completeness_def split: sum.splits
             dest: py_get_Inl py_items_Inl py_len_Inl analyzer_loop_Inl)
qed

lemma fixer_analyze_Inl:
  assumes "fixer_analyze_completeness data = Inl e"
  shows "e = AttributeError \<or> e = TypeError"
proof -
  have "False" if l: "fixer_loop items (initial_analysis (length items)) = Inr a"
    and c: "calculate_percentage a = Inl e" for items a
    using fixer_loop_foldl [OF l] tallied_total [of False items] c by auto
  with assms show ?thesis
    by (auto simp: fixer_analyze_completeness_def split: sum.splits
             dest: py_get_Inl py_items_Inl py_len_Inl fixer_loop_Inl)
qed

lemma status_Inl:
  assumes "check_localization_status data = Inl e"
  shows "e = AttributeError \<or> e = TypeError"
proof -
  have "False"
    if l: "status_loop items \<lparr>st_total_keys = length items, st_should_not_translate = 0,
             st_complete_keys = 0\<rparr> = Inr s"
    and c: "status_percentage s = Inl e" for items s
  proof -
    from status_loop_Inr [OF l] complete_excluded_le [of False items]
    have "st_complete_keys s + st_should_not_translate s \<le> st_total_keys s" by simp
    from status_percentage_total [OF this] c show False by auto
  qed
  with assms show ?thesis
    by (auto simp: check_localization_status_def split: sum.splits
             dest: py_get_Inl py_items_Inl py_len_Inl status_loop_Inl)
qed

lemma in_incomplete_keys:
  assumes "distinct (map fst items)" "(key, v) \<in> set items"
  shows "key \<in> set (map fst (filter (\<lambda>kv. entry_incomplete s (snd kv)) items)) \<longleftrightarrow>
         entry_incomplete s v"
proof
  assume "key \<in> set (map fst (filter (\<lambda>kv. entry_incomplete s (snd kv)) items))"
  then obtain v' where v': "(key, v') \<in> set items" "entry_incomplete s v'" by auto
  from assms v'(1) have "v' = v" by (meson eq_key_imp_eq_value)
  with v'(2) show "entry_incomplete s v" by simp
next
  assume "entry_incomplete s v"
  with assms(2) show "key \<in> set (map fst (filter (\<lambda>kv. entry_incomplete s (snd kv)) items))"
    by force
qed

lemma states_translated_iff:
  "states_translated v \<longleftrightarrow>
     \<not> (\<exists>(lang, loc) \<in> set (entry_localizations v). state_of loc \<noteq> JStr ''translated'')"
  by (auto simp: states_translated_def list_all_iff)

section \<open>What repair does to an entry\<close>

lemma table_complete_aux:
  "list_all (\<lambda>km. list_all (\<lambda>l. map_of (snd km) l \<noteq> None) EXPECTED_LANGUAGES) TRANSLATION_MAPPINGS"
  by code_simp

lemma table_complete:
  assumes "map_of TRANSLATION_MAPPINGS key = Some m" "l \<in> set EXPECTED_LANGUAGES"
  shows "map_of m l \<noteq> None"
proof -
  from assms(1) have "(key, m) \<in> set TRANSLATION_MAPPINGS" by (rule map_of_SomeD)
  with table_complete_aux assms(2) show ?thesis
    by (auto simp: list_all_iff)
qed

lemma phrase_None_all:
  assumes "phrase TRANSLATION_MAPPINGS key l = None" "l \<in> set EXPECTED_LANGUAGES"
  shows "phrase TRANSLATION_MAPPINGS key l' = None"
  using assms table_complete [of key _ l]
  by (auto simp: phrase_def split: option.splits)

lemma english_value_of_Inr:
  "english_value_of (JObj locs) = Inr ev \<Longrightarrow> existing_english locs = Some ev"
  by (auto simp: english_value_of_def existing_english_def py_getitem_Inr
           split: sum.splits option.splits json.splits)

lemma existing_english_None: "map_of locs ''en'' = None \<Longrightarrow> existing_english locs = None"
  by (simp add: existing_english_def)

lemma existing_english_cong:
  "map_of locs ''en'' = map_of locs' ''en'' \<Longrightarrow> existing_english locs = existing_english locs'"
  by (simp add: existing_english_def)

lemma existing_english_string_unit:
  "map_of locs ''en'' = Some (string_unit v) \<Longrightarrow> existing_english locs = Some v"
  by (simp add: existing_english_def string_unit_def)

lemma get_translation_value_choice:
  assumes ok: "seen_ok key orig seen"
    and l: "l \<in> set EXPECTED_LANGUAGES"
    and g: "get_translation_value key l (JObj seen) = Inr v"
  shows "v = fixer_choice key l orig"
proof (cases "phrase TRANSLATION_MAPPINGS key l")
  case (Some w)
  with g show ?thesis by (simp add: get_translation_value_def fixer_choice_def)
next
  case None
  show ?thesis
  proof (cases "l = ''en''")
    case True
    with None g show ?thesis by (simp add: get_translation_value_def fixer_choice_def)
  next
    case False
    show ?thesis
    proof (cases "''en'' \<in> fst ` set seen")
      case nin: False
      then have "map_of seen ''en'' = None" by (simp add: map_of_eq_None_iff)
      with ok have "map_of orig ''en'' = None" by (auto simp: seen_ok_def)
      then have "existing_english orig = None" by (rule existing_english_None)
      with None False nin g show ?thesis
        by (simp add: get_translation_value_def fixer_choice_def)
    next
      case isin: True
      with None False g obtain ev where
        ev: "english_value_of (JObj seen) = Inr ev" and
        r: "(case ev of JArr xs \<Rightarrow> Inl TypeError | JObj kvs \<Rightarrow> Inl TypeError
             | JStr s \<Rightarrow> (case phrase TRANSLATION_MAPPINGS s l of Some v \<Rightarrow> Inr (JStr v) | None \<Rightarrow> Inr ev)
             | _ \<Rightarrow> Inr ev) = Inr v"
        by (auto simp: get_translation_value_def split: sum.splits)
      from ev have es: "existing_english seen = Some ev" by (rule english_value_of_Inr)
      from ok show ?thesis unfolding seen_ok_def
      proof
        assume "map_of seen ''en'' = map_of orig ''en''"
        then have "existing_english orig = Some ev"
          using es by (simp add: existing_english_def)
        with None False r show ?thesis
          by (cases ev) (auto simp: fixer_choice_def split: option.splits)
      next
        assume b: "map_of orig ''en'' = None \<and>
                   map_of seen ''en'' = Some (string_unit (fixer_choice key ''en'' orig))"
        from None l have allNone: "\<And>l'. phrase TRANSLATION_MAPPINGS key l' = None"
          by (rule phrase_None_all)
        then have "fixer_choice key ''en'' orig = JStr key" by (simp add: fixer_choice_def)
        with b es have "ev = JStr key" by (simp add: existing_english_string_unit)
        with r allNone have "v = JStr key" by simp
        moreover from b have "existing_english orig = None" by (simp add: existing_english_None)
        ultimately show ?thesis using None False by (simp add: fixer_choice_def)
      qed
    qed
  qed
qed

lemma fixer_add_languages_frame:
  "fixer_add_languages key aliased langs (JObj cur) = Inr r \<Longrightarrow>
     \<exists>cur'. r = JObj cur' \<and>
       (\<forall>l. l \<notin> set langs \<longrightarrow> map_of cur' l = map_of cur l) \<and>
       fst ` set cur' = fst ` set cur \<union> set langs"
proof (induction langs arbitrary: cur)
  case Nil
  then show ?case by auto
next
  case (Cons l langs)
  from Cons.prems obtain v where
    rec: "fixer_add_languages key aliased langs (JObj (AList.update l (string_unit v) cur)) = Inr r"
    by (auto split: sum.splits)
  from Cons.IH [OF rec] show ?case
    by (auto simp: AList.update_conv' AList.dom_update)
qed

text \<open>
  The value inserted for a missing language does not depend on the languages inserted
  before it, so it is the same in whatever order Python iterates the set of missing
  languages: an \<^verbatim>\<open>'en'\<close> localization the loop has inserted itself holds the key, which is
  what the loop falls back to anyway. This uses that every phrase of
  \<^verbatim>\<open>TRANSLATION_MAPPINGS\<close> has all ten languages.
\<close>

lemma fixer_add_languages_values:
  assumes "fixer_add_languages key aliased langs (JObj cur) = Inr (JObj cur')"
    and "distinct langs" and "set langs \<subseteq> set EXPECTED_LANGUAGES"
    and "set langs \<inter> fst ` set orig = {}"
    and "seen_ok key orig (if aliased then cur else [])"
    and "l \<in> set langs"
  shows "map_of cur' l = Some (string_unit (fixer_choice key l orig))"
  using assms
proof (induction langs arbitrary: cur)
  case Nil
  then show ?case by simp
next
  case (Cons x langs)
  let ?seen = "if aliased then cur else []"
  from Cons.prems(1) obtain v where
    g0: "get_translation_value key x (if aliased then JObj cur else JObj []) = Inr v" and
    rec: "fixer_add_languages key aliased langs (JObj (AList.update x (string_unit v) cur)) = Inr (JObj cur')"
    by (auto split: sum.splits)
  from g0 have g: "get_translation_value key x (JObj ?seen) = Inr v"
    by (cases aliased) simp_all
  from Cons.prems(3) have xe: "x \<in> set EXPECTED_LANGUAGES" by simp
  have v: "v = fixer_choice key x orig"
    by (rule get_translation_value_choice [OF Cons.prems(5) xe g])
  let ?cur1 = "AList.update x (string_unit v) cur"
  have ok1: "seen_ok key orig (if aliased then ?cur1 else [])"
  proof (cases "aliased \<and> x = ''en''")
    case True
    with Cons.prems(4) have "map_of orig ''en'' = None"
      by (auto simp: map_of_eq_None_iff)
    with True v show ?thesis by (simp add: seen_ok_def AList.update_conv')
  next
    case False
    with Cons.prems(5) show ?thesis
      by (auto simp: seen_ok_def AList.update_conv')
  qed
  show ?case
  proof (cases "l = x")
    case True
    with Cons.prems(2) have "l \<notin> set langs" by simp
    with fixer_add_languages_frame [OF rec] have "map_of cur' l = map_of ?cur1 l" by auto
    with True v show ?thesis by (simp add: AList.update_conv')
  next
    case False
    with Cons.prems(6) have "l \<in> set langs" by simp
    moreover from Cons.prems have "distinct langs" "set langs \<subseteq> set EXPECTED_LANGUAGES"
      "set langs \<inter> fst ` set orig = {}" by auto
    ultimately show ?thesis using Cons.IH [OF rec _ _ _ ok1] by blast
  qed
qed

lemma distinct_EXPECTED_LANGUAGES: "distinct EXPECTED_LANGUAGES"
  by (simp add: EXPECTED_LANGUAGES_def)

lemma missing_from_props:
  "distinct (missing_from locs)" "set (missing_from locs) \<subseteq> set EXPECTED_LANGUAGES"
  "set (missing_from locs) \<inter> fst ` set locs = {}"
  by (auto simp: missing_from_def distinct_EXPECTED_LANGUAGES)

lemma missing_from_empty_iff:
  "missing_from locs = [] \<longleftrightarrow> set EXPECTED_LANGUAGES \<subseteq> fst ` set locs"
  by (auto simp: missing_from_def filter_empty_conv)

lemma entry_localizations_update:
  "entry_localizations (JObj (AList.update ''localizations'' (JObj locs) kvs)) = locs"
  by (simp add: entry_localizations_def AList.update_conv')

lemma entry_excluded_update:
  "entry_excluded (JObj (AList.update ''localizations'' x kvs)) = entry_excluded (JObj kvs)"
  by (simp add: entry_excluded_def AList.update_conv')

lemma fixer_fix_entry_repaired:
  assumes f: "fixer_fix_entry key missing e = Inr e'"
    and m: "missing = missing_from (entry_localizations e)" "missing \<noteq> []"
  shows "repaired (\<lambda>l. fixer_choice key l (entry_localizations e)) missing e e'"
proof -
  from f obtain kvs where e: "e = JObj kvs"
    by (cases e) (simp_all add: fixer_fix_entry_def py_get_def)
  show ?thesis
  proof (cases "map_of kvs ''localizations''")
    case None
    then have nin: "''localizations'' \<notin> fst ` set kvs" by (simp add: map_of_eq_None_iff)
    from None e have el: "entry_localizations e = []" by (simp add: entry_localizations_def)
    from f e nin obtain r where
      a: "fixer_add_languages key False missing (JObj []) = Inr r" and
      e': "e' = JObj (AList.update ''localizations'' r kvs)"
      by (auto simp: fixer_fix_entry_def py_modify_Inr AList.update_conv')
    from fixer_add_languages_frame [OF a] obtain cur' where
      r: "r = JObj cur'" and fr: "\<forall>l. l \<notin> set missing \<longrightarrow> map_of cur' l = map_of [] l"
      by blast
    have "\<forall>l. map_of cur' l =
               (if l \<in> set missing then Some (string_unit (fixer_choice key l []))
                else map_of [] l)"
    proof (intro allI)
      fix l
      show "map_of cur' l =
               (if l \<in> set missing then Some (string_unit (fixer_choice key l []))
                else map_of [] l)"
      proof (cases "l \<in> set missing")
        case True
        have "map_of cur' l = Some (string_unit (fixer_choice key l []))"
          using a [unfolded r] _ _ _ _ True
        proof (rule fixer_add_languages_values)
          show "distinct missing" "set missing \<subseteq> set EXPECTED_LANGUAGES"
            using m(1) by (simp_all add: missing_from_props)
          show "set missing \<inter> fst ` set [] = {}" by simp
          show "seen_ok key [] (if False then [] else [])" by (simp add: seen_ok_def)
        qed
        with True show ?thesis by simp
      next
        case False
        with fr show ?thesis by simp
      qed
    qed
    with e e' r el show ?thesis unfolding repaired_def by auto
  next
    case (Some locs)
    then have isin: "''localizations'' \<in> fst ` set kvs"
      by (metis map_of_eq_None_iff option.distinct(1))
    from f e isin Some obtain r where
      a: "fixer_add_languages key True missing locs = Inr r" and
      e': "e' = JObj (AList.update ''localizations'' r kvs)"
      by (auto simp: fixer_fix_entry_def py_modify_Inr)
    from a m(2) obtain cur where locs: "locs = JObj cur"
      by (cases missing; cases locs) (auto simp: py_setitem_def split: sum.splits)
    with Some e have el: "entry_localizations e = cur" by (simp add: entry_localizations_def)
    from fixer_add_languages_frame [OF a [unfolded locs]] obtain cur' where
      r: "r = JObj cur'" and fr: "\<forall>l. l \<notin> set missing \<longrightarrow> map_of cur' l = map_of cur l"
      by blast
    have "\<forall>l. map_of cur' l =
               (if l \<in> set missing then Some (string_unit (fixer_choice key l cur))
                else map_of cur l)"
    proof (intro allI)
      fix l
      show "map_of cur' l =
               (if l \<in> set missing then Some (string_unit (fixer_choice key l cur))
                else map_of cur l)"
      proof (cases "l \<in> set missing")
        case True
        have "map_of cur' l = Some (string_unit (fixer_choice key l cur))"
          using a [unfolded locs r] _ _ _ _ True
        proof (rule fixer_add_languages_values)
          show "distinct missing" "set missing \<subseteq> set EXPECTED_LANGUAGES"
            "set missing \<inter> fst ` set cur = {}"
            using m(1) el by (simp_all add: missing_from_props)
          show "seen_ok key cur (if True then cur else [])" by (simp add: seen_ok_def)
        qed
        with True show ?thesis by simp
      next
        case False
        with fr show ?thesis by simp
      qed
    qed
    with e e' r el show ?thesis unfolding repaired_def by auto
  qed
qed

lemma fixer_fix_loop_repair_loop:
  "fixer_fix_loop an keys d = repair_loop fixer_step an keys d"
  by (induction keys arbitrary: d)
     (auto simp: Let_def missing_for_def fixer_step_def split: sum.splits)

lemma analyzer_fix_loop_repair_loop:
  "analyzer_fix_loop an keys d = repair_loop analyzer_step an keys d"
  by (induction keys arbitrary: d)
     (auto simp: Let_def missing_for_def analyzer_step_def split: sum.splits)

lemma strings_of_update:
  "strings_of (JObj (AList.update ''strings'' (JObj ss) kvs)) = ss"
  by (simp add: strings_of_def AList.update_conv')

lemma fixer_step_repaired:
  assumes "fixer_step key m d = Inr d'" "m \<noteq> []"
  shows "\<exists>e e'. entry_of d key = Some e \<and>
           strings_of d' = AList.update key e' (strings_of d) \<and>
           (m = missing_from (entry_localizations e) \<longrightarrow>
              repaired (\<lambda>l. fixer_choice key l (entry_localizations e)) m e e')"
proof -
  from assms(1) obtain kvs s s' where
    d: "d = JObj kvs" and s: "map_of kvs ''strings'' = Some s" and
    m1: "py_modify s key (fixer_fix_entry key m) = Inr s'" and
    d': "d' = JObj (AList.update ''strings'' s' kvs)"
    unfolding fixer_step_def py_modify_Inr by blast
  from m1 obtain ss e e' where
    ss: "s = JObj ss" and e: "map_of ss key = Some e" and
    f: "fixer_fix_entry key m e = Inr e'" and
    s': "s' = JObj (AList.update key e' ss)"
    unfolding py_modify_Inr by blast
  from d s ss have so: "strings_of d = ss" by (simp add: strings_of_def)
  from d' s' have so': "strings_of d' = AList.update key e' ss" by (simp add: strings_of_update)
  from so e have "entry_of d key = Some e" by (simp add: entry_of_def)
  moreover from so so' have "strings_of d' = AList.update key e' (strings_of d)" by simp
  moreover have "m = missing_from (entry_localizations e) \<longrightarrow>
              repaired (\<lambda>l. fixer_choice key l (entry_localizations e)) m e e'"
    using fixer_fix_entry_repaired [OF f _ assms(2)] by blast
  ultimately show ?thesis by blast
qed

lemma new_translations_loop_map_of:
  "map_of (new_translations_loop key ev missing acc) l =
     (if l \<in> set missing
      then Some (string_unit (case phrase translation_map key l of Some v \<Rightarrow> JStr v | None \<Rightarrow> ev))
      else map_of acc l)"
  by (induction missing arbitrary: acc) (auto simp: AList.update_conv')

lemma new_translations_loop_distinct:
  "distinct (map fst acc) \<Longrightarrow> distinct (map fst (new_translations_loop key ev missing acc))"
  by (induction missing arbitrary: acc) (auto simp: AList.distinct_update)

lemma foldl_update_map_of:
  "distinct (map fst nt) \<Longrightarrow>
     map_of (foldl (\<lambda>acc lt. AList.update (fst lt) (snd lt) acc) cur nt) l =
       (case map_of nt l of Some t \<Rightarrow> Some t | None \<Rightarrow> map_of cur l)"
proof (induction nt arbitrary: cur)
  case Nil
  then show ?case by simp
next
  case (Cons p nt)
  then have nin: "map_of nt (fst p) = None" and d: "distinct (map fst nt)"
    by (auto simp: map_of_eq_None_iff)
  note ih = Cons.IH [OF d, of "AList.update (fst p) (snd p) cur"]
  show ?case
  proof (cases "l = fst p")
    case True
    with ih nin show ?thesis by (simp add: AList.update_conv')
  next
    case False
    with ih show ?thesis by (simp add: AList.update_conv' split: option.splits)
  qed
qed

lemma add_translations_struct:
  "map_of kvs ''strings'' = Some (JObj ss) \<Longrightarrow> map_of ss key = Some (JObj ekvs) \<Longrightarrow>
   map_of ekvs ''localizations'' = Some (JObj cur) \<Longrightarrow>
   add_translations key nt (JObj kvs) =
     Inr (JObj (AList.update ''strings''
            (JObj (AList.update key
               (JObj (AList.update ''localizations''
                  (JObj (foldl (\<lambda>acc lt. AList.update (fst lt) (snd lt) acc) cur nt)) ekvs))
               ss))
            kvs))"
proof (induction nt arbitrary: kvs ss ekvs cur)
  case Nil
  then show ?case by (simp add: AList.update_triv)
next
  case (Cons p nt)
  obtain l t where p: "p = (l, t)" by (cases p)
  let ?cur1 = "AList.update l t cur"
  let ?e1 = "AList.update ''localizations'' (JObj ?cur1) ekvs"
  let ?ss1 = "AList.update key (JObj ?e1) ss"
  let ?kvs1 = "AList.update ''strings'' (JObj ?ss1) kvs"
  have step: "py_modify (JObj kvs) ''strings''
             (\<lambda>strings. py_modify strings key
                (\<lambda>entry. py_modify entry ''localizations''
                   (\<lambda>localizations. py_setitem localizations l t))) = Inr (JObj ?kvs1)"
    using Cons.prems by (simp add: py_modify_def)
  have "add_translations key nt (JObj ?kvs1) =
     Inr (JObj (AList.update ''strings''
            (JObj (AList.update key
               (JObj (AList.update ''localizations''
                  (JObj (foldl (\<lambda>acc lt. AList.update (fst lt) (snd lt) acc) ?cur1 nt)) ?e1))
               ?ss1))
            ?kvs1))"
    by (rule Cons.IH) (simp_all add: AList.update_conv')
  with step p show ?case by simp
qed

lemma add_translations_Inr:
  assumes "add_translations key (p # nt) d = Inr d'"
  shows "\<exists>kvs ss ekvs cur. d = JObj kvs \<and> map_of kvs ''strings'' = Some (JObj ss) \<and>
           map_of ss key = Some (JObj ekvs) \<and> map_of ekvs ''localizations'' = Some (JObj cur)"
proof -
  obtain l t where p: "p = (l, t)" by (cases p)
  from assms p obtain d1 where
    "py_modify d ''strings''
             (\<lambda>strings. py_modify strings key
                (\<lambda>entry. py_modify entry ''localizations''
                   (\<lambda>localizations. py_setitem localizations l t))) = Inr d1"
    by (auto split: sum.splits)
  then show ?thesis
    unfolding py_modify_Inr py_setitem_Inr by blast
qed

lemma new_translations_loop_nonempty:
  assumes "missing \<noteq> []"
  shows "new_translations_loop key ev missing acc \<noteq> []"
proof
  assume e: "new_translations_loop key ev missing acc = []"
  from assms obtain x where "x \<in> set missing" by (cases missing) auto
  then have "map_of (new_translations_loop key ev missing acc) x \<noteq> None"
    by (simp add: new_translations_loop_map_of)
  with e show False by simp
qed

lemma analyzer_step_repaired:
  assumes st: "analyzer_step key m d = Inr d'" and ne: "m \<noteq> []"
  shows "\<exists>e e'. entry_of d key = Some e \<and>
           strings_of d' = AList.update key e' (strings_of d) \<and>
           (m = missing_from (entry_localizations e) \<longrightarrow>
              repaired (\<lambda>l. claimed_choice translation_map key l (entry_localizations e)) m e e')"
proof -
  from st obtain nt where
    g: "generate_missing_translations d key m = Inr nt" and
    a: "add_translations key nt d = Inr d'"
    by (auto simp: analyzer_step_def split: sum.splits)
  from g obtain strings entry existing has_en ev where
    g1: "py_getitem d ''strings'' = Inr strings" and
    g2: "py_getitem strings key = Inr entry" and
    g3: "py_get entry ''localizations'' (JObj []) = Inr existing" and
    g4: "py_contains ''en'' existing = Inr has_en" and
    g5: "(if has_en then english_value_of existing else Inr (JStr key)) = Inr ev" and
    nt: "nt = new_translations_loop key ev m []"
    by (auto simp: generate_missing_translations_def split: sum.splits)
  with ne have "nt \<noteq> []" by (simp add: new_translations_loop_nonempty)
  then obtain p rest where "nt = p # rest" by (cases nt) auto
  with a add_translations_Inr obtain kvs ss ekvs cur where
    d: "d = JObj kvs" and s: "map_of kvs ''strings'' = Some (JObj ss)" and
    e: "map_of ss key = Some (JObj ekvs)" and
    c: "map_of ekvs ''localizations'' = Some (JObj cur)"
    by blast
  let ?locs' = "foldl (\<lambda>acc lt. AList.update (fst lt) (snd lt) acc) cur nt"
  let ?e' = "JObj (AList.update ''localizations'' (JObj ?locs') ekvs)"
  from a add_translations_struct [OF s e c, of nt] d
  have d': "d' = JObj (AList.update ''strings'' (JObj (AList.update key ?e' ss)) kvs)"
    by simp
  from d s have so: "strings_of d = ss" by (simp add: strings_of_def)
  from c have el: "entry_localizations (JObj ekvs) = cur" by (simp add: entry_localizations_def)
  from g1 g2 g3 d s e c have ex: "existing = JObj cur" by auto
  with g4 have he: "has_en = (''en'' \<in> fst ` set cur)" by simp
  have ev': "ev = (case existing_english cur of None \<Rightarrow> JStr key | Some x \<Rightarrow> x)"
  proof (cases "''en'' \<in> fst ` set cur")
    case True
    with g5 ex he have "english_value_of (JObj cur) = Inr ev" by simp
    then show ?thesis by (simp add: english_value_of_Inr)
  next
    case False
    then have "existing_english cur = None"
      by (simp add: existing_english_None map_of_eq_None_iff)
    moreover from False g5 he have "ev = JStr key" by simp
    ultimately show ?thesis by simp
  qed
  have dn: "distinct (map fst nt)" unfolding nt by (rule new_translations_loop_distinct) simp
  have rep: "repaired (\<lambda>l. claimed_choice translation_map key l cur) m (JObj ekvs) ?e'"
    if m: "m = missing_from cur"
    unfolding repaired_def
  proof (intro exI conjI allI)
    fix l
    show "map_of ?locs' l =
            (if l \<in> set m then Some (string_unit (claimed_choice translation_map key l cur))
             else map_of (entry_localizations (JObj ekvs)) l)"
    proof -
      have lk: "map_of ?locs' l = (case map_of nt l of Some t \<Rightarrow> Some t | None \<Rightarrow> map_of cur l)"
        by (rule foldl_update_map_of [OF dn])
      have nl: "map_of nt l =
          (if l \<in> set m
           then Some (string_unit (case phrase translation_map key l of Some v \<Rightarrow> JStr v | None \<Rightarrow> ev))
           else None)"
        unfolding nt by (simp add: new_translations_loop_map_of)
      show ?thesis
      proof (cases "l \<in> set m")
        case True
        with m have "l \<notin> fst ` set cur" using missing_from_props(3) [of cur] by auto
        then have en: "l = ''en'' \<Longrightarrow> existing_english cur = None"
          by (simp add: existing_english_None map_of_eq_None_iff)
        have "(case phrase translation_map key l of Some v \<Rightarrow> JStr v | None \<Rightarrow> ev) =
              claimed_choice translation_map key l cur"
          using en by (auto simp: claimed_choice_def ev' split: option.splits)
        with True lk nl show ?thesis by simp
      next
        case False
        with lk nl el show ?thesis by simp
      qed
    qed
  qed simp_all
  from so e have "entry_of d key = Some (JObj ekvs)" by (simp add: entry_of_def)
  moreover from d' so have "strings_of d' = AList.update key ?e' (strings_of d)"
    by (simp add: strings_of_update)
  moreover from rep el have "m = missing_from (entry_localizations (JObj ekvs)) \<longrightarrow>
      repaired (\<lambda>l. claimed_choice translation_map key l (entry_localizations (JObj ekvs))) m (JObj ekvs) ?e'"
    by simp
  ultimately show ?thesis by blast
qed

lemma entry_of_update:
  "strings_of d' = AList.update key e' (strings_of d) \<Longrightarrow>
     entry_of d' k = (if k = key then Some e' else entry_of d k)"
  by (simp add: entry_of_def AList.update_conv')

lemma keys_update_present:
  "map_of al k = Some v \<Longrightarrow> map fst (AList.update k v' al) = map fst al"
  by (simp add: AList.update_keys) (metis domI dom_map_of_conv_image_fst set_map)

lemma repair_loop_result:
  assumes step: "\<And>key m d d'. step key m d = Inr d' \<Longrightarrow> m \<noteq> [] \<Longrightarrow>
            \<exists>e e'. entry_of d key = Some e \<and>
              strings_of d' = AList.update key e' (strings_of d) \<and>
              (m = missing_from (entry_localizations e) \<longrightarrow>
                 repaired (choice key (entry_localizations e)) m e e')"
    and run: "repair_loop step an keys d = Inr d'"
    and dist: "distinct keys"
  shows "map fst (strings_of d') = map fst (strings_of d) \<and>
         (\<forall>k. k \<notin> set keys \<or> missing_for an k = [] \<longrightarrow> entry_of d' k = entry_of d k) \<and>
         (\<forall>k \<in> set keys. missing_for an k \<noteq> [] \<longrightarrow>
            (\<exists>e e'. entry_of d k = Some e \<and> entry_of d' k = Some e' \<and>
               (missing_for an k = missing_from (entry_localizations e) \<longrightarrow>
                  repaired (choice k (entry_localizations e)) (missing_for an k) e e')))"
  using run dist
proof (induction keys arbitrary: d)
  case Nil
  then show ?case by simp
next
  case (Cons key keys)
  from Cons.prems(2) have dk: "distinct keys" and nk: "key \<notin> set keys" by auto
  show ?case
  proof (cases "missing_for an key = []")
    case True
    with Cons.prems(1) have "repair_loop step an keys d = Inr d'" by simp
    from Cons.IH [OF this dk] True show ?thesis by auto
  next
    case False
    with Cons.prems(1) obtain d1 where
      s1: "step key (missing_for an key) d = Inr d1" and
      r: "repair_loop step an keys d1 = Inr d'"
      by (auto split: sum.splits)
    from step [OF s1 False] obtain e e' where
      e: "entry_of d key = Some e" and
      u: "strings_of d1 = AList.update key e' (strings_of d)" and
      rp: "missing_for an key = missing_from (entry_localizations e) \<longrightarrow>
             repaired (choice key (entry_localizations e)) (missing_for an key) e e'"
      by blast
    note eo = entry_of_update [OF u]
    from e u have k1: "map fst (strings_of d1) = map fst (strings_of d)"
      by (simp add: entry_of_def keys_update_present)
    note ih = Cons.IH [OF r dk]
    have a: "map fst (strings_of d') = map fst (strings_of d)" using ih k1 by simp
    have b: "\<forall>k. k \<notin> set (key # keys) \<or> missing_for an k = [] \<longrightarrow> entry_of d' k = entry_of d k"
      using ih eo False by auto
    have c: "\<forall>k \<in> set (key # keys). missing_for an k \<noteq> [] \<longrightarrow>
            (\<exists>e e'. entry_of d k = Some e \<and> entry_of d' k = Some e' \<and>
               (missing_for an k = missing_from (entry_localizations e) \<longrightarrow>
                  repaired (choice k (entry_localizations e)) (missing_for an k) e e'))"
    proof (intro ballI impI)
      fix k assume k: "k \<in> set (key # keys)" and m: "missing_for an k \<noteq> []"
      show "\<exists>e e'. entry_of d k = Some e \<and> entry_of d' k = Some e' \<and>
               (missing_for an k = missing_from (entry_localizations e) \<longrightarrow>
                  repaired (choice k (entry_localizations e)) (missing_for an k) e e')"
      proof (cases "k = key")
        case True
        from ih nk have "entry_of d' key = entry_of d1 key" by blast
        with eo have "entry_of d' key = Some e'" by simp
        with e rp True show ?thesis by blast
      next
        case False
        with k have "k \<in> set keys" by simp
        with ih m obtain e2 e2' where
          "entry_of d1 k = Some e2" "entry_of d' k = Some e2'"
          "missing_for an k = missing_from (entry_localizations e2) \<longrightarrow>
                  repaired (choice k (entry_localizations e2)) (missing_for an k) e2 e2'"
          by blast
        with eo False show ?thesis by auto
      qed
    qed
    from a b c show ?thesis by blast
  qed
qed

lemma analysis_missing_for:
  assumes an: "calculate_percentage (foldl (tally s) (initial_analysis (length items)) items) = Inr an"
    and d: "distinct (map fst items)" and v: "map_of items k = Some v"
  shows "missing_for an k =
           (if entry_excluded v then [] else missing_from (entry_localizations v))"
proof -
  have "map_of (missing_languages an) k =
          map_of (missing_languages (foldl (tally s) (initial_analysis (length items)) items)) k"
    using tallied_fields(5) [OF an] by simp
  also have "\<dots> = (if \<not> entry_excluded v \<and> missing_from (entry_localizations v) \<noteq> []
        then Some (missing_from (entry_localizations v))
        else map_of (missing_languages (initial_analysis (length items))) k)"
    by (rule foldl_tally_missing [OF d v])
  finally show ?thesis
    by (auto simp: missing_for_def initial_analysis_def)
qed

lemma distinct_incomplete_keys:
  "distinct (map fst items) \<Longrightarrow>
     distinct (map fst (filter (\<lambda>kv. entry_incomplete s (snd kv)) items))"
  by (rule distinct_map_filter)

lemma repair_master:
  assumes an: "calculate_percentage
                 (foldl (tally s) (initial_analysis (length (strings_of data))) (strings_of data))
               = Inr an"
    and step: "\<And>key m d d'. step key m d = Inr d' \<Longrightarrow> m \<noteq> [] \<Longrightarrow>
            \<exists>e e'. entry_of d key = Some e \<and>
              strings_of d' = AList.update key e' (strings_of d) \<and>
              (m = missing_from (entry_localizations e) \<longrightarrow>
                 repaired (choice key (entry_localizations e)) m e e')"
    and run: "repair_loop step an (incomplete_keys an) data = Inr data'"
    and dist: "distinct (map fst (strings_of data))"
  shows "map fst (strings_of data') = map fst (strings_of data)"
    and "entry_of data key = Some e \<Longrightarrow>
           entry_excluded e \<or> missing_from (entry_localizations e) = [] \<Longrightarrow>
           entry_of data' key = Some e"
    and "entry_of data key = Some e \<Longrightarrow>
           \<not> entry_excluded e \<Longrightarrow> missing_from (entry_localizations e) \<noteq> [] \<Longrightarrow>
           \<exists>e'. entry_of data' key = Some e' \<and>
             repaired (choice key (entry_localizations e))
               (missing_from (entry_localizations e)) e e'"
proof -
  have ik: "incomplete_keys an =
              map fst (filter (\<lambda>kv. entry_incomplete s (snd kv)) (strings_of data))"
    by (rule tallied_fields(4) [OF an])
  have dk: "distinct (incomplete_keys an)"
    unfolding ik by (rule distinct_incomplete_keys [OF dist])
  note res = repair_loop_result [of step choice, OF step run dk]
  show "map fst (strings_of data') = map fst (strings_of data)" using res by blast
  {
    assume e: "entry_of data key = Some e"
    then have mo: "map_of (strings_of data) key = Some e" by (simp add: entry_of_def)
    note mf = analysis_missing_for [OF an dist mo]
    assume "entry_excluded e \<or> missing_from (entry_localizations e) = []"
    with mf have "missing_for an key = []" by auto
    with res e show "entry_of data' key = Some e" by auto
  }
  {
    assume e: "entry_of data key = Some e"
    then have mo: "map_of (strings_of data) key = Some e" by (simp add: entry_of_def)
    then have mem: "(key, e) \<in> set (strings_of data)" by (rule map_of_SomeD)
    note mf = analysis_missing_for [OF an dist mo]
    assume ne: "\<not> entry_excluded e" and mi: "missing_from (entry_localizations e) \<noteq> []"
    with mf have m: "missing_for an key = missing_from (entry_localizations e)" by simp
    from ne mi have "entry_incomplete s e" by (simp add: entry_incomplete_def)
    with in_incomplete_keys [OF dist mem, of s] ik have "key \<in> set (incomplete_keys an)" by simp
    with res m mi obtain e0 e' where
      "entry_of data key = Some e0" "entry_of data' key = Some e'"
      "missing_for an key = missing_from (entry_localizations e0) \<longrightarrow>
         repaired (choice key (entry_localizations e0)) (missing_for an key) e0 e'"
      by (metis (no_types, lifting))
    with e m show "\<exists>e'. entry_of data' key = Some e' \<and>
             repaired (choice key (entry_localizations e))
               (missing_from (entry_localizations e)) e e'"
      by auto
  }
qed

lemma fixer_master:
  assumes run: "fixer_fix_localizations data = Inr data'"
    and dist: "distinct (map fst (strings_of data))"
  shows "map fst (strings_of data') = map fst (strings_of data)"
    and "entry_of data key = Some e \<Longrightarrow>
           entry_excluded e \<or> missing_from (entry_localizations e) = [] \<Longrightarrow>
           entry_of data' key = Some e"
    and "entry_of data key = Some e \<Longrightarrow>
           \<not> entry_excluded e \<Longrightarrow> missing_from (entry_localizations e) \<noteq> [] \<Longrightarrow>
           \<exists>e'. entry_of data' key = Some e' \<and>
             repaired (\<lambda>l. fixer_choice key l (entry_localizations e))
               (missing_from (entry_localizations e)) e e'"
proof -
  from run obtain an where
    a: "fixer_analyze_completeness data = Inr an" and
    l: "repair_loop fixer_step an (incomplete_keys an) data = Inr data'"
    by (auto simp: fixer_fix_localizations_def fixer_fix_loop_repair_loop split: sum.splits)
  note m = repair_master [of False data an fixer_step "\<lambda>key locs l. fixer_choice key l locs",
      OF fixer_analysis [OF a] fixer_step_repaired l dist]
  show "map fst (strings_of data') = map fst (strings_of data)" by (rule m(1))
  show "entry_of data key = Some e \<Longrightarrow>
           entry_excluded e \<or> missing_from (entry_localizations e) = [] \<Longrightarrow>
           entry_of data' key = Some e" by (rule m(2))
  show "entry_of data key = Some e \<Longrightarrow>
           \<not> entry_excluded e \<Longrightarrow> missing_from (entry_localizations e) \<noteq> [] \<Longrightarrow>
           \<exists>e'. entry_of data' key = Some e' \<and>
             repaired (\<lambda>l. fixer_choice key l (entry_localizations e))
               (missing_from (entry_localizations e)) e e'" by (rule m(3))
qed

lemma analyzer_master:
  assumes run: "analyzer_fix_localizations data = Inr data'"
    and dist: "distinct (map fst (strings_of data))"
  shows "map fst (strings_of data') = map fst (strings_of data)"
    and "entry_of data key = Some e \<Longrightarrow>
           entry_excluded e \<or> missing_from (entry_localizations e) = [] \<Longrightarrow>
           entry_of data' key = Some e"
    and "entry_of data key = Some e \<Longrightarrow>
           \<not> entry_excluded e \<Longrightarrow> missing_from (entry_localizations e) \<noteq> [] \<Longrightarrow>
           \<exists>e'. entry_of data' key = Some e' \<and>
             repaired (\<lambda>l. claimed_choice translation_map key l (entry_localizations e))
               (missing_from (entry_localizations e)) e e'"
proof -
  from run obtain an where
    a: "analyzer_analyze_completeness data = Inr an" and
    l: "repair_loop analyzer_step an (incomplete_keys an) data = Inr data'"
    by (auto simp: analyzer_fix_localizations_def analyzer_fix_loop_repair_loop split: sum.splits)
  note m = repair_master [of True data an analyzer_step
      "\<lambda>key locs l. claimed_choice translation_map key l locs",
      OF analyzer_analysis [OF a] analyzer_step_repaired l dist]
  show "map fst (strings_of data') = map fst (strings_of data)" by (rule m(1))
  show "entry_of data key = Some e \<Longrightarrow>
           entry_excluded e \<or> missing_from (entry_localizations e) = [] \<Longrightarrow>
           entry_of data' key = Some e" by (rule m(2))
  show "entry_of data key = Some e \<Longrightarrow>
           \<not> entry_excluded e \<Longrightarrow> missing_from (entry_localizations e) \<noteq> [] \<Longrightarrow>
           \<exists>e'. entry_of data' key = Some e' \<and>
             repaired (\<lambda>l. claimed_choice translation_map key l (entry_localizations e))
               (missing_from (entry_localizations e)) e e'" by (rule m(3))
qed

lemma repaired_localizations:
  assumes "repaired choice m e e'"
  shows "map_of (entry_localizations e') l =
           (if l \<in> set m then Some (string_unit (choice l)) else map_of (entry_localizations e) l)"
  using assms unfolding repaired_def by (auto simp: entry_localizations_update)

lemma repaired_excluded:
  "repaired choice m e e' \<Longrightarrow> entry_excluded e' = entry_excluded e"
  unfolding repaired_def by (auto simp: entry_excluded_update)

section \<open>Consequences for whole catalogs\<close>

lemma mixed_fixed:
  "fixer_fix_localizations mixed_catalog = Inr mixed_catalog_fixed"
  "analyzer_fix_localizations mixed_catalog = Inr mixed_catalog_fixed"
  by code_simp+

lemma entry_of_keys:
  "map fst (strings_of d') = map fst (strings_of d) \<Longrightarrow>
     entry_of d' k = None \<longleftrightarrow> entry_of d k = None"
  by (simp add: entry_of_def map_of_eq_None_iff) (metis set_map)

lemma repair_map_le:
  assumes keys: "map fst (strings_of data') = map fst (strings_of data)"
    and same: "\<And>e. entry_of data key = Some e \<Longrightarrow>
                 entry_excluded e \<or> missing_from (entry_localizations e) = [] \<Longrightarrow>
                 entry_of data' key = Some e"
    and rep: "\<And>e. entry_of data key = Some e \<Longrightarrow>
                 \<not> entry_excluded e \<Longrightarrow> missing_from (entry_localizations e) \<noteq> [] \<Longrightarrow>
                 \<exists>e'. entry_of data' key = Some e' \<and>
                   repaired (choice e) (missing_from (entry_localizations e)) e e'"
  shows "map_of (localizations_at data key) \<subseteq>\<^sub>m map_of (localizations_at data' key)"
proof (cases "entry_of data key")
  case None
  then show ?thesis by (simp add: localizations_at_def map_le_def)
next
  case (Some e)
  show ?thesis
  proof (cases "entry_excluded e \<or> missing_from (entry_localizations e) = []")
    case True
    from same [OF Some True] Some show ?thesis by (simp add: localizations_at_def map_le_def)
  next
    case False
    with rep [OF Some] obtain e' where
      e': "entry_of data' key = Some e'" and
      r: "repaired (choice e) (missing_from (entry_localizations e)) e e'"
      by blast
    have "map_of (entry_localizations e) l = Some x \<Longrightarrow>
          map_of (entry_localizations e') l = Some x" for l x
    proof -
      assume a: "map_of (entry_localizations e) l = Some x"
      then have "l \<in> fst ` set (entry_localizations e)"
        by (metis map_of_eq_None_iff option.distinct(1))
      with missing_from_props(3) [of "entry_localizations e"]
      have "l \<notin> set (missing_from (entry_localizations e))" by blast
      with repaired_localizations [OF r, of l] a show ?thesis by simp
    qed
    with Some e' show ?thesis by (auto simp: localizations_at_def map_le_def)
  qed
qed

lemma complete_after_repair:
  assumes e: "entry_of data key = Some e" and ne: "\<not> entry_excluded e"
    and same: "entry_excluded e \<or> missing_from (entry_localizations e) = [] \<Longrightarrow>
                 entry_of data' key = Some e"
    and rep: "\<not> entry_excluded e \<Longrightarrow> missing_from (entry_localizations e) \<noteq> [] \<Longrightarrow>
                 \<exists>e'. entry_of data' key = Some e' \<and>
                   repaired choice (missing_from (entry_localizations e)) e e'"
  shows "set EXPECTED_LANGUAGES \<subseteq> fst ` set (localizations_at data' key)"
proof (cases "missing_from (entry_localizations e) = []")
  case True
  with same have "entry_of data' key = Some e" by simp
  with True show ?thesis by (simp add: localizations_at_def missing_from_empty_iff)
next
  case False
  from rep [OF ne False] obtain e' where
    e': "entry_of data' key = Some e'" and
    r: "repaired choice (missing_from (entry_localizations e)) e e'"
    by blast
  have "l \<in> fst ` set (entry_localizations e')" if l: "l \<in> set EXPECTED_LANGUAGES" for l
  proof -
    have "map_of (entry_localizations e') l \<noteq> None"
    proof (cases "l \<in> set (missing_from (entry_localizations e))")
      case True
      with repaired_localizations [OF r, of l] show ?thesis by simp
    next
      case False
      with l have "l \<in> fst ` set (entry_localizations e)" by (simp add: missing_from_def)
      then have "map_of (entry_localizations e) l \<noteq> None" by (simp add: map_of_eq_None_iff)
      with False repaired_localizations [OF r, of l] show ?thesis by simp
    qed
    then show ?thesis by (simp add: map_of_eq_None_iff)
  qed
  with e' show ?thesis by (auto simp: localizations_at_def)
qed

lemma mixed_analysed:
  "fixer_analyze_completeness mixed_catalog = Inr mixed_analysis"
  by code_simp

lemma mixed_distinct: "distinct (map fst (strings_of mixed_catalog))"
  by code_simp

lemma missing_for_entry:
  assumes an: "calculate_percentage
                 (foldl (tally s) (initial_analysis (length (strings_of data))) (strings_of data))
               = Inr an"
    and dist: "distinct (map fst (strings_of data))"
    and l: "lang \<in> set (missing_for an key)"
  shows "\<exists>e. entry_of data key = Some e \<and> \<not> entry_excluded e \<and>
             lang \<in> set (missing_from (entry_localizations e)) \<and>
             localizations_at data key = entry_localizations e"
proof (cases "map_of (strings_of data) key")
  case None
  then have "key \<notin> fst ` set (strings_of data)" by (simp add: map_of_eq_None_iff)
  then have "map_of (missing_languages
     (foldl (tally s) (initial_analysis (length (strings_of data))) (strings_of data))) key =
     map_of (missing_languages (initial_analysis (length (strings_of data)))) key"
    by (rule foldl_tally_missing_notin)
  with tallied_fields(5) [OF an] have "missing_for an key = []"
    by (simp add: missing_for_def initial_analysis_def)
  with l show ?thesis by simp
next
  case (Some e)
  from analysis_missing_for [OF an dist Some] l
  have "\<not> entry_excluded e" "lang \<in> set (missing_from (entry_localizations e))"
    by (auto split: if_splits)
  with Some show ?thesis by (simp add: entry_of_def localizations_at_def)
qed

lemma chosen_after_repair:
  assumes e: "entry_of data key = Some e" and ne: "\<not> entry_excluded e"
    and l: "lang \<in> set (missing_from (entry_localizations e))"
    and rep: "\<not> entry_excluded e \<Longrightarrow> missing_from (entry_localizations e) \<noteq> [] \<Longrightarrow>
                 \<exists>e'. entry_of data' key = Some e' \<and>
                   repaired choice (missing_from (entry_localizations e)) e e'"
  shows "map_of (localizations_at data' key) lang = Some (string_unit (choice lang))"
proof -
  from l have "missing_from (entry_localizations e) \<noteq> []" by auto
  from rep [OF ne this] obtain e' where
    e': "entry_of data' key = Some e'" and
    r: "repaired choice (missing_from (entry_localizations e)) e e'"
    by blast
  from repaired_localizations [OF r, of lang] l e' show ?thesis
    by (simp add: localizations_at_def)
qed

section \<open>What the normalizer does\<close>

lemma map_of_Some_in_keys: "map_of al k = Some v \<Longrightarrow> k \<in> fst ` set al"
  by (metis map_of_eq_None_iff option.distinct(1))

lemma normalize_state_Inr:
  assumes "normalize_state loc = Inr loc'"
  shows "(py_contains ''stringUnit'' loc = Inr False \<and> loc' = loc) \<or>
         (\<exists>kvs u u'. loc = JObj kvs \<and> map_of kvs ''stringUnit'' = Some (JObj u) \<and>
            loc' = JObj (AList.update ''stringUnit'' (JObj u') kvs) \<and>
            map_of u' ''state'' = Some (JStr ''translated''))"
proof -
  from assms obtain has_unit where hu: "py_contains ''stringUnit'' loc = Inr has_unit"
    by (auto simp: normalize_state_def split: sum.splits)
  show ?thesis
  proof (cases has_unit)
    case False
    with assms hu show ?thesis by (simp add: normalize_state_def)
  next
    case True
    with assms hu obtain su has_state where
      su: "py_getitem loc ''stringUnit'' = Inr su" and
      hs: "py_contains ''state'' su = Inr has_state"
      by (auto simp: normalize_state_def split: sum.splits)
    from su obtain kvs where loc: "loc = JObj kvs" and m: "map_of kvs ''stringUnit'' = Some su"
      by (auto simp: py_getitem_Inr)
    let ?set = "py_modify loc ''stringUnit'' (\<lambda>u. py_setitem u ''state'' (JStr ''translated''))"
    have set_case: ?thesis if s: "?set = Inr loc'"
    proof -
      from s loc m obtain u where "su = JObj u"
        "loc' = JObj (AList.update ''stringUnit'' (JObj (AList.update ''state'' (JStr ''translated'') u)) kvs)"
        by (auto simp: py_modify_Inr py_setitem_Inr)
      with loc m show ?thesis by (auto simp: AList.update_conv')
    qed
    show ?thesis
    proof (cases has_state)
      case False
      with assms hu True su hs have "?set = Inr loc'" by (simp add: normalize_state_def)
      then show ?thesis by (rule set_case)
    next
      case hst: True
      with assms hu True su hs obtain st where
        st: "py_getitem su ''state'' = Inr st" and
        r: "(if st \<noteq> JStr ''translated'' then ?set else Inr loc) = Inr loc'"
        by (auto simp: normalize_state_def split: sum.splits)
      show ?thesis
      proof (cases "st = JStr ''translated''")
        case False
        with r have "?set = Inr loc'" by simp
        then show ?thesis by (rule set_case)
      next
        case True
        with r have eq: "loc' = loc" by simp
        from st True obtain u where u: "su = JObj u" "map_of u ''state'' = Some (JStr ''translated'')"
          by (auto simp: py_getitem_Inr)
        from m u have "AList.update ''stringUnit'' (JObj u) kvs = kvs"
          by (simp add: AList.update_triv)
        with eq loc have "loc' = JObj (AList.update ''stringUnit'' (JObj u) kvs)" by simp
        with loc m u show ?thesis by blast
      qed
    qed
  qed
qed

lemma normalize_state_fixed:
  assumes "map_of u' ''state'' = Some (JStr ''translated'')"
  shows "normalize_state (JObj (AList.update ''stringUnit'' (JObj u') kvs)) =
           Inr (JObj (AList.update ''stringUnit'' (JObj u') kvs))"
  using assms map_of_Some_in_keys [OF assms]
  by (simp add: normalize_state_def AList.dom_update AList.update_conv')

lemma normalize_state_idem:
  assumes "normalize_state loc = Inr loc'"
  shows "normalize_state loc' = Inr loc'"
  using normalize_state_Inr [OF assms]
proof
  assume "py_contains ''stringUnit'' loc = Inr False \<and> loc' = loc"
  with assms show ?thesis by simp
next
  assume "\<exists>kvs u u'. loc = JObj kvs \<and> map_of kvs ''stringUnit'' = Some (JObj u) \<and>
            loc' = JObj (AList.update ''stringUnit'' (JObj u') kvs) \<and>
            map_of u' ''state'' = Some (JStr ''translated'')"
  then show ?thesis by (auto simp: normalize_state_fixed)
qed

lemma normalize_state_keeps:
  assumes "normalize_state loc = Inr loc'"
  shows "(py_contains ''stringUnit'' loc = Inr True \<longrightarrow> state_of loc' = JStr ''translated'') \<and>
         (py_contains ''stringUnit'' loc = Inr False \<longrightarrow> loc' = loc)"
  using normalize_state_Inr [OF assms]
  by (auto simp: state_of_def AList.update_conv' dest: map_of_Some_in_keys)

lemma normalize_states_Inr:
  "normalize_states items = Inr items' \<Longrightarrow>
     map fst items' = map fst items \<and> normalize_states items' = Inr items' \<and>
     (\<forall>l loc. map_of items l = Some loc \<longrightarrow>
        (\<exists>loc'. normalize_state loc = Inr loc' \<and> map_of items' l = Some loc'))"
proof (induction items arbitrary: items')
  case Nil
  then show ?case by simp
next
  case (Cons p items)
  obtain l loc where p: "p = (l, loc)" by (cases p)
  from Cons.prems p obtain loc' rest' where
    s: "normalize_state loc = Inr loc'" and r: "normalize_states items = Inr rest'" and
    i: "items' = (l, loc') # rest'"
    by (auto split: sum.splits)
  from Cons.IH [OF r] normalize_state_idem [OF s] s p i show ?case by auto
qed

lemma normalize_localizations_Inr:
  assumes "normalize_localizations key locs = Inr locs'"
  shows "\<exists>cur items'. locs = JObj cur \<and> locs' = JObj items' \<and>
           normalize_localizations key locs' = Inr locs' \<and>
           (\<forall>l loc. map_of cur l = Some loc \<longrightarrow>
              (\<exists>loc'. normalize_state loc = Inr loc' \<and> map_of items' l = Some loc'))"
proof -
  from assms obtain has_en where he: "py_contains ''en'' locs = Inr has_en"
    by (auto simp: normalize_localizations_def split: sum.splits)
  let ?m = "if has_en then Inr locs
          else (case py_len locs of Inl e \<Rightarrow> Inl e
                | Inr n \<Rightarrow> if n > 0 then py_setitem locs ''en'' (string_unit (JStr key))
                           else Inr locs)"
  from assms he have c: "(case ?m of Inl e \<Rightarrow> Inl e
      | Inr localizations' \<Rightarrow>
          (case py_items localizations' of Inl e \<Rightarrow> Inl e
           | Inr items \<Rightarrow> (case normalize_states items of Inl e \<Rightarrow> Inl e
                           | Inr items' \<Rightarrow> Inr (JObj items')))) = Inr locs'"
    by (simp add: normalize_localizations_def)
  then obtain locs1 where l1: "?m = Inr locs1" by (cases ?m) auto
  with c obtain items items' where
    it: "py_items locs1 = Inr items" and
    ns: "normalize_states items = Inr items'" and
    r: "locs' = JObj items'"
    by (auto split: sum.splits)
  from it have locs1: "locs1 = JObj items" by simp
  from l1 locs1 obtain cur where cur: "locs = JObj cur"
    by (cases locs) (auto simp: py_len_def py_setitem_def split: if_splits)
  from he cur have hen: "has_en = (''en'' \<in> fst ` set cur)" by simp
  from l1 locs1 cur hen have items: "items = (if ''en'' \<in> fst ` set cur \<or> cur = [] then cur
      else AList.update ''en'' (string_unit (JStr key)) cur)"
    by (auto split: if_splits)
  note n = normalize_states_Inr [OF ns]
  have keys: "fst ` set items' = fst ` set items"
    using n by (metis list.set_map)
  have en: "''en'' \<in> fst ` set items' \<or> items' = []"
  proof (cases "cur = []")
    case True
    with items ns show ?thesis by auto
  next
    case False
    with items keys show ?thesis by (auto simp: AList.dom_update)
  qed
  have idem: "normalize_localizations key (JObj items') = Inr (JObj items')"
    using en n by (auto simp: normalize_localizations_def)
  have look: "\<exists>loc'. normalize_state loc = Inr loc' \<and> map_of items' l = Some loc'"
    if c: "map_of cur l = Some loc" for l loc
  proof -
    have "map_of items l = Some loc"
    proof (cases "''en'' \<in> fst ` set cur \<or> cur = []")
      case True
      with items c show ?thesis by simp
    next
      case False
      with c have "l \<noteq> ''en''" by (auto dest: map_of_Some_in_keys)
      with False items c show ?thesis by (simp add: AList.update_conv')
    qed
    with n show ?thesis by blast
  qed
  from cur r idem look show ?thesis by blast
qed

lemma normalize_entry_Inr:
  assumes "normalize_entry key e = Inr e'"
  shows "normalize_entry key e' = Inr e'"
    and "entry_excluded e \<Longrightarrow> e' = e"
    and "\<not> entry_excluded e \<Longrightarrow> map_of (entry_localizations e) l = Some loc \<Longrightarrow>
           \<exists>loc'. normalize_state loc = Inr loc' \<and> map_of (entry_localizations e') l = Some loc'"
proof -
  from assms obtain kvs where e: "e = JObj kvs"
    by (cases e) (simp_all add: normalize_entry_def py_get_def)
  have ex: "entry_excluded e =
      py_eq_False (case map_of kvs ''shouldTranslate'' of None \<Rightarrow> JNull | Some v \<Rightarrow> v)"
    using e by (auto simp: entry_excluded_def py_eq_False_def split: option.splits)
  show "entry_excluded e \<Longrightarrow> e' = e"
    using assms e ex by (simp add: normalize_entry_def)
  show "normalize_entry key e' = Inr e'"
  proof (cases "entry_excluded e \<or> ''localizations'' \<notin> fst ` set kvs")
    case True
    with assms e ex have "e' = e" by (auto simp: normalize_entry_def)
    with assms show ?thesis by simp
  next
    case False
    with assms e ex obtain locs locs' where
      "map_of kvs ''localizations'' = Some locs"
      "normalize_localizations key locs = Inr locs'" and
      e': "e' = JObj (AList.update ''localizations'' locs' kvs)"
      by (auto simp: normalize_entry_def py_modify_Inr)
    with normalize_localizations_Inr [of key locs locs']
    have "normalize_localizations key locs' = Inr locs'" by blast
    with False ex e' show ?thesis
      by (simp add: normalize_entry_def AList.update_conv' AList.dom_update py_modify_def)
  qed
  show "\<exists>loc'. normalize_state loc = Inr loc' \<and> map_of (entry_localizations e') l = Some loc'"
    if ne: "\<not> entry_excluded e" and m: "map_of (entry_localizations e) l = Some loc"
  proof -
    from m e obtain cur where c: "map_of kvs ''localizations'' = Some (JObj cur)"
      and el: "entry_localizations e = cur"
      by (auto simp: entry_localizations_def split: option.splits json.splits)
    then have "''localizations'' \<in> fst ` set kvs" by (auto dest: map_of_Some_in_keys)
    with assms e ex ne c obtain locs' where
      nl: "normalize_localizations key (JObj cur) = Inr locs'" and
      e': "e' = JObj (AList.update ''localizations'' locs' kvs)"
      by (auto simp: normalize_entry_def py_modify_Inr)
    from normalize_localizations_Inr [OF nl] obtain items' where
      "locs' = JObj items'"
      "\<forall>l loc. map_of cur l = Some loc \<longrightarrow>
              (\<exists>loc'. normalize_state loc = Inr loc' \<and> map_of items' l = Some loc')"
      by blast
    with e' m el show ?thesis by (simp add: entry_localizations_update)
  qed
qed

lemma normalize_entries_Inr:
  "normalize_entries items = Inr items' \<Longrightarrow>
     map fst items' = map fst items \<and> normalize_entries items' = Inr items' \<and>
     (\<forall>k e. map_of items k = Some e \<longrightarrow>
        (\<exists>e'. normalize_entry k e = Inr e' \<and> map_of items' k = Some e'))"
proof (induction items arbitrary: items')
  case Nil
  then show ?case by simp
next
  case (Cons p items)
  obtain k e where p: "p = (k, e)" by (cases p)
  from Cons.prems p obtain e' rest' where
    s: "normalize_entry k e = Inr e'" and r: "normalize_entries items = Inr rest'" and
    i: "items' = (k, e') # rest'"
    by (auto split: sum.splits)
  from Cons.IH [OF r] normalize_entry_Inr(1) [OF s] s p i show ?case by auto
qed

lemma normalizer_Inr:
  assumes "normalizer_fix_localizations data = Inr (Some data')"
  shows "normalizer_fix_localizations data' = Inr (Some data')"
    and "map fst (strings_of data') = map fst (strings_of data)"
    and "entry_of data key = Some e \<Longrightarrow>
           \<exists>e'. normalize_entry key e = Inr e' \<and> entry_of data' key = Some e'"
proof -
  from assms obtain present where p: "py_contains ''strings'' data = Inr present"
    by (auto simp: normalizer_fix_localizations_def split: sum.splits)
  with assms have pr: present
    by (auto simp: normalizer_fix_localizations_def split: if_splits)
  let ?f = "\<lambda>strings. case py_items strings of Inl e \<Rightarrow> Inl e
                       | Inr items \<Rightarrow> (case normalize_entries items of
                              Inl e \<Rightarrow> Inl e
                            | Inr items' \<Rightarrow> Inr (JObj items'))"
  from assms p pr have "py_modify data ''strings'' ?f = Inr data'"
    by (auto simp: normalizer_fix_localizations_def split: sum.splits)
  then obtain kvs s s' where
    d: "data = JObj kvs" and s: "map_of kvs ''strings'' = Some s" and
    f: "?f s = Inr s'" and d': "data' = JObj (AList.update ''strings'' s' kvs)"
    unfolding py_modify_Inr by blast
  from f obtain items items' where
    si: "s = JObj items" and ne: "normalize_entries items = Inr items'" and
    s': "s' = JObj items'"
    by (auto split: sum.splits)
  note n = normalize_entries_Inr [OF ne]
  from d s si have so: "strings_of data = items" by (simp add: strings_of_def)
  from d' s' have so': "strings_of data' = items'" by (simp add: strings_of_update)
  show "map fst (strings_of data') = map fst (strings_of data)" using n so so' by simp
  show "normalizer_fix_localizations data' = Inr (Some data')"
    using n d' s'
    by (simp add: normalizer_fix_localizations_def AList.dom_update py_modify_def
        AList.update_conv')
  show "entry_of data key = Some e \<Longrightarrow>
           \<exists>e'. normalize_entry key e = Inr e' \<and> entry_of data' key = Some e'"
    using n so so' by (simp add: entry_of_def)
qed

lemma mixed_normalized:
  "normalizer_fix_localizations mixed_catalog = Inr (Some mixed_catalog_normalized)"
  by code_simp

lemma not_excluded_count:
  "int (length items) - int (length (filter (\<lambda>kv. entry_excluded (snd kv)) items)) =
     int (length (filter (\<lambda>kv. \<not> entry_excluded (snd kv)) items))"
  using sum_length_filter_compl [of "\<lambda>kv. entry_excluded (snd kv)" items] by simp

section \<open>Repair on an entry without localizations\<close>

text \<open>
  Claim C1 says that repair never fails, also on entries that have no
  \<^verbatim>\<open>'localizations'\<close> mapping. On the catalog \<^verbatim>\<open>{"strings": {"Save": {}}}\<close> the repair of
  localization\_analyzer.py raises KeyError, at
  \<^verbatim>\<open>fixed_data['strings'][key]['localizations'][lang] = translation\<close>, while the repair of
  localization\_fixer.py, which first creates the missing mapping, returns.
\<close>

theorem analyzer_repair_raises_without_localizations:
  "analyzer_fix_localizations bare_catalog = Inl KeyError \<and>
   \<not> isl (fixer_fix_localizations bare_catalog)"
  by code_simp

text \<open>
  The repair of localization\_fixer.py is not total either: it reads
  \<^verbatim>\<open>existing_localizations['en']['stringUnit']['value']\<close> without a test, and raises
  KeyError when the English localization has no string unit.
\<close>

lemma fixer_repair_raises_on_english_without_string_unit:
  "fixer_fix_localizations english_variations_catalog = Inl KeyError"
  by code_simp

section \<open>The state rule of the analysis\<close>

text \<open>
  Claim C2, as it holds. Take a translatable entry that misses no target language.
  localization\_analyzer.py marks it incomplete when some existing localization has a state
  other than \<^verbatim>\<open>'translated'\<close>, and complete otherwise, so that its key is in
  \<^verbatim>\<open>incomplete_keys\<close> exactly in the first case. localization\_fixer.py and
  localization\_status.py do not look at the states: they count the entry as complete, and
  the fixer never lists its key as incomplete.
\<close>

theorem state_rule_per_implementation:
  assumes "\<not> entry_excluded v" and "missing_from (entry_localizations v) = []"
  shows
    "(analyzer_entry a key v = Inr a' \<longrightarrow>
        a' = (if \<exists>(lang, loc) \<in> set (entry_localizations v). state_of loc \<noteq> JStr ''translated''
              then a\<lparr>incomplete_keys := incomplete_keys a @ [key]\<rparr>
              else a\<lparr>complete_keys := complete_keys a + 1\<rparr>)) \<and>
     (fixer_entry a key v = Inr a' \<longrightarrow> a' = a\<lparr>complete_keys := complete_keys a + 1\<rparr>) \<and>
     (status_entry s key v = Inr s' \<longrightarrow> s' = s\<lparr>st_complete_keys := st_complete_keys s + 1\<rparr>) \<and>
     (distinct (map fst (strings_of data)) \<and> (key, v) \<in> set (strings_of data) \<longrightarrow>
        (analyzer_analyze_completeness data = Inr an \<longrightarrow>
           (key \<in> set (incomplete_keys an) \<longleftrightarrow>
              (\<exists>(lang, loc) \<in> set (entry_localizations v). state_of loc \<noteq> JStr ''translated''))) \<and>
        (fixer_analyze_completeness data = Inr an \<longrightarrow> key \<notin> set (incomplete_keys an)))"
proof (intro conjI impI)
  assume "analyzer_entry a key v = Inr a'"
  from analyzer_entry_tally [OF this] assms
  show "a' = (if \<exists>(lang, loc) \<in> set (entry_localizations v). state_of loc \<noteq> JStr ''translated''
              then a\<lparr>incomplete_keys := incomplete_keys a @ [key]\<rparr>
              else a\<lparr>complete_keys := complete_keys a + 1\<rparr>)"
    by (simp add: tally_def states_translated_iff)
next
  assume "fixer_entry a key v = Inr a'"
  from fixer_entry_tally [OF this] assms
  show "a' = a\<lparr>complete_keys := complete_keys a + 1\<rparr>"
    by (simp add: tally_def)
next
  assume "status_entry s key v = Inr s'"
  from status_entry_Inr [OF this] assms
  show "s' = s\<lparr>st_complete_keys := st_complete_keys s + 1\<rparr>"
    by (simp add: entry_complete_def)
next
  assume d: "distinct (map fst (strings_of data)) \<and> (key, v) \<in> set (strings_of data)"
    and an: "analyzer_analyze_completeness data = Inr an"
  from d have "key \<in> set (incomplete_keys an) \<longleftrightarrow> entry_incomplete True v"
    unfolding tallied_fields(4) [OF analyzer_analysis [OF an]]
    by (intro in_incomplete_keys) simp_all
  with assms
  show "key \<in> set (incomplete_keys an) \<longleftrightarrow>
          (\<exists>(lang, loc) \<in> set (entry_localizations v). state_of loc \<noteq> JStr ''translated'')"
    by (simp add: entry_incomplete_def states_translated_iff)
next
  assume d: "distinct (map fst (strings_of data)) \<and> (key, v) \<in> set (strings_of data)"
    and an: "fixer_analyze_completeness data = Inr an"
  from d have "key \<in> set (incomplete_keys an) \<longleftrightarrow> entry_incomplete False v"
    unfolding tallied_fields(4) [OF fixer_analysis [OF an]]
    by (intro in_incomplete_keys) simp_all
  with assms show "key \<notin> set (incomplete_keys an)"
    by (simp add: entry_incomplete_def)
qed

text \<open>
  Claim C2 as stated fails for two of the three implementations: an entry with all ten
  languages, one of them in state \<^verbatim>\<open>'needs_review'\<close>, is counted complete by the
  analysis of localization\_fixer.py and by localization\_status.py.
\<close>

theorem fixer_counts_untranslated_entry_complete:
  "\<not> entry_excluded needs_review_entry \<and>
   missing_from (entry_localizations needs_review_entry) = [] \<and>
   \<not> states_translated needs_review_entry \<and>
   fixer_analyze_completeness needs_review_catalog =
     Inr \<lparr>total_keys = 1, complete_keys = 1, incomplete_keys = [], missing_languages = [],
          should_not_translate = 0, completion_percentage = Finite 100\<rparr> \<and>
   check_localization_status needs_review_catalog =
     Inr (\<lparr>st_total_keys = 1, st_should_not_translate = 0, st_complete_keys = 1\<rparr>, Finite 100)"
  by code_simp

text \<open>The hypotheses of the state rule hold at that entry.\<close>

theorem state_rule_per_implementation_witness:
  "\<not> entry_excluded needs_review_entry \<and>
   missing_from (entry_localizations needs_review_entry) = [] \<and>
   distinct (map fst (strings_of needs_review_catalog)) \<and>
   (''Save'', needs_review_entry) \<in> set (strings_of needs_review_catalog) \<and>
   analyzer_analyze_completeness needs_review_catalog =
     Inr \<lparr>total_keys = 1, complete_keys = 0, incomplete_keys = [''Save''],
          missing_languages = [], should_not_translate = 0, completion_percentage = Finite 0\<rparr> \<and>
   \<not> states_translated needs_review_entry"
proof -
  let ?an = "\<lparr>total_keys = 1, complete_keys = 0, incomplete_keys = [''Save''],
          missing_languages = [], should_not_translate = 0, completion_percentage = Finite 0\<rparr>"
  have h1: "\<not> entry_excluded needs_review_entry" by code_simp
  have h2: "missing_from (entry_localizations needs_review_entry) = []" by code_simp
  have h3: "distinct (map fst (strings_of needs_review_catalog)) \<and>
            (''Save'', needs_review_entry) \<in> set (strings_of needs_review_catalog)"
    by code_simp
  have h4: "analyzer_analyze_completeness needs_review_catalog = Inr ?an"
    by code_simp
  from state_rule_per_implementation [OF h1 h2,
      where key = "''Save''" and data = needs_review_catalog and an = ?an] h3 h4
  have "''Save'' \<in> set (incomplete_keys ?an) \<longleftrightarrow>
      (\<exists>(lang, loc) \<in> set (entry_localizations needs_review_entry).
       state_of loc \<noteq> JStr ''translated'')"
    by blast
  then have "\<not> states_translated needs_review_entry"
    by (simp add: states_translated_iff)
  with h1 h2 h3 h4 show ?thesis by simp
qed

section \<open>The completion percentage\<close>

text \<open>
  Claim C6, as it holds. In all three implementations the percentage is computed in
  Python's float arithmetic: the number of complete entries divided by the number of
  entries minus the number of excluded entries, rounded to the nearest double, times 100,
  rounded to the nearest double again. It is a finite, non-negative float. When the
  denominator is 0 the percentage is 0: the division is never reached with a zero
  denominator, and it never overflows. In particular an empty \<^verbatim>\<open>'strings'\<close> collection
  gives total 0, excluded 0 and percentage 0.
\<close>

theorem completion_percentage_policy:
  "(analyzer_analyze_completeness data = Inr an \<longrightarrow>
      total_keys an = length (strings_of data) \<and>
      should_not_translate an = length (filter (\<lambda>kv. entry_excluded (snd kv)) (strings_of data)) \<and>
      completion_percentage an =
        completion_rule (total_keys an) (should_not_translate an) (complete_keys an) \<and>
      (\<exists>p. completion_percentage an = Finite p \<and> 0 \<le> p)) \<and>
   (fixer_analyze_completeness data = Inr an \<longrightarrow>
      total_keys an = length (strings_of data) \<and>
      should_not_translate an = length (filter (\<lambda>kv. entry_excluded (snd kv)) (strings_of data)) \<and>
      completion_percentage an =
        completion_rule (total_keys an) (should_not_translate an) (complete_keys an) \<and>
      (\<exists>p. completion_percentage an = Finite p \<and> 0 \<le> p)) \<and>
   (check_localization_status data = Inr (s, pct) \<longrightarrow>
      st_total_keys s = length (strings_of data) \<and>
      st_should_not_translate s = length (filter (\<lambda>kv. entry_excluded (snd kv)) (strings_of data)) \<and>
      pct = completion_rule (st_total_keys s) (st_should_not_translate s) (st_complete_keys s) \<and>
      (\<exists>p. pct = Finite p \<and> 0 \<le> p)) \<and>
   analyzer_analyze_completeness data \<noteq> Inl ZeroDivisionError \<and>
   analyzer_analyze_completeness data \<noteq> Inl OverflowError \<and>
   fixer_analyze_completeness data \<noteq> Inl ZeroDivisionError \<and>
   fixer_analyze_completeness data \<noteq> Inl OverflowError \<and>
   check_localization_status data \<noteq> Inl ZeroDivisionError \<and>
   check_localization_status data \<noteq> Inl OverflowError \<and>
   (map_of kvs ''strings'' = Some (JObj []) \<longrightarrow>
      analyzer_analyze_completeness (JObj kvs) =
        Inr \<lparr>total_keys = 0, complete_keys = 0, incomplete_keys = [], missing_languages = [],
             should_not_translate = 0, completion_percentage = Finite 0\<rparr> \<and>
      fixer_analyze_completeness (JObj kvs) =
        Inr \<lparr>total_keys = 0, complete_keys = 0, incomplete_keys = [], missing_languages = [],
             should_not_translate = 0, completion_percentage = Finite 0\<rparr> \<and>
      check_localization_status (JObj kvs) =
        Inr (\<lparr>st_total_keys = 0, st_should_not_translate = 0, st_complete_keys = 0\<rparr>,
             Finite 0))"
proof (intro conjI impI)
  assume an: "analyzer_analyze_completeness data = Inr an"
  note f = tallied_fields [OF analyzer_analysis [OF an]]
  show "total_keys an = length (strings_of data)" by (rule f(1))
  show "should_not_translate an = length (filter (\<lambda>kv. entry_excluded (snd kv)) (strings_of data))"
    by (rule f(2))
  show "completion_percentage an =
        completion_rule (total_keys an) (should_not_translate an) (complete_keys an)"
    by (rule f(6))
  show "\<exists>p. completion_percentage an = Finite p \<and> 0 \<le> p"
    unfolding f(6) by (rule completion_rule_Finite) (simp add: f(1,2,3) complete_excluded_le)
next
  assume an: "fixer_analyze_completeness data = Inr an"
  note f = tallied_fields [OF fixer_analysis [OF an]]
  show "total_keys an = length (strings_of data)" by (rule f(1))
  show "should_not_translate an = length (filter (\<lambda>kv. entry_excluded (snd kv)) (strings_of data))"
    by (rule f(2))
  show "completion_percentage an =
        completion_rule (total_keys an) (should_not_translate an) (complete_keys an)"
    by (rule f(6))
  show "\<exists>p. completion_percentage an = Finite p \<and> 0 \<le> p"
    unfolding f(6) by (rule completion_rule_Finite) (simp add: f(1,2,3) complete_excluded_le)
next
  assume st: "check_localization_status data = Inr (s, pct)"
  note f = status_analysis [OF st]
  show "st_total_keys s = length (strings_of data)" by (rule f(1))
  show "st_should_not_translate s = length (filter (\<lambda>kv. entry_excluded (snd kv)) (strings_of data))"
    by (rule f(2))
  show "pct = completion_rule (st_total_keys s) (st_should_not_translate s) (st_complete_keys s)"
    by (rule f(4))
  show "\<exists>p. pct = Finite p \<and> 0 \<le> p"
    unfolding f(4) by (rule completion_rule_Finite) (simp add: f(1,2,3) complete_excluded_le)
next
  show "analyzer_analyze_completeness data \<noteq> Inl ZeroDivisionError"
    by (blast dest: analyzer_analyze_Inl)
  show "analyzer_analyze_completeness data \<noteq> Inl OverflowError"
    by (blast dest: analyzer_analyze_Inl)
  show "fixer_analyze_completeness data \<noteq> Inl ZeroDivisionError"
    by (blast dest: fixer_analyze_Inl)
  show "fixer_analyze_completeness data \<noteq> Inl OverflowError"
    by (blast dest: fixer_analyze_Inl)
  show "check_localization_status data \<noteq> Inl ZeroDivisionError"
    by (blast dest: status_Inl)
  show "check_localization_status data \<noteq> Inl OverflowError"
    by (blast dest: status_Inl)
next
  assume e: "map_of kvs ''strings'' = Some (JObj [])"
  then show "analyzer_analyze_completeness (JObj kvs) =
        Inr \<lparr>total_keys = 0, complete_keys = 0, incomplete_keys = [], missing_languages = [],
             should_not_translate = 0, completion_percentage = Finite 0\<rparr>"
    by (simp add: analyzer_analyze_completeness_def initial_analysis_def
        calculate_percentage_def)
  from e show "fixer_analyze_completeness (JObj kvs) =
        Inr \<lparr>total_keys = 0, complete_keys = 0, incomplete_keys = [], missing_languages = [],
             should_not_translate = 0, completion_percentage = Finite 0\<rparr>"
    by (simp add: fixer_analyze_completeness_def initial_analysis_def
        calculate_percentage_def)
  from e show "check_localization_status (JObj kvs) =
        Inr (\<lparr>st_total_keys = 0, st_should_not_translate = 0, st_complete_keys = 0\<rparr>,
             Finite 0)"
    by (simp add: check_localization_status_def status_percentage_def)
qed

text \<open>
  Claim C6 as stated gives the percentage as the quotient times 100. The scripts compute
  it in floats, and each of the two operations rounds: with one complete entry of three
  the analysis returns the double \<^verbatim>\<open>33.33333333333333\<close>, which is not a third of 100.
\<close>

theorem percentage_is_rounded_twice:
  "analyzer_analyze_completeness third_catalog = Inr third_analysis \<and>
   total_keys third_analysis = 3 \<and>
   should_not_translate third_analysis = 0 \<and>
   complete_keys third_analysis = 1 \<and>
   completion_percentage third_analysis = Finite (2345624805922133 / 70368744177664) \<and>
   claimed_percentage 3 0 1 = 100 / 3 \<and>
   completion_percentage third_analysis \<noteq> Finite (claimed_percentage 3 0 1)"
  by code_simp

text \<open>
  The rule at a catalog of three entries, one of them excluded and one of the other two
  complete for the fixer: 50 percent.
\<close>

theorem completion_percentage_policy_witness:
  "fixer_analyze_completeness mixed_catalog = Inr mixed_analysis \<and>
   length (strings_of mixed_catalog) = 3 \<and>
   length (filter (\<lambda>kv. entry_excluded (snd kv)) (strings_of mixed_catalog)) = 1 \<and>
   complete_keys mixed_analysis = 1 \<and>
   completion_rule 3 1 1 = Finite 50"
proof -
  have h: "fixer_analyze_completeness mixed_catalog = Inr mixed_analysis"
    by code_simp
  from completion_percentage_policy [where data = mixed_catalog and an = mixed_analysis] h
  have r: "total_keys mixed_analysis = length (strings_of mixed_catalog) \<and>
        should_not_translate mixed_analysis =
          length (filter (\<lambda>kv. entry_excluded (snd kv)) (strings_of mixed_catalog)) \<and>
        completion_percentage mixed_analysis =
          completion_rule (total_keys mixed_analysis) (should_not_translate mixed_analysis)
            (complete_keys mixed_analysis)"
    by blast
  from r have l1: "length (strings_of mixed_catalog) = 3" by (simp add: mixed_analysis_def)
  from r have l2: "length (filter (\<lambda>kv. entry_excluded (snd kv)) (strings_of mixed_catalog)) = 1"
    by (simp add: mixed_analysis_def)
  have l3: "complete_keys mixed_analysis = 1" by (simp add: mixed_analysis_def)
  from r have "completion_percentage mixed_analysis =
      completion_rule (total_keys mixed_analysis) (should_not_translate mixed_analysis)
        (complete_keys mixed_analysis)"
    by blast
  then have l4: "completion_rule 3 1 1 = Finite 50" by (simp add: mixed_analysis_def)
  from h l1 l2 l3 l4 show ?thesis by (intro conjI)
qed

section \<open>Repair keeps what is there\<close>

text \<open>
  Claim C3. Whenever one of the two repairs returns, the catalog has the same keys in the
  same order, and for every entry each language code that had a localization before
  repair has the identical localization after it. What repair changes in an entry's
  localizations is therefore an insertion under a code that was absent. The keys of
  \<^verbatim>\<open>strings\<close> are distinct, as the keys of a Python dict are.
\<close>

theorem repair_keeps_existing_localizations:
  assumes "distinct (map fst (strings_of data))"
  shows "(analyzer_fix_localizations data = Inr data' \<longrightarrow>
            map fst (strings_of data') = map fst (strings_of data) \<and>
            (\<forall>key. map_of (localizations_at data key) \<subseteq>\<^sub>m map_of (localizations_at data' key))) \<and>
         (fixer_fix_localizations data = Inr data' \<longrightarrow>
            map fst (strings_of data') = map fst (strings_of data) \<and>
            (\<forall>key. map_of (localizations_at data key) \<subseteq>\<^sub>m map_of (localizations_at data' key)))"
proof (intro conjI impI allI)
  assume r: "analyzer_fix_localizations data = Inr data'"
  show keys: "map fst (strings_of data') = map fst (strings_of data)"
    by (rule analyzer_master(1) [OF r assms])
  fix key
  show "map_of (localizations_at data key) \<subseteq>\<^sub>m map_of (localizations_at data' key)"
    by (rule repair_map_le [OF keys analyzer_master(2) [OF r assms] analyzer_master(3) [OF r assms]])
next
  assume r: "fixer_fix_localizations data = Inr data'"
  show keys: "map fst (strings_of data') = map fst (strings_of data)"
    by (rule fixer_master(1) [OF r assms])
  fix key
  show "map_of (localizations_at data key) \<subseteq>\<^sub>m map_of (localizations_at data' key)"
    by (rule repair_map_le [OF keys fixer_master(2) [OF r assms] fixer_master(3) [OF r assms]])
qed

text \<open>
  The catalog of three entries is repaired by both scripts, and the English localization of
  \<^verbatim>\<open>'Open'\<close> is the same before and after.
\<close>

theorem repair_keeps_existing_localizations_witness:
  "distinct (map fst (strings_of mixed_catalog)) \<and>
   fixer_fix_localizations mixed_catalog = Inr mixed_catalog_fixed \<and>
   analyzer_fix_localizations mixed_catalog = Inr mixed_catalog_fixed \<and>
   map fst (strings_of mixed_catalog_fixed) = [''Brand'', ''Save'', ''Open''] \<and>
   map_of (localizations_at mixed_catalog ''Open'') ''en'' = Some (string_unit (JStr ''Open'')) \<and>
   map_of (localizations_at mixed_catalog_fixed ''Open'') ''en'' = Some (string_unit (JStr ''Open''))"
proof -
  have d: "distinct (map fst (strings_of mixed_catalog))" by code_simp
  have k: "map fst (strings_of mixed_catalog) = [''Brand'', ''Save'', ''Open'']" by code_simp
  have b: "map_of (localizations_at mixed_catalog ''Open'') ''en'' = Some (string_unit (JStr ''Open''))"
    by code_simp
  from repair_keeps_existing_localizations [OF d, of mixed_catalog_fixed] mixed_fixed
  have "map fst (strings_of mixed_catalog_fixed) = map fst (strings_of mixed_catalog)"
    and "map_of (localizations_at mixed_catalog ''Open'') \<subseteq>\<^sub>m
         map_of (localizations_at mixed_catalog_fixed ''Open'')"
    by blast+
  with b k have "map fst (strings_of mixed_catalog_fixed) = [''Brand'', ''Save'', ''Open'']"
    and "map_of (localizations_at mixed_catalog_fixed ''Open'') ''en'' = Some (string_unit (JStr ''Open''))"
    by (auto simp: map_le_def dom_def)
  with d b mixed_fixed show ?thesis by (intro conjI)
qed

section \<open>Repair fills every target language\<close>

text \<open>
  Claim C4. Whenever one of the two repairs returns, every translatable entry of the
  catalog, and so every entry that was incomplete and translatable, whether for a missing
  language or for a state, has in the repaired catalog a localization under each of the
  ten codes of \<^verbatim>\<open>EXPECTED_LANGUAGES\<close>.
\<close>

theorem repair_completes_incomplete_entries:
  assumes "distinct (map fst (strings_of data))"
    and "entry_of data key = Some e"
    and "\<not> entry_excluded e"
  shows "(analyzer_fix_localizations data = Inr data' \<longrightarrow>
            set EXPECTED_LANGUAGES \<subseteq> fst ` set (localizations_at data' key)) \<and>
         (fixer_fix_localizations data = Inr data' \<longrightarrow>
            set EXPECTED_LANGUAGES \<subseteq> fst ` set (localizations_at data' key)) \<and>
         distinct EXPECTED_LANGUAGES \<and> length EXPECTED_LANGUAGES = 10"
proof (intro conjI impI)
  assume r: "analyzer_fix_localizations data = Inr data'"
  show "set EXPECTED_LANGUAGES \<subseteq> fst ` set (localizations_at data' key)"
    by (rule complete_after_repair [OF assms(2,3) analyzer_master(2) [OF r assms(1,2)]
          analyzer_master(3) [OF r assms(1,2)]])
next
  assume r: "fixer_fix_localizations data = Inr data'"
  show "set EXPECTED_LANGUAGES \<subseteq> fst ` set (localizations_at data' key)"
    by (rule complete_after_repair [OF assms(2,3) fixer_master(2) [OF r assms(1,2)]
          fixer_master(3) [OF r assms(1,2)]])
next
  show "distinct EXPECTED_LANGUAGES" by (rule distinct_EXPECTED_LANGUAGES)
  show "length EXPECTED_LANGUAGES = 10" by (simp add: EXPECTED_LANGUAGES_def)
qed

text \<open>
  In the catalog of three entries, \<^verbatim>\<open>'Open'\<close> has only its English localization. It is
  translatable, it misses nine languages, and both repairs fill it.
\<close>

theorem repair_completes_incomplete_entries_witness:
  "distinct (map fst (strings_of mixed_catalog)) \<and>
   entry_of mixed_catalog ''Open'' =
     Some (JObj [(''localizations'', JObj [(''en'', string_unit (JStr ''Open''))])]) \<and>
   \<not> entry_excluded (JObj [(''localizations'', JObj [(''en'', string_unit (JStr ''Open''))])]) \<and>
   length (missing_from [(''en'', string_unit (JStr ''Open''))]) = 9 \<and>
   analyzer_fix_localizations mixed_catalog = Inr mixed_catalog_fixed \<and>
   fixer_fix_localizations mixed_catalog = Inr mixed_catalog_fixed \<and>
   set EXPECTED_LANGUAGES \<subseteq> fst ` set (localizations_at mixed_catalog_fixed ''Open'')"
proof -
  let ?e = "JObj [(''localizations'', JObj [(''en'', string_unit (JStr ''Open''))])]"
  have h2: "entry_of mixed_catalog ''Open'' = Some ?e" by code_simp
  have h3: "\<not> entry_excluded ?e" by code_simp
  have h4: "length (missing_from [(''en'', string_unit (JStr ''Open''))]) = 9" by code_simp
  note t = repair_completes_incomplete_entries [OF mixed_distinct h2 h3, of mixed_catalog_fixed]
  from t mixed_fixed(2)
  have a: "set EXPECTED_LANGUAGES \<subseteq> fst ` set (localizations_at mixed_catalog_fixed ''Open'')"
    by blast
  from t mixed_fixed(1)
  have "set EXPECTED_LANGUAGES \<subseteq> fst ` set (localizations_at mixed_catalog_fixed ''Open'')"
    by blast
  with mixed_distinct h2 h3 h4 mixed_fixed a show ?thesis by (intro conjI)
qed

section \<open>The value repair synthesizes\<close>

text \<open>
  Claim C5, as it holds. For every key and every language \<open>L\<close> that the analysis
  recorded as missing for it, the localization repair inserts under \<open>L\<close> is a
  translated string unit whose value comes from this chain, read against the localizations
  the entry had before repair. In localization\_analyzer.py: the entry of the local
  \<^verbatim>\<open>translation_map\<close> for the key and \<open>L\<close> if there is one; else the key when \<open>L\<close>
  is \<^verbatim>\<open>'en'\<close>; else the value of the existing \<^verbatim>\<open>'en'\<close> localization if there is one,
  and otherwise the key. In localization\_fixer.py: the entry of
  \<^verbatim>\<open>TRANSLATION_MAPPINGS\<close> for the key and \<open>L\<close> if there is one; else the key when
  \<open>L\<close> is \<^verbatim>\<open>'en'\<close>; else, when there is an existing \<^verbatim>\<open>'en'\<close> localization, the
  entry of \<^verbatim>\<open>TRANSLATION_MAPPINGS\<close> for its value and \<open>L\<close> if there is one and its
  value otherwise; else the key.
\<close>

theorem repair_value_chain:
  assumes "distinct (map fst (strings_of data))"
  shows "(analyzer_analyze_completeness data = Inr an \<and> lang \<in> set (missing_for an key) \<and>
          analyzer_fix_localizations data = Inr data' \<longrightarrow>
            map_of (localizations_at data' key) lang =
              Some (string_unit
                (claimed_choice translation_map key lang (localizations_at data key)))) \<and>
         (fixer_analyze_completeness data = Inr an \<and> lang \<in> set (missing_for an key) \<and>
          fixer_fix_localizations data = Inr data' \<longrightarrow>
            map_of (localizations_at data' key) lang =
              Some (string_unit (fixer_choice key lang (localizations_at data key))))"
proof (intro conjI impI)
  assume h: "analyzer_analyze_completeness data = Inr an \<and> lang \<in> set (missing_for an key) \<and>
          analyzer_fix_localizations data = Inr data'"
  then have r: "analyzer_fix_localizations data = Inr data'" by simp
  from h missing_for_entry [OF analyzer_analysis assms] obtain e where
    e: "entry_of data key = Some e" and ne: "\<not> entry_excluded e" and
    l: "lang \<in> set (missing_from (entry_localizations e))" and
    la: "localizations_at data key = entry_localizations e"
    by blast
  show "map_of (localizations_at data' key) lang =
          Some (string_unit (claimed_choice translation_map key lang (localizations_at data key)))"
    unfolding la by (rule chosen_after_repair [OF e ne l analyzer_master(3) [OF r assms e]])
next
  assume h: "fixer_analyze_completeness data = Inr an \<and> lang \<in> set (missing_for an key) \<and>
          fixer_fix_localizations data = Inr data'"
  then have r: "fixer_fix_localizations data = Inr data'" by simp
  from h missing_for_entry [OF fixer_analysis assms] obtain e where
    e: "entry_of data key = Some e" and ne: "\<not> entry_excluded e" and
    l: "lang \<in> set (missing_from (entry_localizations e))" and
    la: "localizations_at data key = entry_localizations e"
    by blast
  show "map_of (localizations_at data' key) lang =
          Some (string_unit (fixer_choice key lang (localizations_at data key)))"
    unfolding la by (rule chosen_after_repair [OF e ne l fixer_master(3) [OF r assms e]])
qed

text \<open>
  Claim C5 as stated leaves out the second lookup of localization\_fixer.py. For the key
  \<^verbatim>\<open>'Title'\<close> with the English value \<^verbatim>\<open>'Documentation'\<close> and German missing, the chain
  of the claim gives \<^verbatim>\<open>'Documentation'\<close>; the script inserts \<^verbatim>\<open>'Dokumentation'\<close>, the
  table's German phrase for the English value.
\<close>

theorem fixer_translates_the_english_value:
  "get_translation_value ''Title'' ''de'' (JObj (localizations_at title_catalog ''Title'')) =
     Inr (JStr ''Dokumentation'') \<and>
   claimed_choice TRANSLATION_MAPPINGS ''Title'' ''de'' (localizations_at title_catalog ''Title'') =
     JStr ''Documentation'' \<and>
   fixer_fix_localizations title_catalog = Inr title_catalog_fixed \<and>
   map_of (localizations_at title_catalog_fixed ''Title'') ''de'' =
     Some (string_unit (JStr ''Dokumentation''))"
  by code_simp

text \<open>
  In the catalog of three entries German is missing for \<^verbatim>\<open>'Open'\<close>, and the chain ends at
  the English value.
\<close>

theorem repair_value_chain_witness:
  "distinct (map fst (strings_of mixed_catalog)) \<and>
   fixer_analyze_completeness mixed_catalog = Inr mixed_analysis \<and>
   ''de'' \<in> set (missing_for mixed_analysis ''Open'') \<and>
   fixer_fix_localizations mixed_catalog = Inr mixed_catalog_fixed \<and>
   map_of (localizations_at mixed_catalog_fixed ''Open'') ''de'' =
     Some (string_unit (fixer_choice ''Open'' ''de'' (localizations_at mixed_catalog ''Open''))) \<and>
   fixer_choice ''Open'' ''de'' (localizations_at mixed_catalog ''Open'') = JStr ''Open''"
proof -
  have i: "''de'' \<in> set (missing_for mixed_analysis ''Open'')" by code_simp
  have c: "fixer_choice ''Open'' ''de'' (localizations_at mixed_catalog ''Open'') = JStr ''Open''"
    by code_simp
  from repair_value_chain [OF mixed_distinct,
      of mixed_analysis "''de''" "''Open''" mixed_catalog_fixed]
    mixed_analysed i mixed_fixed(1)
  have "map_of (localizations_at mixed_catalog_fixed ''Open'') ''de'' =
     Some (string_unit (fixer_choice ''Open'' ''de'' (localizations_at mixed_catalog ''Open'')))"
    by blast
  with mixed_distinct mixed_analysed i mixed_fixed(1) c show ?thesis by (intro conjI)
qed

section \<open>Entries that are incomplete by state only\<close>

text \<open>
  Claim C10. An entry that localization\_analyzer.py reports as incomplete although it
  misses no language, because some localization has a state other than
  \<^verbatim>\<open>'translated'\<close>, comes out of that script's repair as it went in: nothing inserted,
  no state changed. Its key is in \<^verbatim>\<open>incomplete_keys\<close> with no missing languages
  recorded, and it is in \<^verbatim>\<open>incomplete_keys\<close> again whenever the repaired catalog is
  analysed.
\<close>

theorem analyzer_repair_skips_untranslated_entries:
  assumes "distinct (map fst (strings_of data))"
    and "entry_of data key = Some e"
    and "\<not> entry_excluded e"
    and "missing_from (entry_localizations e) = []"
    and "\<exists>(lang, loc) \<in> set (entry_localizations e). state_of loc \<noteq> JStr ''translated''"
    and "analyzer_fix_localizations data = Inr data'"
  shows "entry_of data' key = Some e \<and>
         (\<exists>an. analyzer_analyze_completeness data = Inr an \<and>
               key \<in> set (incomplete_keys an) \<and> missing_for an key = []) \<and>
         (analyzer_analyze_completeness data' = Inr an' \<longrightarrow> key \<in> set (incomplete_keys an'))"
proof (intro conjI impI)
  from assms(3,4,5) have inc: "entry_incomplete True e"
    by (simp add: entry_incomplete_def states_translated_iff)
  show e': "entry_of data' key = Some e"
    using analyzer_master(2) [OF assms(6,1,2)] assms(4) by simp
  from assms(6) obtain an where an: "analyzer_analyze_completeness data = Inr an"
    by (auto simp: analyzer_fix_localizations_def split: sum.splits)
  from assms(2) have mo: "map_of (strings_of data) key = Some e" by (simp add: entry_of_def)
  then have mem: "(key, e) \<in> set (strings_of data)" by (rule map_of_SomeD)
  have "key \<in> set (incomplete_keys an)"
    unfolding tallied_fields(4) [OF analyzer_analysis [OF an]]
    using in_incomplete_keys [OF assms(1) mem, of True] inc by simp
  moreover have "missing_for an key = []"
    using analysis_missing_for [OF analyzer_analysis [OF an] assms(1) mo] assms(4) by simp
  ultimately show "\<exists>an. analyzer_analyze_completeness data = Inr an \<and>
               key \<in> set (incomplete_keys an) \<and> missing_for an key = []"
    using an by blast
  assume an': "analyzer_analyze_completeness data' = Inr an'"
  have d': "distinct (map fst (strings_of data'))"
    using analyzer_master(1) [OF assms(6,1)] assms(1) by simp
  from e' have mem': "(key, e) \<in> set (strings_of data')"
    by (auto simp: entry_of_def dest: map_of_SomeD)
  show "key \<in> set (incomplete_keys an')"
    unfolding tallied_fields(4) [OF analyzer_analysis [OF an']]
    using in_incomplete_keys [OF d' mem', of True] inc by simp
qed

text \<open>
  The entry \<^verbatim>\<open>'Save'\<close> of the catalog of three entries is such an entry; the analysis of
  the repaired catalog returns and still lists it.
\<close>

theorem analyzer_repair_skips_untranslated_entries_witness:
  "distinct (map fst (strings_of mixed_catalog)) \<and>
   entry_of mixed_catalog ''Save'' = Some needs_review_entry \<and>
   \<not> entry_excluded needs_review_entry \<and>
   missing_from (entry_localizations needs_review_entry) = [] \<and>
   \<not> states_translated needs_review_entry \<and>
   analyzer_fix_localizations mixed_catalog = Inr mixed_catalog_fixed \<and>
   entry_of mixed_catalog_fixed ''Save'' = Some needs_review_entry \<and>
   analyzer_analyze_completeness mixed_catalog_fixed =
     Inr \<lparr>total_keys = 3, complete_keys = 1, incomplete_keys = [''Save''],
          missing_languages = [], should_not_translate = 1, completion_percentage = Finite 50\<rparr>"
proof -
  have h2: "entry_of mixed_catalog ''Save'' = Some needs_review_entry" by code_simp
  have h3: "\<not> entry_excluded needs_review_entry" by code_simp
  have h4: "missing_from (entry_localizations needs_review_entry) = []" by code_simp
  have h5: "\<not> states_translated needs_review_entry" by code_simp
  then have h5': "\<exists>(lang, loc) \<in> set (entry_localizations needs_review_entry).
       state_of loc \<noteq> JStr ''translated''"
    by (simp add: states_translated_iff)
  have a: "analyzer_analyze_completeness mixed_catalog_fixed =
     Inr \<lparr>total_keys = 3, complete_keys = 1, incomplete_keys = [''Save''],
          missing_languages = [], should_not_translate = 1, completion_percentage = Finite 50\<rparr>"
    by code_simp
  from analyzer_repair_skips_untranslated_entries [OF mixed_distinct h2 h3 h4 h5' mixed_fixed(2)]
  have "entry_of mixed_catalog_fixed ''Save'' = Some needs_review_entry" by blast
  with mixed_distinct h2 h3 h4 h5 mixed_fixed(2) a show ?thesis by (intro conjI)
qed

section \<open>The normalizer is idempotent\<close>

text \<open>
  Claim C7. Running fix\_localizations.py on the file it has just written leaves the file
  as it is: the catalog after two runs is the catalog after one run, also when the pass
  writes nothing. A document the pass has written is written back unchanged by the next
  pass.
\<close>

theorem normalizer_idempotent:
  "normalizer_run (normalizer_run data) = normalizer_run data \<and>
   (normalizer_fix_localizations data = Inr (Some data') \<longrightarrow>
      normalizer_fix_localizations data' = Inr (Some data'))"
proof
  show "normalizer_run (normalizer_run data) = normalizer_run data"
  proof (cases "normalizer_fix_localizations data")
    case (Inl e)
    then show ?thesis by (simp add: normalizer_run_def)
  next
    case (Inr r)
    show ?thesis
    proof (cases r)
      case None
      with Inr show ?thesis by (simp add: normalizer_run_def)
    next
      case (Some d)
      with Inr normalizer_Inr(1) [of data d] show ?thesis by (simp add: normalizer_run_def)
    qed
  qed
  show "normalizer_fix_localizations data = Inr (Some data') \<longrightarrow>
      normalizer_fix_localizations data' = Inr (Some data')"
    using normalizer_Inr(1) by blast
qed

text \<open>
  The catalog of three entries is changed by the first pass and not by the second.
\<close>

theorem normalizer_idempotent_witness:
  "normalizer_fix_localizations mixed_catalog = Inr (Some mixed_catalog_normalized) \<and>
   normalizer_fix_localizations mixed_catalog_normalized = Inr (Some mixed_catalog_normalized) \<and>
   mixed_catalog_normalized \<noteq> mixed_catalog"
proof -
  from normalizer_idempotent [of mixed_catalog mixed_catalog_normalized] mixed_normalized
  have "normalizer_fix_localizations mixed_catalog_normalized = Inr (Some mixed_catalog_normalized)"
    by blast
  moreover have "mixed_catalog_normalized \<noteq> mixed_catalog" by code_simp
  ultimately show ?thesis using mixed_normalized by (intro conjI)
qed

section \<open>The normalizer and the states\<close>

text \<open>
  Claim C8, as it holds. After the normalizer, every localization that existed in a
  translatable entry of the input and has a \<^verbatim>\<open>'stringUnit'\<close> object has the state
  \<^verbatim>\<open>'translated'\<close>, also when the string unit had no state field before. A localization
  without a \<^verbatim>\<open>'stringUnit'\<close> is passed over: it is written back unchanged and has no
  state.
\<close>

theorem normalizer_coerces_states:
  assumes "normalizer_fix_localizations data = Inr (Some data')"
    and "entry_of data key = Some e"
    and "\<not> entry_excluded e"
    and "map_of (entry_localizations e) lang = Some loc"
  shows "\<exists>loc'. map_of (localizations_at data' key) lang = Some loc' \<and>
           (py_contains ''stringUnit'' loc = Inr True \<longrightarrow> state_of loc' = JStr ''translated'') \<and>
           (py_contains ''stringUnit'' loc = Inr False \<longrightarrow> loc' = loc)"
proof -
  from normalizer_Inr(3) [OF assms(1,2)] obtain e' where
    n: "normalize_entry key e = Inr e'" and e': "entry_of data' key = Some e'"
    by blast
  from normalize_entry_Inr(3) [OF n assms(3,4)] obtain loc' where
    s: "normalize_state loc = Inr loc'" and m: "map_of (entry_localizations e') lang = Some loc'"
    by blast
  from e' m have "map_of (localizations_at data' key) lang = Some loc'"
    by (simp add: localizations_at_def)
  with normalize_state_keeps [OF s] show ?thesis by blast
qed

text \<open>
  Claim C8 as stated includes the localizations without a \<^verbatim>\<open>'stringUnit'\<close> object. Both
  tests of the script start with \<^verbatim>\<open>'stringUnit' in localization\<close>, so such a
  localization, here one with plural variations, still has no state after the pass.
\<close>

theorem normalizer_leaves_bare_localization:
  "normalizer_fix_localizations variations_catalog = Inr (Some variations_catalog_normalized) \<and>
   \<not> entry_excluded (JObj [(''localizations'', JObj [(''es'', JObj [(''variations'', JObj [])])])]) \<and>
   map_of (localizations_at variations_catalog ''Hello'') ''es'' =
     Some (JObj [(''variations'', JObj [])]) \<and>
   map_of (localizations_at variations_catalog_normalized ''Hello'') ''es'' =
     Some (JObj [(''variations'', JObj [])]) \<and>
   state_of (JObj [(''variations'', JObj [])]) = JNull"
  by code_simp

text \<open>
  In the catalog of three entries the French localization of \<^verbatim>\<open>'Save'\<close> goes from
  \<^verbatim>\<open>'needs_review'\<close> to \<^verbatim>\<open>'translated'\<close>.
\<close>

theorem normalizer_coerces_states_witness:
  "normalizer_fix_localizations mixed_catalog = Inr (Some mixed_catalog_normalized) \<and>
   entry_of mixed_catalog ''Save'' = Some needs_review_entry \<and>
   \<not> entry_excluded needs_review_entry \<and>
   map_of (entry_localizations needs_review_entry) ''fr'' =
     Some (JObj [(''stringUnit'',
             JObj [(''state'', JStr ''needs_review''), (''value'', JStr ''Save'')])]) \<and>
   py_contains ''stringUnit'' (JObj [(''stringUnit'',
             JObj [(''state'', JStr ''needs_review''), (''value'', JStr ''Save'')])]) = Inr True \<and>
   map_of (localizations_at mixed_catalog_normalized ''Save'') ''fr'' =
     Some (string_unit (JStr ''Save'')) \<and>
   state_of (string_unit (JStr ''Save'')) = JStr ''translated''"
proof -
  let ?loc = "JObj [(''stringUnit'',
             JObj [(''state'', JStr ''needs_review''), (''value'', JStr ''Save'')])]"
  have h2: "entry_of mixed_catalog ''Save'' = Some needs_review_entry" by code_simp
  have h3: "\<not> entry_excluded needs_review_entry" by code_simp
  have h4: "map_of (entry_localizations needs_review_entry) ''fr'' = Some ?loc" by code_simp
  have h5: "py_contains ''stringUnit'' ?loc = Inr True" by code_simp
  have h6: "map_of (localizations_at mixed_catalog_normalized ''Save'') ''fr'' =
     Some (string_unit (JStr ''Save''))" by code_simp
  from normalizer_coerces_states [OF mixed_normalized h2 h3 h4] h5 h6
  have "state_of (string_unit (JStr ''Save'')) = JStr ''translated''"
    by auto
  with mixed_normalized h2 h3 h4 h5 h6 show ?thesis by (intro conjI)
qed

section \<open>Entries that are not to be translated\<close>

text \<open>
  Claim C9. An entry whose \<^verbatim>\<open>shouldTranslate\<close> is false is the same value after either
  repair and after the normalizer, its key is never in \<^verbatim>\<open>incomplete_keys\<close>, and the
  denominator of the completion percentage, total minus excluded, is the number of entries
  that are not excluded.
\<close>

theorem excluded_entries_are_left_alone:
  assumes "distinct (map fst (strings_of data))"
    and "entry_of data key = Some e"
    and "entry_excluded e"
  shows "(analyzer_fix_localizations data = Inr data' \<longrightarrow> entry_of data' key = Some e) \<and>
         (fixer_fix_localizations data = Inr data' \<longrightarrow> entry_of data' key = Some e) \<and>
         (normalizer_fix_localizations data = Inr (Some data') \<longrightarrow> entry_of data' key = Some e) \<and>
         (analyzer_analyze_completeness data = Inr an \<longrightarrow>
            key \<notin> set (incomplete_keys an) \<and>
            int (total_keys an) - int (should_not_translate an) =
              int (length (filter (\<lambda>kv. \<not> entry_excluded (snd kv)) (strings_of data)))) \<and>
         (fixer_analyze_completeness data = Inr an \<longrightarrow>
            key \<notin> set (incomplete_keys an) \<and>
            int (total_keys an) - int (should_not_translate an) =
              int (length (filter (\<lambda>kv. \<not> entry_excluded (snd kv)) (strings_of data)))) \<and>
         (check_localization_status data = Inr (s, p) \<longrightarrow>
            int (st_total_keys s) - int (st_should_not_translate s) =
              int (length (filter (\<lambda>kv. \<not> entry_excluded (snd kv)) (strings_of data))))"
proof (intro conjI impI)
  from assms(2) have mem: "(key, e) \<in> set (strings_of data)"
    by (auto simp: entry_of_def dest: map_of_SomeD)
  {
    assume r: "analyzer_fix_localizations data = Inr data'"
    show "entry_of data' key = Some e"
      using analyzer_master(2) [OF r assms(1,2)] assms(3) by simp
  }
  {
    assume r: "fixer_fix_localizations data = Inr data'"
    show "entry_of data' key = Some e"
      using fixer_master(2) [OF r assms(1,2)] assms(3) by simp
  }
  {
    assume r: "normalizer_fix_localizations data = Inr (Some data')"
    from normalizer_Inr(3) [OF r assms(2)] obtain e' where
      "normalize_entry key e = Inr e'" "entry_of data' key = Some e'" by blast
    with normalize_entry_Inr(2) [OF this(1) assms(3)] show "entry_of data' key = Some e" by simp
  }
  {
    assume a: "analyzer_analyze_completeness data = Inr an"
    note f = tallied_fields [OF analyzer_analysis [OF a]]
    show "key \<notin> set (incomplete_keys an)"
      unfolding f(4) using in_incomplete_keys [OF assms(1) mem, of True] assms(3)
      by (simp add: entry_incomplete_def)
    show "int (total_keys an) - int (should_not_translate an) =
              int (length (filter (\<lambda>kv. \<not> entry_excluded (snd kv)) (strings_of data)))"
      unfolding f(1) f(2) by (rule not_excluded_count)
  }
  {
    assume a: "fixer_analyze_completeness data = Inr an"
    note f = tallied_fields [OF fixer_analysis [OF a]]
    show "key \<notin> set (incomplete_keys an)"
      unfolding f(4) using in_incomplete_keys [OF assms(1) mem, of False] assms(3)
      by (simp add: entry_incomplete_def)
    show "int (total_keys an) - int (should_not_translate an) =
              int (length (filter (\<lambda>kv. \<not> entry_excluded (snd kv)) (strings_of data)))"
      unfolding f(1) f(2) by (rule not_excluded_count)
  }
  {
    assume a: "check_localization_status data = Inr (s, p)"
    note f = status_analysis [OF a]
    show "int (st_total_keys s) - int (st_should_not_translate s) =
              int (length (filter (\<lambda>kv. \<not> entry_excluded (snd kv)) (strings_of data)))"
      unfolding f(1) f(2) by (rule not_excluded_count)
  }
qed

text \<open>The entry \<^verbatim>\<open>'Brand'\<close> of the catalog of three entries.\<close>

theorem excluded_entries_are_left_alone_witness:
  "distinct (map fst (strings_of mixed_catalog)) \<and>
   entry_of mixed_catalog ''Brand'' = Some (JObj [(''shouldTranslate'', JBool False)]) \<and>
   entry_excluded (JObj [(''shouldTranslate'', JBool False)]) \<and>
   analyzer_fix_localizations mixed_catalog = Inr mixed_catalog_fixed \<and>
   fixer_fix_localizations mixed_catalog = Inr mixed_catalog_fixed \<and>
   normalizer_fix_localizations mixed_catalog = Inr (Some mixed_catalog_normalized) \<and>
   fixer_analyze_completeness mixed_catalog = Inr mixed_analysis \<and>
   entry_of mixed_catalog_fixed ''Brand'' = Some (JObj [(''shouldTranslate'', JBool False)]) \<and>
   entry_of mixed_catalog_normalized ''Brand'' = Some (JObj [(''shouldTranslate'', JBool False)]) \<and>
   ''Brand'' \<notin> set (incomplete_keys mixed_analysis) \<and>
   int (total_keys mixed_analysis) - int (should_not_translate mixed_analysis) = 2"
proof -
  let ?e = "JObj [(''shouldTranslate'', JBool False)]"
  have h2: "entry_of mixed_catalog ''Brand'' = Some ?e" by code_simp
  have h3: "entry_excluded ?e" by code_simp
  note t = excluded_entries_are_left_alone [OF mixed_distinct h2 h3]
  from t [of mixed_catalog_fixed] mixed_fixed
  have a: "entry_of mixed_catalog_fixed ''Brand'' = Some ?e" by blast
  from t [of mixed_catalog_normalized] mixed_normalized
  have b: "entry_of mixed_catalog_normalized ''Brand'' = Some ?e" by blast
  from t [where an = mixed_analysis] mixed_analysed
  have c: "''Brand'' \<notin> set (incomplete_keys mixed_analysis)" by blast
  have d: "int (total_keys mixed_analysis) - int (should_not_translate mixed_analysis) = 2"
    by (simp add: mixed_analysis_def)
  from mixed_distinct h2 h3 mixed_fixed mixed_normalized mixed_analysed a b c d
  show ?thesis by (intro conjI)
qed

end
